theory Spec2Isabelle
  imports Main "HOL-Library.Word"
begin

unbundle bit_operations_syntax

section \<open>Constants of modbusCommon.h and modbus.c\<close>

text \<open>
  Bytes are \<open>8 word\<close>, transaction identifiers \<open>16 word\<close>. Buffer lengths and
  offsets are natural numbers; the source's \<open>(uint16_t)\<close> casts on them are written
  as \<open>mod 65536\<close>.
\<close>

definition READ_COILS :: "8 word" where "READ_COILS = 1"
definition READ_DISCRETE_INPUTS :: "8 word" where "READ_DISCRETE_INPUTS = 2"
definition READ_MULTIPLE_HOLDING_REGISTERS :: "8 word" where "READ_MULTIPLE_HOLDING_REGISTERS = 3"
definition READ_INPUT_REGISTERS :: "8 word" where "READ_INPUT_REGISTERS = 4"
definition WRITE_SINGLE_COIL :: "8 word" where "WRITE_SINGLE_COIL = 5"
definition WRITE_SINGLE_HOLDING_REGISTER :: "8 word" where "WRITE_SINGLE_HOLDING_REGISTER = 6"
definition READ_EXCEPTION_STATUS :: "8 word" where "READ_EXCEPTION_STATUS = 7"
definition WRITE_MULTIPLE_COILS :: "8 word" where "WRITE_MULTIPLE_COILS = 15"
definition WRITE_MULTIPLE_HOLDING_REGISTERS :: "8 word" where "WRITE_MULTIPLE_HOLDING_REGISTERS = 16"
definition READ_FILE :: "8 word" where "READ_FILE = 20"
definition WRITE_FILE :: "8 word" where "WRITE_FILE = 21"

lemmas fcode_defs = READ_COILS_def READ_DISCRETE_INPUTS_def READ_MULTIPLE_HOLDING_REGISTERS_def
  READ_INPUT_REGISTERS_def WRITE_SINGLE_COIL_def WRITE_SINGLE_HOLDING_REGISTER_def
  READ_EXCEPTION_STATUS_def WRITE_MULTIPLE_COILS_def WRITE_MULTIPLE_HOLDING_REGISTERS_def
  READ_FILE_def WRITE_FILE_def

definition ILLEGAL_FUNCTION :: "8 word" where "ILLEGAL_FUNCTION = 1"
definition ILLEGAL_DATA_ADDRESS :: "8 word" where "ILLEGAL_DATA_ADDRESS = 2"
definition ILLEGAL_DATA_VALUE :: "8 word" where "ILLEGAL_DATA_VALUE = 3"
definition MODBUS_TIMEOUT :: "8 word" where "MODBUS_TIMEOUT = 20"
definition MESSAGE_SEND_FAIL :: "8 word" where "MESSAGE_SEND_FAIL = 21"
definition HANDLE_IN_USE :: "8 word" where "HANDLE_IN_USE = 22"
definition INVALID_RESPONSE :: "8 word" where "INVALID_RESPONSE = 23"

lemmas error_defs = ILLEGAL_FUNCTION_def ILLEGAL_DATA_ADDRESS_def ILLEGAL_DATA_VALUE_def
  MODBUS_TIMEOUT_def MESSAGE_SEND_FAIL_def HANDLE_IN_USE_def INVALID_RESPONSE_def

definition CRC_FOOTER_LENGTH :: nat where "CRC_FOOTER_LENGTH = 2"
definition PDU_HEADER_LENGTH :: nat where "PDU_HEADER_LENGTH = 3"
definition ERROR_CODE_LENGTH :: nat where "ERROR_CODE_LENGTH = 3"
definition FCODE_RANGE :: nat where "FCODE_RANGE = 32"
definition FCODE_ERROR_OFFSET :: nat where "FCODE_ERROR_OFFSET = 128"
definition MAX_PDU_LENGTH :: nat where "MAX_PDU_LENGTH = 254"
definition UART_CFG_MESSAGE_RESP_LENGTH :: nat where "UART_CFG_MESSAGE_RESP_LENGTH = 1"
definition TCP_HEADER_LENGTH :: nat where "TCP_HEADER_LENGTH = 6"
definition MESSAGE_HEADER_LENGTH :: nat where "MESSAGE_HEADER_LENGTH = 4"
definition MODBUS_EXCEPTION_BIT :: "8 word" where "MODBUS_EXCEPTION_BIT = 0x80"
definition WRITE_RESPONSE_START :: nat where "WRITE_RESPONSE_START = 2"
definition WRITE_RESPONSE_BYTES :: nat where "WRITE_RESPONSE_BYTES = 4"

lemmas length_defs = CRC_FOOTER_LENGTH_def PDU_HEADER_LENGTH_def ERROR_CODE_LENGTH_def
  FCODE_RANGE_def FCODE_ERROR_OFFSET_def MAX_PDU_LENGTH_def UART_CFG_MESSAGE_RESP_LENGTH_def
  TCP_HEADER_LENGTH_def MESSAGE_HEADER_LENGTH_def

text \<open>Message header of the inter-core link (enums \<open>messageProtocol\<close>, \<open>serialPortMsgTypes\<close>,
  \<open>modbusMsgTypes\<close>).\<close>

definition UART :: "8 word" where "UART = 1"
definition MODBUS :: "8 word" where "MODBUS = 2"
definition UART_CFG_MESSAGE :: "8 word" where "UART_CFG_MESSAGE = 1"
definition MODBUS_DATA_MESSAGE :: "8 word" where "MODBUS_DATA_MESSAGE = 1"

section \<open>Byte buffers\<close>

text \<open>
  \<open>memcpy dst off src n\<close> is \<open>memcpy(&dst[off], src, n)\<close> on a buffer held as a list:
  the \<open>n\<close> bytes from position \<open>off\<close> are replaced, the length of \<open>dst\<close> stays.
  The callers keep \<open>off + n \<le> length dst\<close> and \<open>n \<le> length src\<close>, as the C code
  has to.
\<close>

definition memcpy :: "'a list \<Rightarrow> nat \<Rightarrow> 'a list \<Rightarrow> nat \<Rightarrow> 'a list" where
  "memcpy dst off src n = take off dst @ take n src @ drop (off + n) dst"

section \<open>CRC16 (SlaveSimulator/modbuscommands.c)\<close>

definition CRCTable :: "16 word list" where
  "CRCTable = [
    0x0000, 0xC0C1, 0xC181, 0x0140, 0xC301, 0x03C0, 0x0280, 0xC241,
    0xC601, 0x06C0, 0x0780, 0xC741, 0x0500, 0xC5C1, 0xC481, 0x0440,
    0xCC01, 0x0CC0, 0x0D80, 0xCD41, 0x0F00, 0xCFC1, 0xCE81, 0x0E40,
    0x0A00, 0xCAC1, 0xCB81, 0x0B40, 0xC901, 0x09C0, 0x0880, 0xC841,
    0xD801, 0x18C0, 0x1980, 0xD941, 0x1B00, 0xDBC1, 0xDA81, 0x1A40,
    0x1E00, 0xDEC1, 0xDF81, 0x1F40, 0xDD01, 0x1DC0, 0x1C80, 0xDC41,
    0x1400, 0xD4C1, 0xD581, 0x1540, 0xD701, 0x17C0, 0x1680, 0xD641,
    0xD201, 0x12C0, 0x1380, 0xD341, 0x1100, 0xD1C1, 0xD081, 0x1040,
    0xF001, 0x30C0, 0x3180, 0xF141, 0x3300, 0xF3C1, 0xF281, 0x3240,
    0x3600, 0xF6C1, 0xF781, 0x3740, 0xF501, 0x35C0, 0x3480, 0xF441,
    0x3C00, 0xFCC1, 0xFD81, 0x3D40, 0xFF01, 0x3FC0, 0x3E80, 0xFE41,
    0xFA01, 0x3AC0, 0x3B80, 0xFB41, 0x3900, 0xF9C1, 0xF881, 0x3840,
    0x2800, 0xE8C1, 0xE981, 0x2940, 0xEB01, 0x2BC0, 0x2A80, 0xEA41,
    0xEE01, 0x2EC0, 0x2F80, 0xEF41, 0x2D00, 0xEDC1, 0xEC81, 0x2C40,
    0xE401, 0x24C0, 0x2580, 0xE541, 0x2700, 0xE7C1, 0xE681, 0x2640,
    0x2200, 0xE2C1, 0xE381, 0x2340, 0xE101, 0x21C0, 0x2080, 0xE041,
    0xA001, 0x60C0, 0x6180, 0xA141, 0x6300, 0xA3C1, 0xA281, 0x6240,
    0x6600, 0xA6C1, 0xA781, 0x6740, 0xA501, 0x65C0, 0x6480, 0xA441,
    0x6C00, 0xACC1, 0xAD81, 0x6D40, 0xAF01, 0x6FC0, 0x6E80, 0xAE41,
    0xAA01, 0x6AC0, 0x6B80, 0xAB41, 0x6900, 0xA9C1, 0xA881, 0x6840,
    0x7800, 0xB8C1, 0xB981, 0x7940, 0xBB01, 0x7BC0, 0x7A80, 0xBA41,
    0xBE01, 0x7EC0, 0x7F80, 0xBF41, 0x7D00, 0xBDC1, 0xBC81, 0x7C40,
    0xB401, 0x74C0, 0x7580, 0xB541, 0x7700, 0xB7C1, 0xB681, 0x7640,
    0x7200, 0xB2C1, 0xB381, 0x7340, 0xB101, 0x71C0, 0x7080, 0xB041,
    0x5000, 0x90C1, 0x9181, 0x5140, 0x9301, 0x53C0, 0x5280, 0x9241,
    0x9601, 0x56C0, 0x5780, 0x9741, 0x5500, 0x95C1, 0x9481, 0x5440,
    0x9C01, 0x5CC0, 0x5D80, 0x9D41, 0x5F00, 0x9FC1, 0x9E81, 0x5E40,
    0x5A00, 0x9AC1, 0x9B81, 0x5B40, 0x9901, 0x59C0, 0x5880, 0x9841,
    0x8801, 0x48C0, 0x4980, 0x8941, 0x4B00, 0x8BC1, 0x8A81, 0x4A40,
    0x4E00, 0x8EC1, 0x8F81, 0x4F40, 0x8D01, 0x4DC0, 0x4C80, 0x8C41,
    0x4400, 0x84C1, 0x8581, 0x4540, 0x8701, 0x47C0, 0x4680, 0x8641,
    0x8201, 0x42C0, 0x4380, 0x8341, 0x4100, 0x81C1, 0x8081, 0x4040]"

text \<open>
  One pass of the loop body of \<open>GetCRC\<close>:
  \<open>TempNo = message[i] ^ crcVal; crcVal >>= 8; crcVal ^= CRCTable[TempNo];\<close>
  where the assignment to the \<open>uint8_t TempNo\<close> keeps the low byte.
\<close>

definition crc_step :: "8 word \<Rightarrow> 16 word \<Rightarrow> 16 word" where
  "crc_step b crcVal =
     (let TempNo = b XOR (ucast crcVal :: 8 word)
      in drop_bit 8 crcVal XOR CRCTable ! unat TempNo)"

definition GetCRC :: "8 word list \<Rightarrow> nat \<Rightarrow> 16 word" where
  "GetCRC message inputLength = fold crc_step (take inputLength message) 0xFFFF"

text \<open>
  \<open>AddCRC\<close> writes into the caller's buffer \<open>message\<close>, whose capacity the caller
  states as \<open>maxInputLength\<close>; the model returns the flag and the buffer.
  The lengths are \<open>int\<close> in the source and never negative at its call sites.
\<close>

definition AddCRC :: "8 word list \<Rightarrow> nat \<Rightarrow> nat \<Rightarrow> bool \<times> 8 word list" where
  "AddCRC message inputLength maxInputLength =
     (if inputLength + 2 \<le> maxInputLength then
        (let crcVal = GetCRC message inputLength;
             message1 = message[inputLength := (ucast (crcVal AND 0xFF) :: 8 word)];
             message2 = message1[inputLength + 1 := (ucast (drop_bit 8 crcVal) :: 8 word)]
         in (True, message2))
      else (False, message))"

text \<open>
  Modelled from the spec: \<open>ValidateCRC\<close> is declared in crc-util.h and defined in
  crc-util.c, which is not among the sources. The spec gives
  \<open>validate(bytes_including_trailing_crc) -> bool\<close> for the standard Modbus CRC16 with
  a little-endian trailer: the CRC of the first \<open>inputLength - 2\<close> bytes has to equal the
  last two bytes, low byte first.
\<close>

definition ValidateCRC :: "8 word list \<Rightarrow> nat \<Rightarrow> bool" where
  "ValidateCRC message inputLength =
     (2 \<le> inputLength \<and>
      (let crcVal = GetCRC message (inputLength - 2)
       in message ! (inputLength - 2) = (ucast (crcVal AND 0xFF) :: 8 word) \<and>
          message ! (inputLength - 1) = (ucast (drop_bit 8 crcVal) :: 8 word)))"

text \<open>
  The spec's description of the table: the standard Modbus CRC16, reflected polynomial
  \<open>0xA001\<close>, one table entry per byte value, eight shift steps each.
\<close>

definition crc16_bit :: "16 word \<Rightarrow> 16 word" where
  "crc16_bit c = (if bit c 0 then drop_bit 1 c XOR 0xA001 else drop_bit 1 c)"

definition crc16_entry :: "nat \<Rightarrow> 16 word" where
  "crc16_entry i = (crc16_bit ^^ 8) (of_nat i)"

section \<open>Function-code length table (modbus.c, GetFcodeLength)\<close>

definition GetFcodeLength :: "8 word \<Rightarrow> 8 word \<Rightarrow> nat" where
  "GetFcodeLength fCode dataLength =
     (if unat fCode > FCODE_ERROR_OFFSET \<and> unat fCode \<le> FCODE_ERROR_OFFSET + FCODE_RANGE
      then ERROR_CODE_LENGTH
      else if fCode = READ_COILS then (PDU_HEADER_LENGTH + unat dataLength) mod 65536
      else if fCode = READ_DISCRETE_INPUTS then (PDU_HEADER_LENGTH + unat dataLength) mod 65536
      else if fCode = READ_MULTIPLE_HOLDING_REGISTERS
        then (PDU_HEADER_LENGTH + unat dataLength) mod 65536
      else if fCode = READ_INPUT_REGISTERS then (PDU_HEADER_LENGTH + unat dataLength) mod 65536
      else if fCode = READ_FILE then (PDU_HEADER_LENGTH + unat dataLength) mod 65536
      else if fCode = WRITE_SINGLE_COIL then PDU_HEADER_LENGTH + 3
      else if fCode = WRITE_SINGLE_HOLDING_REGISTER then PDU_HEADER_LENGTH + 3
      else if fCode = READ_EXCEPTION_STATUS then PDU_HEADER_LENGTH
      else if fCode = WRITE_MULTIPLE_COILS then PDU_HEADER_LENGTH + 3
      else if fCode = WRITE_MULTIPLE_HOLDING_REGISTERS then PDU_HEADER_LENGTH + 3
      else if fCode = WRITE_FILE then (PDU_HEADER_LENGTH + unat dataLength) mod 65536
      else 0)"


section \<open>The connection handle (modbus.c)\<close>

datatype modbusTransportType_t = tcp | rtuOverTcp | rtu

datatype messageHandlerState_t = success | failure | waiting

datatype MODBUS_STATE =
  Idle | SendingRequest | WaitingForResponse | DataReceived | TransactionFailed | Disconnected

text \<open>
  \<open>struct _modbus_t\<close> without \<open>connectData\<close>, which the protocol engine only reads for
  the serial configuration message. The two buffers are arrays of \<open>MAX_PDU_LENGTH\<close>
  bytes: lists of that length, of which \<open>bufferedMessageLength\<close> and \<open>pduLength\<close> bytes
  are valid; the bytes behind are whatever earlier traffic left there.
\<close>

record modbus_t =
  type :: modbusTransportType_t
  fd :: int
  transactionId :: "16 word"
  lastTransactionId :: "16 word"
  state :: MODBUS_STATE
  bufferedMessageLength :: nat
  pduLength :: nat
  isCFG :: bool
  bufferedMessage :: "8 word list"
  pdu :: "8 word list"

section \<open>Reassembly and transaction correlation (MessageHandler)\<close>

text \<open>The locals that MessageHandler sets per transport type (lines 1210-1245).\<close>

record transport_layout =
  minLength :: nat
  fCodeOffset :: nat
  pduLengthOffset :: nat
  transportHeaderLength :: nat
  transportFooterLength :: nat
  checkTransaction :: bool
  checkCRC :: bool

definition transport_layout :: "modbusTransportType_t \<Rightarrow> transport_layout option" where
  "transport_layout t =
     (if t = rtu then
        Some \<lparr>minLength = MESSAGE_HEADER_LENGTH + PDU_HEADER_LENGTH,
              fCodeOffset = MESSAGE_HEADER_LENGTH + 1,
              pduLengthOffset = MESSAGE_HEADER_LENGTH + 1 + 1,
              transportHeaderLength = MESSAGE_HEADER_LENGTH,
              transportFooterLength = 0,
              checkTransaction = False, checkCRC = False\<rparr>
      else if t = rtuOverTcp then
        Some \<lparr>minLength = CRC_FOOTER_LENGTH + PDU_HEADER_LENGTH,
              fCodeOffset = 1,
              pduLengthOffset = 1 + 1,
              transportHeaderLength = 0,
              transportFooterLength = CRC_FOOTER_LENGTH,
              checkTransaction = False, checkCRC = True\<rparr>
      else if t = tcp then
        Some \<lparr>minLength = TCP_HEADER_LENGTH + PDU_HEADER_LENGTH,
              fCodeOffset = TCP_HEADER_LENGTH + 1,
              pduLengthOffset = TCP_HEADER_LENGTH + 1 + 1,
              transportHeaderLength = TCP_HEADER_LENGTH,
              transportFooterLength = 0,
              checkTransaction = True, checkCRC = False\<rparr>
      else None)"

text \<open>
  The transaction-identifier test of lines 1279-1329. \<open>None\<close> is the early
  \<open>return failure\<close> (the whole accumulation buffer is dropped by the caller below);
  \<open>Some b\<close> is the value left in \<open>isTransactionTooLow\<close>. The comparisons are on
  \<open>uint16_t\<close> values, unsigned.
\<close>

definition CheckTransactionId :: "16 word \<Rightarrow> 16 word \<Rightarrow> 16 word \<Rightarrow> bool option" where
  "CheckTransactionId transactionId' lastTransactionId' rxTransaction =
     (if transactionId' \<noteq> rxTransaction then
        (if transactionId' > lastTransactionId' then
           (if rxTransaction > transactionId' \<or> rxTransaction \<le> lastTransactionId' then None
            else if rxTransaction < transactionId' then Some True
            else Some False)
         else
           (if rxTransaction \<ge> lastTransactionId' \<or> rxTransaction < transactionId' then Some True
            else if rxTransaction > transactionId' then None
            else Some False))
      else Some False)"

text \<open>Lines 1272-1353: a full message is in the buffer.\<close>

definition ExtractMessage ::
  "transport_layout \<Rightarrow> modbus_t \<Rightarrow> nat \<Rightarrow> messageHandlerState_t \<times> modbus_t" where
  "ExtractMessage lay hndl pduMessageLength =
     (let rxTransaction =
            (push_bit 8 (ucast (bufferedMessage hndl ! 0)) OR ucast (bufferedMessage hndl ! 1)
              :: 16 word)
      in case (if checkTransaction lay
               then CheckTransactionId (transactionId hndl) (lastTransactionId hndl) rxTransaction
               else Some False) of
           None \<Rightarrow> (failure, hndl\<lparr>bufferedMessageLength := 0\<rparr>)
         | Some isTransactionTooLow \<Rightarrow>
             (let crcFailed =
                    (checkCRC lay \<and>
                     \<not> ValidateCRC (bufferedMessage hndl) (pduMessageLength + CRC_FOOTER_LENGTH));
                  accepted =
                    (pduMessageLength \<le> MAX_PDU_LENGTH \<and> \<not> isTransactionTooLow \<and> \<not> crcFailed);
                  hndl1 =
                    (if accepted then
                       hndl\<lparr>pduLength := pduMessageLength,
                            lastTransactionId := rxTransaction,
                            pdu := memcpy (pdu hndl) 0
                                     (drop (transportHeaderLength lay) (bufferedMessage hndl))
                                     pduMessageLength\<rparr>
                     else hndl);
                  ret = (if accepted then success else waiting);
                  totalMessageLength =
                    pduMessageLength + transportHeaderLength lay + transportFooterLength lay;
                  remainingDataLength = bufferedMessageLength hndl1 - totalMessageLength;
                  hndl2 =
                    (if remainingDataLength > 0 then
                       hndl1\<lparr>bufferedMessage := memcpy (bufferedMessage hndl1) 0
                                 (drop totalMessageLength (bufferedMessage hndl1))
                                 remainingDataLength\<rparr>
                     else hndl1)
              in (ret, hndl2\<lparr>bufferedMessageLength := remainingDataLength mod 65536\<rparr>)))"

text \<open>Lines 1247-1265 and 1272: how long the message is, and whether it is all there.\<close>

definition ReadBuffer :: "transport_layout \<Rightarrow> modbus_t \<Rightarrow> messageHandlerState_t \<times> modbus_t" where
  "ReadBuffer lay hndl =
     (let lengthKnown = (bufferedMessageLength hndl \<ge> minLength lay \<or> type hndl = rtu);
          pduMessageLength =
            (if lengthKnown then
               (if isCFG hndl then UART_CFG_MESSAGE_RESP_LENGTH
                else GetFcodeLength (bufferedMessage hndl ! fCodeOffset lay)
                                    (bufferedMessage hndl ! pduLengthOffset lay))
             else 0);
          fullMessageAvailable =
            (lengthKnown \<and>
             bufferedMessageLength hndl
               \<ge> pduMessageLength + transportHeaderLength lay + transportFooterLength lay)
      in if fullMessageAvailable then ExtractMessage lay hndl pduMessageLength
         else (waiting, hndl))"

text \<open>Lines 1197-1202: the new bytes go behind the ones already buffered.\<close>

definition AppendToBuffer :: "modbus_t \<Rightarrow> 8 word list \<Rightarrow> nat \<Rightarrow> modbus_t" where
  "AppendToBuffer hndl message inputLength =
     hndl\<lparr>bufferedMessage :=
            memcpy (bufferedMessage hndl) (bufferedMessageLength hndl) message inputLength,
          bufferedMessageLength := (bufferedMessageLength hndl + inputLength) mod 65536\<rparr>"

definition MessageHandler ::
  "modbus_t \<Rightarrow> 8 word list \<Rightarrow> nat \<Rightarrow> messageHandlerState_t \<times> modbus_t" where
  "MessageHandler hndl message inputLength =
     (if state hndl \<noteq> WaitingForResponse then (waiting, hndl\<lparr>bufferedMessageLength := 0\<rparr>)
      else if bufferedMessageLength hndl + inputLength < MAX_PDU_LENGTH then
        (let hndl1 = AppendToBuffer hndl message inputLength
         in case transport_layout (type hndl1) of
              None \<Rightarrow> (waiting, hndl1\<lparr>bufferedMessageLength := 0\<rparr>)
            | Some lay \<Rightarrow> ReadBuffer lay hndl1)
      else (waiting, hndl\<lparr>bufferedMessageLength := 0\<rparr>))"

text \<open>
  Feeding a sequence of chunks, one call of MessageHandler per chunk, as successive
  \<open>recv\<close> results are. The result lists what each call returned and the handle after
  the last one.
\<close>

fun feed_chunks ::
  "modbus_t \<Rightarrow> 8 word list list \<Rightarrow> messageHandlerState_t list \<times> modbus_t" where
  "feed_chunks hndl [] = ([], hndl)"
| "feed_chunks hndl (c # cs) =
     (case MessageHandler hndl c (length c) of
        (r, hndl1) \<Rightarrow> (case feed_chunks hndl1 cs of (rs, hndl2) \<Rightarrow> (r # rs, hndl2)))"

section \<open>The delivery flow (ModBusRead, EpollThread)\<close>

text \<open>
  \<open>recv\<close> hands back a byte count (\<open>-1\<close> on error) and the bytes; the count is cast
  to \<open>uint16_t\<close> on the way into MessageHandler.
\<close>

definition ModBusRead :: "modbus_t \<Rightarrow> int \<Rightarrow> 8 word list \<Rightarrow> messageHandlerState_t \<times> modbus_t" where
  "ModBusRead hndl bytesReceived message =
     MessageHandler hndl message (nat (bytesReceived mod 65536))"

text \<open>
  One event taken from \<open>epoll_wait\<close> for the handle \<open>mh\<close> (lines 1032-1064):
  \<open>epollin\<close> and \<open>hup\<close> are the bits \<open>EPOLLIN\<close> and \<open>EPOLLRDHUP | EPOLLHUP\<close> of the
  event, \<open>bytesReceived\<close> and \<open>message\<close> what \<open>recv\<close> yields if it is called.
\<close>

datatype delivery = Quiet | Epoll bool bool int "8 word list"

fun EpollThread_event :: "modbus_t \<Rightarrow> delivery \<Rightarrow> modbus_t" where
  "EpollThread_event mh Quiet = mh"
| "EpollThread_event mh (Epoll epollin hup bytesReceived message) =
     (if state mh = Disconnected then mh
      else
        (let mh1 =
               (if epollin then
                  (case ModBusRead mh bytesReceived message of
                     (mhsState, mh') \<Rightarrow>
                       if mhsState = success then mh'\<lparr>state := DataReceived\<rparr>
                       else if mhsState = failure then mh'\<lparr>state := TransactionFailed\<rparr>
                       else mh')
                else mh)
         in if hup then mh1\<lparr>state := Disconnected\<rparr> else mh1))"

section \<open>What lies outside modbus.c\<close>

text \<open>
  \<open>world\<close> holds the file-scope counter \<open>transactionIdentifier\<close> of modbus.c and the
  two effects a request has outside the handle: the buffers passed to \<open>send\<close>, in
  order, each with its descriptor, and the number of \<open>nanosleep\<close> calls made. Every
  \<open>nanosleep\<close> asks for \<open>NANOSLEEP_NS\<close> nanoseconds (\<open>.tv_nsec = 100000\<close>).

  \<open>platform\<close> is what the sources use but do not define: the value of the macro
  \<open>DEVICE_DISCONNECTED\<close> (used in NotReadyReason, absent from modbusCommon.h as
  given), and what \<open>send\<close> returns for a descriptor and a buffer.
\<close>

record world =
  transactionIdentifier :: "16 word"
  sent :: "(int \<times> 8 word list) list"
  sleeps :: nat

record platform =
  DEVICE_DISCONNECTED :: "8 word"
  send :: "int \<Rightarrow> 8 word list \<Rightarrow> int"

definition NANOSLEEP_NS :: nat where "NANOSLEEP_NS = 100000"

definition slept_ns :: "world \<Rightarrow> nat" where
  "slept_ns w = sleeps w * NANOSLEEP_NS"

section \<open>The blocking wait (WaitForData)\<close>

text \<open>
  The caller polls the state and sleeps in between. The delivery flow runs in another
  thread; the model lets it act while the caller sleeps: \<open>env\<close> lists, per
  \<open>nanosleep\<close> call, what the delivery flow does during it. A loop that is still
  polling when \<open>env\<close> is used up has not returned: \<open>None\<close>.
\<close>

fun WaitForData_loop ::
  "modbus_t \<Rightarrow> world \<Rightarrow> nat \<Rightarrow> nat \<Rightarrow> delivery list \<Rightarrow> (modbus_t \<times> world) option" where
  "WaitForData_loop hndl w timeout counter [] =
     (if state hndl \<noteq> DataReceived \<and> state hndl \<noteq> TransactionFailed
         \<and> state hndl \<noteq> Disconnected
      then None else Some (hndl, w))"
| "WaitForData_loop hndl w timeout counter (d # env) =
     (if state hndl \<noteq> DataReceived \<and> state hndl \<noteq> TransactionFailed
         \<and> state hndl \<noteq> Disconnected
      then
        (let hndl1 = EpollThread_event hndl d;
             w1 = w\<lparr>sleeps := sleeps w + 1\<rparr>
         in if timeout > 0 \<and> counter > timeout then Some (hndl1, w1)
            else WaitForData_loop hndl1 w1 timeout
                   (if timeout > 0 then counter + 1 else counter) env)
      else Some (hndl, w))"

definition WaitForData ::
  "modbus_t \<Rightarrow> world \<Rightarrow> nat \<Rightarrow> delivery list \<Rightarrow> (bool \<times> modbus_t \<times> world) option" where
  "WaitForData hndl w timeout env =
     (case WaitForData_loop hndl w timeout 0 env of
        None \<Rightarrow> None
      | Some (hndl1, w1) \<Rightarrow>
          (let retval = (if state hndl1 \<noteq> DataReceived then False else True)
           in Some (retval, hndl1\<lparr>state := Idle\<rparr>, w1)))"

section \<open>Sending a request (ModBusWrite, SendToSlave)\<close>

definition SendToSlave ::
  "platform \<Rightarrow> modbus_t \<Rightarrow> world \<Rightarrow> 8 word list \<Rightarrow> nat \<Rightarrow> bool \<times> modbus_t \<times> world" where
  "SendToSlave pf hndl w modBusADU pduLength' =
     (let buf = take pduLength' modBusADU;
          w1 = w\<lparr>sent := sent w @ [(fd hndl, buf)]\<rparr>
      in if int pduLength' = send pf (fd hndl) buf then
           (True,
            hndl\<lparr>transactionId := transactionIdentifier w1, state := WaitingForResponse\<rparr>,
            w1\<lparr>transactionIdentifier := transactionIdentifier w1 + 1\<rparr>)
         else (False, hndl\<lparr>state := Idle\<rparr>, w1))"

text \<open>
  The local frame arrays of ModBusWrite are not initialised in the source; the model
  starts them zero-filled. The only byte of a frame that the source sends without
  having set it is the fourth header byte of the inter-core frame (and the CRC bytes
  when AddCRC refuses, whose result is not looked at).
\<close>

definition ModBusWrite ::
  "platform \<Rightarrow> modbus_t \<Rightarrow> world \<Rightarrow> 8 word list \<Rightarrow> nat \<Rightarrow> bool \<times> modbus_t \<times> world" where
  "ModBusWrite pf hndl w modBusPacket packetLength =
     (let hndl1 = hndl\<lparr>state := SendingRequest, pduLength := 0\<rparr>
      in if type hndl1 = tcp then
           (let modBusPacketTCP =
                  (memcpy (replicate (MAX_PDU_LENGTH + TCP_HEADER_LENGTH) 0) TCP_HEADER_LENGTH
                     modBusPacket packetLength)
                  [0 := ucast (drop_bit 8 (transactionIdentifier w) AND 0xFF),
                   1 := ucast (transactionIdentifier w AND 0xFF),
                   2 := 0x00,
                   3 := 0x00,
                   4 := of_nat (packetLength div 256 mod 256),
                   5 := of_nat (packetLength mod 256)]
            in SendToSlave pf hndl1 w modBusPacketTCP (packetLength + TCP_HEADER_LENGTH))
         else if type hndl1 = rtuOverTcp then
           (let modBusPacketRTU =
                  snd (AddCRC (memcpy (replicate (MAX_PDU_LENGTH + CRC_FOOTER_LENGTH) 0) 0
                                 modBusPacket packetLength)
                         packetLength MAX_PDU_LENGTH)
            in SendToSlave pf hndl1 w modBusPacketRTU (packetLength + CRC_FOOTER_LENGTH))
         else if type hndl1 = rtu then
           (let modBusPacketRTU =
                  (memcpy (replicate (MAX_PDU_LENGTH + MESSAGE_HEADER_LENGTH) 0)
                     MESSAGE_HEADER_LENGTH modBusPacket packetLength)
                  [0 := (if isCFG hndl1 then UART else MODBUS),
                   1 := (if isCFG hndl1 then UART_CFG_MESSAGE else MODBUS_DATA_MESSAGE),
                   2 := of_nat MESSAGE_HEADER_LENGTH]
            in SendToSlave pf hndl1 w modBusPacketRTU (packetLength + MESSAGE_HEADER_LENGTH))
         else (False, hndl1, w))"

section \<open>The request primitives\<close>

definition NotReadyReason :: "platform \<Rightarrow> modbus_t \<Rightarrow> 8 word" where
  "NotReadyReason pf hndl =
     (if state hndl = Disconnected then DEVICE_DISCONNECTED pf else HANDLE_IN_USE)"

text \<open>\<open>(uint16_t)(hndl->pduLength - PDU_HEADER_LENGTH)\<close>; the argument \<open>expected\<close>
  only feeds a log line.\<close>

definition PduDataLength :: "modbus_t \<Rightarrow> nat \<Rightarrow> nat" where
  "PduDataLength hndl expected = (pduLength hndl + 65536 - PDU_HEADER_LENGTH) mod 65536"

text \<open>The macro \<open>SET_MODBUS_HEADER(_a, _b, _c, _d, _e)\<close>.\<close>

definition SET_MODBUS_HEADER ::
  "8 word list \<Rightarrow> 8 word \<Rightarrow> 8 word \<Rightarrow> 16 word \<Rightarrow> 16 word \<Rightarrow> 8 word list" where
  "SET_MODBUS_HEADER a b c d e =
     a[0 := b,
       1 := c,
       2 := ucast (drop_bit 8 d AND 0xFF),
       3 := ucast (d AND 0xFF),
       4 := ucast (drop_bit 8 e AND 0xFF),
       5 := ucast (e AND 0xFF)]"

text \<open>The loops \<open>readArray[i] = (pdu[(i * 2) + 3] << 8) | pdu[(i * 2) + 4]\<close> of the
  register reads and \<open>modBusMessage[(2 * i) + 7] = registerArray[i] >> 8; ...\<close> of
  WriteMultipleHoldingRegisters, for \<open>i\<close> below \<open>n\<close>.\<close>

definition CopyRegisters :: "16 word list \<Rightarrow> 8 word list \<Rightarrow> nat \<Rightarrow> 16 word list" where
  "CopyRegisters readArray pdu' n =
     fold (\<lambda>i arr. arr[i := push_bit 8 (ucast (pdu' ! (i * 2 + 3))) OR ucast (pdu' ! (i * 2 + 4))])
       [0..<n] readArray"

definition StoreRegisters :: "8 word list \<Rightarrow> 16 word list \<Rightarrow> nat \<Rightarrow> 8 word list" where
  "StoreRegisters modBusMessage registerArray n =
     fold (\<lambda>i m. m[2 * i + 7 := ucast (drop_bit 8 (registerArray ! i) AND 0xFF),
                   2 * i + 8 := ucast (registerArray ! i AND 0xFF)])
       [0..<n] modBusMessage"

text \<open>The loop of ReadFile that sums \<open>(messageArray[i] * 2) + 2\<close> over the positions
  \<open>i % 7 == 6\<close> into the \<open>uint16_t expectedMessageLength\<close>.\<close>

definition ExpectedFileLength :: "8 word list \<Rightarrow> nat \<Rightarrow> nat" where
  "ExpectedFileLength messageArray messageLength =
     fold (\<lambda>i acc. if i mod 7 = 6 then (acc + unat (messageArray ! i) * 2 + 2) mod 65536 else acc)
       [0..<messageLength] 0"

text \<open>
  Each primitive returns the flag, the caller's output array, the handle and the world;
  \<open>None\<close> when its wait never ends within \<open>env\<close>. The register reads have a
  \<open>uint16_t\<close> output array, the others a byte array.
\<close>

definition ReadCoils ::
  "platform \<Rightarrow> delivery list \<Rightarrow> modbus_t \<Rightarrow> world
     \<Rightarrow> 8 word \<Rightarrow> 16 word \<Rightarrow> 16 word \<Rightarrow> 8 word list \<Rightarrow> nat
     \<Rightarrow> (bool \<times> 8 word list \<times> modbus_t \<times> world) option" where
  "ReadCoils pf env hndl w slaveID address bitsToRead readArray timeout =
     (let bytesToRead0 = (ucast (bitsToRead div 8) :: 8 word);
          bytesToRead = (if bitsToRead mod 8 \<noteq> 0 then bytesToRead0 + 1 else bytesToRead0)
      in
      if state hndl \<noteq> Idle then
        Some (False, readArray[0 := NotReadyReason pf hndl], hndl, w)
      else
        (let modBusMessage = 
               SET_MODBUS_HEADER (replicate 6 0) slaveID READ_COILS address
                 bitsToRead;
             hndl1 = hndl\<lparr>isCFG := False\<rparr>
         in case ModBusWrite pf hndl1 w modBusMessage (6) of
              (written, hndl2, w1) \<Rightarrow>
                if \<not> written then
                  Some (False, readArray[0 := MESSAGE_SEND_FAIL], hndl2, w1)
                else
                  (case WaitForData hndl2 w1 timeout env of
                     None \<Rightarrow> None
                   | Some (received, hndl3, w2) \<Rightarrow>
                       if \<not> received then
                         Some (False, readArray[0 := MODBUS_TIMEOUT], hndl3, w2)
                       else if pdu hndl3 ! 1 AND MODBUS_EXCEPTION_BIT \<noteq> 0 then
                         Some (False, readArray[0 := pdu hndl3 ! 2], hndl3, w2)
                       else if pdu hndl3 ! 1 \<noteq> READ_COILS then
                         Some (False, readArray[0 := INVALID_RESPONSE], hndl3, w2)
                       else
                         Some (True, memcpy readArray 0 (drop PDU_HEADER_LENGTH (pdu hndl3))
                                 (PduDataLength hndl3 (unat bytesToRead)), hndl3, w2))))"

definition ReadDiscreteInputs ::
  "platform \<Rightarrow> delivery list \<Rightarrow> modbus_t \<Rightarrow> world
     \<Rightarrow> 8 word \<Rightarrow> 16 word \<Rightarrow> 16 word \<Rightarrow> 8 word list \<Rightarrow> nat
     \<Rightarrow> (bool \<times> 8 word list \<times> modbus_t \<times> world) option" where
  "ReadDiscreteInputs pf env hndl w slaveID address bitsToRead readArray timeout =
     (let bytesToRead0 = (ucast (bitsToRead div 8) :: 8 word);
          bytesToRead = (if bitsToRead mod 8 \<noteq> 0 then bytesToRead0 + 1 else bytesToRead0)
      in
      if state hndl \<noteq> Idle then
        Some (False, readArray[0 := NotReadyReason pf hndl], hndl, w)
      else
        (let modBusMessage = 
               SET_MODBUS_HEADER (replicate 6 0) slaveID READ_DISCRETE_INPUTS address
                 bitsToRead;
             hndl1 = hndl\<lparr>isCFG := False\<rparr>
         in case ModBusWrite pf hndl1 w modBusMessage (6) of
              (written, hndl2, w1) \<Rightarrow>
                if \<not> written then
                  Some (False, readArray[0 := MESSAGE_SEND_FAIL], hndl2, w1)
                else
                  (case WaitForData hndl2 w1 timeout env of
                     None \<Rightarrow> None
                   | Some (received, hndl3, w2) \<Rightarrow>
                       if \<not> received then
                         Some (False, readArray[0 := MODBUS_TIMEOUT], hndl3, w2)
                       else if pdu hndl3 ! 1 AND MODBUS_EXCEPTION_BIT \<noteq> 0 then
                         Some (False, readArray[0 := pdu hndl3 ! 2], hndl3, w2)
                       else if pdu hndl3 ! 1 \<noteq> READ_DISCRETE_INPUTS then
                         Some (False, readArray[0 := INVALID_RESPONSE], hndl3, w2)
                       else
                         Some (True, memcpy readArray 0 (drop PDU_HEADER_LENGTH (pdu hndl3))
                                 (PduDataLength hndl3 (unat bytesToRead)), hndl3, w2))))"

definition ReadMultipleHoldingRegisters ::
  "platform \<Rightarrow> delivery list \<Rightarrow> modbus_t \<Rightarrow> world
     \<Rightarrow> 8 word \<Rightarrow> 16 word \<Rightarrow> 16 word \<Rightarrow> 16 word list \<Rightarrow> nat
     \<Rightarrow> (bool \<times> 16 word list \<times> modbus_t \<times> world) option" where
  "ReadMultipleHoldingRegisters pf env hndl w slaveID address registersToRead readArray timeout =
     (if state hndl \<noteq> Idle then
        Some (False, readArray[0 := ucast (NotReadyReason pf hndl)], hndl, w)
      else
        (let modBusMessage = 
               SET_MODBUS_HEADER (replicate 6 0) slaveID READ_MULTIPLE_HOLDING_REGISTERS address
                 registersToRead;
             hndl1 = hndl\<lparr>isCFG := False\<rparr>
         in case ModBusWrite pf hndl1 w modBusMessage (6) of
              (written, hndl2, w1) \<Rightarrow>
                if \<not> written then
                  Some (False, readArray[0 := ucast (MESSAGE_SEND_FAIL)], hndl2, w1)
                else
                  (case WaitForData hndl2 w1 timeout env of
                     None \<Rightarrow> None
                   | Some (received, hndl3, w2) \<Rightarrow>
                       if \<not> received then
                         Some (False, readArray[0 := ucast (MODBUS_TIMEOUT)], hndl3, w2)
                       else if pdu hndl3 ! 1 AND MODBUS_EXCEPTION_BIT \<noteq> 0 then
                         Some (False, readArray[0 := ucast (pdu hndl3 ! 2)], hndl3, w2)
                       else if pdu hndl3 ! 1 \<noteq> READ_MULTIPLE_HOLDING_REGISTERS then
                         Some (False, readArray[0 := ucast (INVALID_RESPONSE)], hndl3, w2)
                       else
                         Some (True, CopyRegisters readArray (pdu hndl3)
                                 (PduDataLength hndl3 (unat (registersToRead * 2)) div 2), hndl3, w2))))"

definition ReadInputRegisters ::
  "platform \<Rightarrow> delivery list \<Rightarrow> modbus_t \<Rightarrow> world
     \<Rightarrow> 8 word \<Rightarrow> 16 word \<Rightarrow> 16 word \<Rightarrow> 16 word list \<Rightarrow> nat
     \<Rightarrow> (bool \<times> 16 word list \<times> modbus_t \<times> world) option" where
  "ReadInputRegisters pf env hndl w slaveID address registersToRead readArray timeout =
     (if state hndl \<noteq> Idle then
        Some (False, readArray[0 := ucast (NotReadyReason pf hndl)], hndl, w)
      else
        (let modBusMessage = 
               SET_MODBUS_HEADER (replicate 6 0) slaveID READ_INPUT_REGISTERS address
                 registersToRead;
             hndl1 = hndl\<lparr>isCFG := False\<rparr>
         in case ModBusWrite pf hndl1 w modBusMessage (6) of
              (written, hndl2, w1) \<Rightarrow>
                if \<not> written then
                  Some (False, readArray[0 := ucast (MESSAGE_SEND_FAIL)], hndl2, w1)
                else
                  (case WaitForData hndl2 w1 timeout env of
                     None \<Rightarrow> None
                   | Some (received, hndl3, w2) \<Rightarrow>
                       if \<not> received then
                         Some (False, readArray[0 := ucast (MODBUS_TIMEOUT)], hndl3, w2)
                       else if pdu hndl3 ! 1 AND MODBUS_EXCEPTION_BIT \<noteq> 0 then
                         Some (False, readArray[0 := ucast (pdu hndl3 ! 2)], hndl3, w2)
                       else if pdu hndl3 ! 1 \<noteq> READ_INPUT_REGISTERS then
                         Some (False, readArray[0 := ucast (INVALID_RESPONSE)], hndl3, w2)
                       else
                         Some (True, CopyRegisters readArray (pdu hndl3)
                                 (PduDataLength hndl3 (unat (registersToRead * 2)) div 2), hndl3, w2))))"

definition WriteSingleCoil ::
  "platform \<Rightarrow> delivery list \<Rightarrow> modbus_t \<Rightarrow> world
     \<Rightarrow> 8 word \<Rightarrow> 16 word \<Rightarrow> bool \<Rightarrow> 8 word list \<Rightarrow> nat
     \<Rightarrow> (bool \<times> 8 word list \<times> modbus_t \<times> world) option" where
  "WriteSingleCoil pf env hndl w slaveID address bit' readArray timeout =
     (if state hndl \<noteq> Idle then
        Some (False, readArray[0 := NotReadyReason pf hndl], hndl, w)
      else
        (let modBusMessage = 
               SET_MODBUS_HEADER (replicate 6 0) slaveID WRITE_SINGLE_COIL address
                 (if bit' then 0xff00 else 0x00);
             hndl1 = hndl\<lparr>isCFG := False\<rparr>
         in case ModBusWrite pf hndl1 w modBusMessage (6) of
              (written, hndl2, w1) \<Rightarrow>
                if \<not> written then
                  Some (False, readArray[0 := MESSAGE_SEND_FAIL], hndl2, w1)
                else
                  (case WaitForData hndl2 w1 timeout env of
                     None \<Rightarrow> None
                   | Some (received, hndl3, w2) \<Rightarrow>
                       if \<not> received then
                         Some (False, readArray[0 := MODBUS_TIMEOUT], hndl3, w2)
                       else if pdu hndl3 ! 1 AND MODBUS_EXCEPTION_BIT \<noteq> 0 then
                         Some (False, readArray[0 := pdu hndl3 ! 2], hndl3, w2)
                       else if pdu hndl3 ! 1 \<noteq> WRITE_SINGLE_COIL then
                         Some (False, readArray[0 := INVALID_RESPONSE], hndl3, w2)
                       else
                         Some (True, memcpy readArray 0 (drop WRITE_RESPONSE_START (pdu hndl3))
                                 WRITE_RESPONSE_BYTES, hndl3, w2))))"

definition WriteSingleHoldingRegister ::
  "platform \<Rightarrow> delivery list \<Rightarrow> modbus_t \<Rightarrow> world
     \<Rightarrow> 8 word \<Rightarrow> 16 word \<Rightarrow> 16 word \<Rightarrow> 8 word list \<Rightarrow> nat
     \<Rightarrow> (bool \<times> 8 word list \<times> modbus_t \<times> world) option" where
  "WriteSingleHoldingRegister pf env hndl w slaveID address mbRegister readArray timeout =
     (if state hndl \<noteq> Idle then
        Some (False, readArray[0 := NotReadyReason pf hndl], hndl, w)
      else
        (let modBusMessage = 
               SET_MODBUS_HEADER (replicate 6 0) slaveID WRITE_SINGLE_HOLDING_REGISTER address
                 mbRegister;
             hndl1 = hndl\<lparr>isCFG := False\<rparr>
         in case ModBusWrite pf hndl1 w modBusMessage (6) of
              (written, hndl2, w1) \<Rightarrow>
                if \<not> written then
                  Some (False, readArray[0 := MESSAGE_SEND_FAIL], hndl2, w1)
                else
                  (case WaitForData hndl2 w1 timeout env of
                     None \<Rightarrow> None
                   | Some (received, hndl3, w2) \<Rightarrow>
                       if \<not> received then
                         Some (False, readArray[0 := MODBUS_TIMEOUT], hndl3, w2)
                       else if pdu hndl3 ! 1 AND MODBUS_EXCEPTION_BIT \<noteq> 0 then
                         Some (False, readArray[0 := pdu hndl3 ! 2], hndl3, w2)
                       else if pdu hndl3 ! 1 \<noteq> WRITE_SINGLE_HOLDING_REGISTER then
                         Some (False, readArray[0 := INVALID_RESPONSE], hndl3, w2)
                       else
                         Some (True, memcpy readArray 0 (drop WRITE_RESPONSE_START (pdu hndl3))
                                 WRITE_RESPONSE_BYTES, hndl3, w2))))"

definition WriteMultipleCoils ::
  "platform \<Rightarrow> delivery list \<Rightarrow> modbus_t \<Rightarrow> world
     \<Rightarrow> 8 word \<Rightarrow> 16 word \<Rightarrow> 16 word \<Rightarrow> 8 word list \<Rightarrow> 8 word list \<Rightarrow> nat
     \<Rightarrow> (bool \<times> 8 word list \<times> modbus_t \<times> world) option" where
  "WriteMultipleCoils pf env hndl w slaveID address numToWrite bitArray readArray timeout =
     (let dataByteCount =
            (if unat numToWrite div 8 + unat (numToWrite AND 0x7) \<noteq> 0 then 1 else 0 :: 8 word)
      in
      if state hndl \<noteq> Idle then
        Some (False, readArray[0 := NotReadyReason pf hndl], hndl, w)
      else
        (let modBusMessage = memcpy
                 ((SET_MODBUS_HEADER (replicate MAX_PDU_LENGTH 0) slaveID WRITE_MULTIPLE_COILS
                     address numToWrite)[6 := dataByteCount])
                 7 bitArray (unat dataByteCount);
             hndl1 = hndl\<lparr>isCFG := False\<rparr>
         in case ModBusWrite pf hndl1 w modBusMessage ((7 + unat dataByteCount) mod 65536) of
              (written, hndl2, w1) \<Rightarrow>
                if \<not> written then
                  Some (False, readArray[0 := MESSAGE_SEND_FAIL], hndl2, w1)
                else
                  (case WaitForData hndl2 w1 timeout env of
                     None \<Rightarrow> None
                   | Some (received, hndl3, w2) \<Rightarrow>
                       if \<not> received then
                         Some (False, readArray[0 := MODBUS_TIMEOUT], hndl3, w2)
                       else if pdu hndl3 ! 1 AND MODBUS_EXCEPTION_BIT \<noteq> 0 then
                         Some (False, readArray[0 := pdu hndl3 ! 2], hndl3, w2)
                       else if pdu hndl3 ! 1 \<noteq> WRITE_MULTIPLE_COILS then
                         Some (False, readArray[0 := INVALID_RESPONSE], hndl3, w2)
                       else
                         Some (True, memcpy readArray 0 (drop WRITE_RESPONSE_START (pdu hndl3))
                                 WRITE_RESPONSE_BYTES, hndl3, w2))))"

definition WriteMultipleHoldingRegisters ::
  "platform \<Rightarrow> delivery list \<Rightarrow> modbus_t \<Rightarrow> world
     \<Rightarrow> 8 word \<Rightarrow> 16 word \<Rightarrow> 16 word \<Rightarrow> 16 word list \<Rightarrow> 8 word list \<Rightarrow> nat
     \<Rightarrow> (bool \<times> 8 word list \<times> modbus_t \<times> world) option" where
  "WriteMultipleHoldingRegisters pf env hndl w slaveID address numToWrite registerArray
       readArray timeout =
     (let dataByteCount = (ucast (numToWrite * 2) :: 8 word)
      in
      if state hndl \<noteq> Idle then
        Some (False, readArray[0 := NotReadyReason pf hndl], hndl, w)
      else
        (let modBusMessage = StoreRegisters
                 ((SET_MODBUS_HEADER (replicate MAX_PDU_LENGTH 0) slaveID
                     WRITE_MULTIPLE_HOLDING_REGISTERS address numToWrite)[6 := dataByteCount])
                 registerArray (unat dataByteCount div 2);
             hndl1 = hndl\<lparr>isCFG := False\<rparr>
         in case ModBusWrite pf hndl1 w modBusMessage ((7 + unat dataByteCount) mod 256) of
              (written, hndl2, w1) \<Rightarrow>
                if \<not> written then
                  Some (False, readArray[0 := MESSAGE_SEND_FAIL], hndl2, w1)
                else
                  (case WaitForData hndl2 w1 timeout env of
                     None \<Rightarrow> None
                   | Some (received, hndl3, w2) \<Rightarrow>
                       if \<not> received then
                         Some (False, readArray[0 := MODBUS_TIMEOUT], hndl3, w2)
                       else if pdu hndl3 ! 1 AND MODBUS_EXCEPTION_BIT \<noteq> 0 then
                         Some (False, readArray[0 := pdu hndl3 ! 2], hndl3, w2)
                       else if pdu hndl3 ! 1 \<noteq> WRITE_MULTIPLE_HOLDING_REGISTERS then
                         Some (False, readArray[0 := INVALID_RESPONSE], hndl3, w2)
                       else
                         Some (True, memcpy readArray 0 (drop WRITE_RESPONSE_START (pdu hndl3))
                                 WRITE_RESPONSE_BYTES, hndl3, w2))))"

text \<open>
  The frame arrays of ReadFile, WriteFile and ModBusWrite hold a message of up to 251
  bytes behind the three PDU header bytes. With a longer message the C code copies
  beyond them (ReadFile returns before that for the lengths 254 and 255); the lists of
  the model grow instead, so the two definitions say what the C code does for message
  lengths up to 251, and for the refusal of ReadFile.
\<close>

definition ReadFile ::
  "platform \<Rightarrow> delivery list \<Rightarrow> modbus_t \<Rightarrow> world
     \<Rightarrow> 8 word \<Rightarrow> 8 word list \<Rightarrow> 8 word \<Rightarrow> 8 word list \<Rightarrow> nat
     \<Rightarrow> (bool \<times> 8 word list \<times> modbus_t \<times> world) option" where
  "ReadFile pf env hndl w slaveID messageArray messageLength readArray timeout =
     (if state hndl \<noteq> Idle then
        Some (False, readArray[0 := NotReadyReason pf hndl], hndl, w)
      else
      if \<not> unat messageLength < MAX_PDU_LENGTH then
        Some (False, readArray[0 := MESSAGE_SEND_FAIL], hndl, w)
      else
        (let modBusMessage = memcpy ((replicate (MAX_PDU_LENGTH + PDU_HEADER_LENGTH) 0)
                        [0 := slaveID, 1 := READ_FILE, 2 := messageLength])
                 3 messageArray (unat messageLength);
             hndl1 = hndl\<lparr>isCFG := False\<rparr>
         in case ModBusWrite pf hndl1 w modBusMessage ((3 + unat messageLength) mod 65536) of
              (written, hndl2, w1) \<Rightarrow>
                if \<not> written then
                  Some (False, readArray[0 := MESSAGE_SEND_FAIL], hndl2, w1)
                else
                  (case WaitForData hndl2 w1 timeout env of
                     None \<Rightarrow> None
                   | Some (received, hndl3, w2) \<Rightarrow>
                       if \<not> received then
                         Some (False, readArray[0 := MODBUS_TIMEOUT], hndl3, w2)
                       else if pdu hndl3 ! 1 AND MODBUS_EXCEPTION_BIT \<noteq> 0 then
                         Some (False, readArray[0 := pdu hndl3 ! 2], hndl3, w2)
                       else if pdu hndl3 ! 1 \<noteq> READ_FILE then
                         Some (False, readArray[0 := INVALID_RESPONSE], hndl3, w2)
                       else
                         Some (True, memcpy readArray 0 (drop PDU_HEADER_LENGTH (pdu hndl3))
                                 (PduDataLength hndl3
                                    (ExpectedFileLength messageArray (unat messageLength))), hndl3, w2))))"

definition WriteFile ::
  "platform \<Rightarrow> delivery list \<Rightarrow> modbus_t \<Rightarrow> world
     \<Rightarrow> 8 word \<Rightarrow> 8 word list \<Rightarrow> 8 word \<Rightarrow> 8 word list \<Rightarrow> nat
     \<Rightarrow> (bool \<times> 8 word list \<times> modbus_t \<times> world) option" where
  "WriteFile pf env hndl w slaveID messageArray messageLength readArray timeout =
     (if state hndl \<noteq> Idle then
        Some (False, readArray[0 := NotReadyReason pf hndl], hndl, w)
      else
        (let modBusMessage = memcpy ((replicate MAX_PDU_LENGTH 0)
                        [0 := slaveID, 1 := WRITE_FILE, 2 := messageLength])
                 3 messageArray (unat messageLength);
             hndl1 = hndl\<lparr>isCFG := False\<rparr>
         in case ModBusWrite pf hndl1 w modBusMessage ((PDU_HEADER_LENGTH + unat messageLength) mod 65536) of
              (written, hndl2, w1) \<Rightarrow>
                if \<not> written then
                  Some (False, readArray[0 := MESSAGE_SEND_FAIL], hndl2, w1)
                else
                  (case WaitForData hndl2 w1 timeout env of
                     None \<Rightarrow> None
                   | Some (received, hndl3, w2) \<Rightarrow>
                       if \<not> received then
                         Some (False, readArray[0 := MODBUS_TIMEOUT], hndl3, w2)
                       else if pdu hndl3 ! 1 AND MODBUS_EXCEPTION_BIT \<noteq> 0 then
                         Some (False, readArray[0 := pdu hndl3 ! 2], hndl3, w2)
                       else if pdu hndl3 ! 1 \<noteq> WRITE_FILE then
                         Some (False, readArray[0 := INVALID_RESPONSE], hndl3, w2)
                       else
                         Some (True, memcpy readArray 0 (drop PDU_HEADER_LENGTH (pdu hndl3))
                                 (PduDataLength hndl3 (unat messageLength)), hndl3, w2))))"

text \<open>The sub-request builder of ReadFile requests (\<open>uint8_t\<close> arithmetic on the
  returned index).\<close>

definition ReadFileSubRequestBuilder ::
  "8 word list \<Rightarrow> 8 word \<Rightarrow> 16 word \<Rightarrow> 16 word \<Rightarrow> 8 word \<Rightarrow> 8 word \<times> 8 word list" where
  "ReadFileSubRequestBuilder messageArray currentMessageIndex fileNumber recordNumber recordLength =
     (let i = unat currentMessageIndex
      in (currentMessageIndex + 7,
          messageArray[i := 6,
                       i + 1 := ucast (drop_bit 8 fileNumber),
                       i + 2 := ucast (fileNumber AND 0xFF),
                       i + 3 := ucast (drop_bit 8 recordNumber),
                       i + 4 := ucast (recordNumber AND 0xFF),
                       i + 5 := 0,
                       i + 6 := recordLength]))"

section \<open>The slave simulator (SlaveSimulator/modbuscommands.c, main.c)\<close>

text \<open>
  The files are \<open>uint8_t fileStore[6][20000]\<close>, held flat: byte \<open>b\<close> of row \<open>f\<close> is
  at \<open>f * 20000 + b\<close>. \<open>messageIn\<close> and \<open>messageOut\<close> are the arrays of the caller,
  held whole; pointers into them are offsets. Reading or writing outside an array, and
  moving a pointer further than one element past its end, has no defined result in C:
  the functions return \<open>None\<close> there. Otherwise they return their \<open>int\<close> result
  (0 or an exception code) with the arrays they wrote to. \<open>FILES\<close>,
  \<open>FILE_BYTES\<close> and \<open>MESSAGE_BYTES\<close> name the array bounds that the sources
  write as numbers: \<open>fileStore[6][20000]\<close>, and \<open>messageIn[256]\<close> and
  \<open>messageOut[256]\<close> in \<open>main\<close>.
\<close>

definition REFERENCE_TYPE :: "8 word" where "REFERENCE_TYPE = 6"
definition SUBREQUEST_LENGTH :: nat where "SUBREQUEST_LENGTH = 7"
definition NO_ERROR :: int where "NO_ERROR = 0"
definition FILES :: nat where "FILES = 6"
definition FILE_BYTES :: nat where "FILE_BYTES = 20000"
definition MESSAGE_BYTES :: nat where "MESSAGE_BYTES = 256"

text \<open>\<open>inPtr[LOWER] | (inPtr[UPPER] << 8)\<close>, as \<open>int\<close>.\<close>

definition be16 :: "8 word list \<Rightarrow> nat \<Rightarrow> int" where
  "be16 m upper = uint ((ucast (m ! (upper + 1)) :: 16 word) OR push_bit 8 (ucast (m ! upper)))"

text \<open>
  fileRead gets the pointer \<open>&outPtr[2]\<close> as offset \<open>outOff\<close>. With a file number from
  1 to 6 it copies from row \<open>fileNo\<close>; the rows are 0 to 5.
\<close>

definition fileRead ::
  "8 word list \<Rightarrow> 8 word list \<Rightarrow> nat \<Rightarrow> int \<Rightarrow> int \<Rightarrow> int \<Rightarrow> (int \<times> 8 word list) option" where
  "fileRead fileStore messageOut outOff fileNo recordNo recordsToRead =
     (if 0 < fileNo \<and> fileNo \<le> 6 then
        (if nat fileNo < FILES \<and> 0 \<le> recordNo \<and> 0 \<le> recordsToRead
            \<and> nat (recordNo * 2) + nat (recordsToRead * 2) \<le> FILE_BYTES
            \<and> length fileStore = FILES * FILE_BYTES
            \<and> outOff + nat (recordsToRead * 2) \<le> length messageOut
         then Some (NO_ERROR,
                    memcpy messageOut outOff
                      (drop (nat fileNo * FILE_BYTES + nat (recordNo * 2)) fileStore)
                      (nat (recordsToRead * 2)))
         else None)
      else Some (uint ILLEGAL_DATA_ADDRESS, messageOut))"

text \<open>fileWrite gets \<open>&inPtr[7]\<close> and \<open>&outPtr[7]\<close> as \<open>inOff\<close> and \<open>outOff\<close>.\<close>

definition fileWrite ::
  "8 word list \<Rightarrow> 8 word list \<Rightarrow> nat \<Rightarrow> 8 word list \<Rightarrow> nat \<Rightarrow> int \<Rightarrow> int \<Rightarrow> int
     \<Rightarrow> (int \<times> 8 word list \<times> 8 word list) option" where
  "fileWrite fileStore messageIn inOff messageOut outOff fileNo recordNo recordsToWrite =
     (if 0 < fileNo \<and> fileNo \<le> 6 then
        (if nat fileNo < FILES \<and> 0 \<le> recordNo \<and> 0 \<le> recordsToWrite
            \<and> nat (recordNo * 2) + nat (recordsToWrite * 2) \<le> FILE_BYTES
            \<and> length fileStore = FILES * FILE_BYTES
            \<and> inOff + nat (recordsToWrite * 2) \<le> length messageIn
            \<and> outOff + nat (recordsToWrite * 2) \<le> length messageOut
         then Some (NO_ERROR,
                    memcpy messageOut outOff (drop inOff messageIn) (nat (recordsToWrite * 2)),
                    memcpy fileStore (nat fileNo * FILE_BYTES + nat (recordNo * 2))
                      (drop inOff messageIn) (nat (recordsToWrite * 2)))
         else None)
      else Some (uint ILLEGAL_DATA_ADDRESS, messageOut, fileStore))"

text \<open>
  The \<open>for\<close> loop of requestRead, with the number of passes still to make as first
  argument; \<open>ret\<close> is the result of the last fileRead. \<open>inOff\<close> and \<open>outOff\<close> are
  \<open>inPtr\<close> and \<open>outPtr\<close>.
\<close>

fun requestRead_loop ::
  "nat \<Rightarrow> 8 word list \<Rightarrow> 8 word list \<Rightarrow> nat \<Rightarrow> nat \<Rightarrow> int \<Rightarrow> int \<Rightarrow> 8 word list
     \<Rightarrow> (int \<times> 8 word list) option" where
  "requestRead_loop 0 fileStore messageIn inOff outOff totalLength ret messageOut =
     (if 2 < length messageOut then Some (ret, messageOut[2 := of_int totalLength]) else None)"
| "requestRead_loop (Suc k) fileStore messageIn inOff outOff totalLength ret messageOut =
     (if \<not> inOff < length messageIn then None
      else if messageIn ! inOff = REFERENCE_TYPE then
        (if \<not> inOff + 6 < length messageIn then None
         else
           (let recordsToRead = uint (messageIn ! (inOff + 6));
                fileNo = be16 messageIn (inOff + 1);
                recordNo = be16 messageIn (inOff + 3)
            in if recordNo + recordsToRead < 10000 then
                 (if \<not> outOff + 1 < length messageOut then None
                  else
                    (let messageOut1 =
                           messageOut[outOff := of_int (recordsToRead * 2), outOff + 1 := 6]
                     in case fileRead fileStore messageOut1 (outOff + 2) fileNo recordNo
                               recordsToRead of
                          None \<Rightarrow> None
                        | Some (ret1, messageOut2) \<Rightarrow>
                            if \<not> outOff + nat (recordsToRead * 2) + 2 \<le> length messageOut then None
                            else
                              requestRead_loop k fileStore messageIn (inOff + SUBREQUEST_LENGTH)
                                (outOff + nat (recordsToRead * 2) + 2)
                                (totalLength + recordsToRead * 2 + 2) ret1 messageOut2))
               else Some (uint ILLEGAL_DATA_ADDRESS, messageOut)))
      else Some (uint ILLEGAL_DATA_VALUE, messageOut))"

text \<open>\<open>ret\<close> is not initialised in requestRead; the loop runs at least once when it is
  returned, so the start value \<open>0\<close> of the model is never the result.\<close>

definition requestRead ::
  "8 word list \<Rightarrow> 8 word list \<Rightarrow> 8 word list \<Rightarrow> (int \<times> 8 word list) option" where
  "requestRead fileStore messageIn messageOut =
     (if \<not> (2 < length messageIn \<and> 2 < length messageOut) then None
      else if 0x07 \<le> messageIn ! 2 \<and> messageIn ! 2 \<le> 0xF5 then
        requestRead_loop (unat (messageIn ! 2) div 7) fileStore messageIn 3 3 0 0 messageOut
      else Some (uint ILLEGAL_DATA_VALUE, messageOut))"

text \<open>The \<open>while (dataRead < messageIn[2])\<close> loop of requestWrite.\<close>

function requestWrite_loop ::
  "8 word list \<Rightarrow> 8 word list \<Rightarrow> nat \<Rightarrow> nat \<Rightarrow> nat \<Rightarrow> int \<Rightarrow> 8 word list
     \<Rightarrow> (int \<times> 8 word list \<times> 8 word list) option" where
  "requestWrite_loop fileStore messageIn inOff outOff dataRead ret messageOut =
     (if \<not> 2 < length messageIn then None
      else if dataRead < unat (messageIn ! 2) then
        (if \<not> inOff < length messageIn then None
         else if messageIn ! inOff = REFERENCE_TYPE then
           (if \<not> (inOff + 6 < length messageIn \<and> outOff + 6 < length messageOut) then None
            else
              (let fileNo = be16 messageIn (inOff + 1);
                   recordNo = be16 messageIn (inOff + 3);
                   recordsToWrite = uint (messageIn ! (inOff + 6));
                   messageOut1 =
                     messageOut[outOff := REFERENCE_TYPE,
                                outOff + 1 := messageIn ! (inOff + 1),
                                outOff + 2 := messageIn ! (inOff + 2),
                                outOff + 3 := messageIn ! (inOff + 3),
                                outOff + 4 := messageIn ! (inOff + 4),
                                outOff + 5 := 0,
                                outOff + 6 := messageIn ! (inOff + 6)]
               in if recordNo + recordsToWrite < 10000 then
                    (case fileWrite fileStore messageIn (inOff + 7) messageOut1 (outOff + 7)
                            fileNo recordNo recordsToWrite of
                       None \<Rightarrow> None
                     | Some (ret1, messageOut2, fileStore1) \<Rightarrow>
                         if ret1 \<noteq> NO_ERROR then Some (ret1, messageOut2, fileStore1)
                         else if \<not> (inOff + nat (recordsToWrite * 2) + 7 \<le> length messageIn \<and>
                                    outOff + nat (recordsToWrite * 2) + 7 \<le> length messageOut)
                           then None
                         else requestWrite_loop fileStore1 messageIn
                                (inOff + nat (recordsToWrite * 2) + 7)
                                (outOff + nat (recordsToWrite * 2) + 7)
                                (dataRead + nat (recordsToWrite * 2) + 7) ret1 messageOut2)
                  else Some (uint ILLEGAL_DATA_ADDRESS, messageOut1, fileStore)))
         else Some (uint ILLEGAL_DATA_VALUE, messageOut, fileStore))
      else if 2 < length messageOut then Some (ret, messageOut[2 := of_nat dataRead], fileStore)
      else None)"
  by pat_completeness auto
termination
  by (relation "measure (\<lambda>(fileStore, messageIn, inOff, outOff, dataRead, ret, messageOut).
                  unat (messageIn ! 2) - dataRead)") auto

declare requestWrite_loop.simps [simp del]

definition requestWrite ::
  "8 word list \<Rightarrow> 8 word list \<Rightarrow> 8 word list \<Rightarrow> (int \<times> 8 word list \<times> 8 word list) option" where
  "requestWrite fileStore messageIn messageOut =
     (if \<not> (2 < length messageIn \<and> 2 < length messageOut) then None
      else requestWrite_loop fileStore messageIn 3 3 0 0 messageOut)"

definition processIncomingMessage ::
  "8 word list \<Rightarrow> 8 word list \<Rightarrow> 8 word list \<Rightarrow> (int \<times> 8 word list \<times> 8 word list) option" where
  "processIncomingMessage fileStore messageIn messageOut =
     (if \<not> (1 < length messageIn \<and> 1 < length messageOut) then None
      else
        (let messageOut1 = messageOut[0 := messageIn ! 0, 1 := messageIn ! 1]
         in if messageIn ! 1 = 0x14 then
              (case requestRead fileStore messageIn messageOut1 of
                 None \<Rightarrow> None
               | Some (ret, messageOut2) \<Rightarrow> Some (ret, messageOut2, fileStore))
            else if messageIn ! 1 = 0x15 then requestWrite fileStore messageIn messageOut1
            else Some (uint ILLEGAL_FUNCTION, messageOut1, fileStore)))"

text \<open>
  One pass of the loop of \<open>main\<close>, from the point where \<open>recv\<close> has put a request at
  the start of \<open>messageIn\<close>: what happens next (the bytes handed to \<open>send\<close>, or the
  end of the program after "error: CRC failed") and the file store. The two arrays of
  \<open>main\<close> have \<open>MESSAGE_BYTES\<close> bytes.
\<close>

datatype simulator_action = Sends "8 word list" | Exits

definition simulator_reply ::
  "8 word list \<Rightarrow> 8 word list \<Rightarrow> 8 word list \<Rightarrow> (simulator_action \<times> 8 word list) option" where
  "simulator_reply fileStore messageIn messageOut =
     (if \<not> (length messageIn = MESSAGE_BYTES \<and> length messageOut = MESSAGE_BYTES) then None
      else
        (case processIncomingMessage fileStore messageIn messageOut of
           None \<Rightarrow> None
         | Some (result, messageOut1, fileStore1) \<Rightarrow>
             if result = 0 then
               (case AddCRC messageOut1 (unat (messageOut1 ! 2) + 3) MESSAGE_BYTES of
                  (added, messageOut2) \<Rightarrow>
                    if added
                    then Some (Sends (take (unat (messageOut1 ! 2) + 5) messageOut2), fileStore1)
                    else Some (Exits, fileStore1))
             else
               (let messageOut2 = messageOut1[1 := messageOut1 ! 1 OR 0x80];
                    messageOut3 = messageOut2[2 := of_int result]
                in case AddCRC messageOut3 3 MESSAGE_BYTES of
                     (added, messageOut4) \<Rightarrow>
                       if added then Some (Sends (take 5 messageOut4), fileStore1)
                       else Some (Exits, fileStore1))))"


section \<open>Notions of the specification\<close>

text \<open>
  The correlator of the specification, in its words: a received identifier equal to the
  expected one is accepted; one strictly between the last matched identifier and the
  expected one, both exclusive, in 16-bit wraparound-aware order, is stale; anything else
  is from the future. The distances are taken modulo \<open>65536\<close>, as subtraction on
  \<open>16 word\<close> does.
\<close>

datatype correlation = Accept | StaleDiscard | FutureAbort

definition accept_spec :: "16 word \<Rightarrow> 16 word \<Rightarrow> 16 word \<Rightarrow> correlation" where
  "accept_spec rx_id expected_id last_good_id =
     (if rx_id = expected_id then Accept
      else if 0 < rx_id - last_good_id \<and> rx_id - last_good_id < expected_id - last_good_id
        then StaleDiscard
      else FutureAbort)"

text \<open>How the three outcomes show in CheckTransactionId.\<close>

definition correlation_of :: "bool option \<Rightarrow> correlation" where
  "correlation_of r =
     (case r of None \<Rightarrow> FutureAbort | Some True \<Rightarrow> StaleDiscard | Some False \<Rightarrow> Accept)"

text \<open>Header and footer sizes of a frame, per transport, as ModBusWrite builds it.\<close>

definition transport_header :: "modbusTransportType_t \<Rightarrow> nat" where
  "transport_header t =
     (case t of tcp \<Rightarrow> TCP_HEADER_LENGTH | rtuOverTcp \<Rightarrow> 0 | rtu \<Rightarrow> MESSAGE_HEADER_LENGTH)"

definition transport_footer :: "modbusTransportType_t \<Rightarrow> nat" where
  "transport_footer t =
     (case t of tcp \<Rightarrow> 0 | rtuOverTcp \<Rightarrow> CRC_FOOTER_LENGTH | rtu \<Rightarrow> 0)"

text \<open>The buffer AddCRC leaves behind when it accepts (lines 254-256).\<close>

definition crc_appended :: "8 word list \<Rightarrow> nat \<Rightarrow> 8 word list" where
  "crc_appended message n =
     message[n := ucast (GetCRC message n AND 0xFF), n + 1 := ucast (drop_bit 8 (GetCRC message n))]"

text \<open>The PDU length that ReadBuffer computes from the buffer of a handle
  (lines 1252-1260).\<close>

definition expected_pdu :: "transport_layout \<Rightarrow> modbus_t \<Rightarrow> nat" where
  "expected_pdu lay h =
     (if isCFG h then UART_CFG_MESSAGE_RESP_LENGTH
      else GetFcodeLength (bufferedMessage h ! fCodeOffset lay)
                          (bufferedMessage h ! pduLengthOffset lay))"

text \<open>
  The range test of the simulator on the file sub-request that starts at offset \<open>off\<close> of
  a request: record number (bytes 3 and 4) plus record count (byte 6) below 10000.
\<close>

definition subrequest_in_range :: "8 word list \<Rightarrow> nat \<Rightarrow> bool" where
  "subrequest_in_range messageIn off =
     (be16 messageIn (off + 3) + uint (messageIn ! (off + 6)) < 10000)"

text \<open>
  The number of bytes that the answer to a read sub-request takes in \<open>messageOut\<close>:
  two for the length and the reference type, then two per record asked for.
\<close>

definition subrequest_answer_bytes :: "8 word list \<Rightarrow> nat \<Rightarrow> nat" where
  "subrequest_answer_bytes messageIn off = 2 * unat (messageIn ! (off + 6)) + 2"

text \<open>
  The exception answer of the simulator, as its \<open>main\<close> puts it together: slave
  address, function code with the exception bit, exception code, and the CRC of these
  three bytes, low byte first.
\<close>

definition exception_frame :: "8 word \<Rightarrow> 8 word \<Rightarrow> 8 word \<Rightarrow> 8 word list" where
  "exception_frame slave fCode code =
     (let crcVal = GetCRC [slave, fCode OR 0x80, code] 3
      in [slave, fCode OR 0x80, code, ucast (crcVal AND 0xFF), ucast (drop_bit 8 crcVal)])"

section \<open>Concrete inputs\<close>

text \<open>
  A handle as ModbusConnectIp returns it (\<open>memset\<close> to zero, then \<open>state = Idle\<close>)
  with the transport type set by the caller; a transport whose \<open>send\<close> takes every
  buffer whole; the statics at program start.
\<close>

definition fresh_handle :: "modbusTransportType_t \<Rightarrow> modbus_t" where
  "fresh_handle t =
     \<lparr>type = t, fd = 3, transactionId = 0, lastTransactionId = 0, state = Idle,
      bufferedMessageLength = 0, pduLength = 0, isCFG = False,
      bufferedMessage = replicate MAX_PDU_LENGTH 0, pdu = replicate MAX_PDU_LENGTH 0\<rparr>"

definition loopback :: platform where
  "loopback = \<lparr>DEVICE_DISCONNECTED = 24, send = (\<lambda>fd' buf. int (length buf))\<rparr>"

definition start_world :: world where
  "start_world = \<lparr>transactionIdentifier = 0, sent = [], sleeps = 0\<rparr>"

text \<open>
  A TCP handle waiting for the answer to request \<open>0\<close> after the counter has wrapped:
  the last answer matched had identifier \<open>65534\<close>.
\<close>

definition wrapped_handle :: modbus_t where
  "wrapped_handle =
     (fresh_handle tcp)\<lparr>transactionId := 0, lastTransactionId := 65534,
                         state := WaitingForResponse\<rparr>"

text \<open>A Modbus/TCP answer to "write single coil", with the given identifier bytes.\<close>

definition write_coil_reply :: "8 word \<Rightarrow> 8 word \<Rightarrow> 8 word list" where
  "write_coil_reply id_hi id_lo = [id_hi, id_lo, 0, 0, 0, 6, 1, 5, 0, 0, 0xFF, 0]"

text \<open>The same answer as the inter-core link delivers it: four header bytes, then the PDU.\<close>

definition intercore_reply :: "8 word list" where
  "intercore_reply = [2, 1, 4, 0, 1, 5, 0, 0, 0xFF, 0]"

text \<open>
  An inter-core handle that waits for an answer after an earlier exchange: the
  accumulation buffer still holds the bytes of the previous answer.
\<close>

definition used_intercore_handle :: modbus_t where
  "used_intercore_handle =
     (fresh_handle rtu)\<lparr>state := WaitingForResponse,
                         bufferedMessage := intercore_reply @ replicate 244 0\<rparr>"

text \<open>
  A read-file sub-request for ten records from record 9999 of file 4, as
  ReadFileSubRequestBuilder encodes it, and the request frame ReadFile sends for it to
  slave 1 over RTU-over-stream.
\<close>

definition far_subrequest :: "8 word list" where
  "far_subrequest = [6, 0, 4, 0x27, 0x0F, 0, 10]"

definition far_request :: "8 word list" where
  "far_request = [1, 20, 7, 6, 0, 4, 0x27, 0x0F, 0, 10, 0xB2, 0x54]"


section \<open>CRC16: round trip and sensitivity\<close>

lemma CRCTable_length: "length CRCTable = 256"
  by (simp add: CRCTable_def)

lemma CRCTable_high_distinct: "distinct (map (\<lambda>w. unat (drop_bit 8 w)) CRCTable)"
  unfolding CRCTable_def by simp

lemma CRCTable_high_inj:
  assumes "i < 256" "j < 256" "drop_bit 8 (CRCTable ! i) = drop_bit 8 (CRCTable ! j)"
  shows "i = j"
proof -
  let ?hs = "map (\<lambda>w. unat (drop_bit 8 w)) CRCTable"
  have "?hs ! i = ?hs ! j" using assms by (simp add: CRCTable_length)
  moreover have "i < length ?hs" "j < length ?hs" using assms by (simp_all add: CRCTable_length)
  ultimately show ?thesis
    using nth_eq_iff_index_eq [OF CRCTable_high_distinct, of i j] by blast
qed

text \<open>The table is the one of the reflected polynomial \<open>0xA001\<close>.\<close>

lemma crc16_entry_unfold:
  "crc16_entry i =
     crc16_bit (crc16_bit (crc16_bit (crc16_bit (crc16_bit (crc16_bit (crc16_bit (crc16_bit
       (of_nat i))))))))"
  by (simp add: eval_nat_numeral crc16_entry_def)

lemma crc16_bit_numeral:
  "crc16_bit (numeral n) =
     (if bit (numeral n :: 16 word) 0 then drop_bit 1 (numeral n) XOR 0xA001
      else drop_bit 1 (numeral n))"
  by (simp add: crc16_bit_def)

lemma crc16_bit_0: "crc16_bit 0 = 0"
  by (simp add: crc16_bit_def)

lemma crc16_bit_1: "crc16_bit 1 = 0xA001"
  by (simp add: crc16_bit_def)

lemma upt_256: "[0..<256] = 0 # 1 # [2..<256]"
  by (simp add: upt_conv_Cons)

lemma CRCTable_polynomial: "map crc16_entry [0..<256] = CRCTable"
  unfolding CRCTable_def upt_256
  by (simp add: crc16_entry_unfold crc16_bit_numeral crc16_bit_0 crc16_bit_1)

lemma word16_split_eq:
  fixes c c' :: "16 word"
  assumes "drop_bit 8 c = drop_bit 8 c'" "(ucast c :: 8 word) = ucast c'"
  shows "c = c'"
proof (rule bit_word_eqI)
  fix n assume n: "n < LENGTH(16)"
  show "bit c n = bit c' n"
  proof (cases "n < 8")
    case True
    have "bit (ucast c :: 8 word) n = bit (ucast c' :: 8 word) n" using assms by simp
    then show ?thesis using True n by (simp add: bit_ucast_iff)
  next
    case False
    have "bit (drop_bit 8 c) (n - 8) = bit (drop_bit 8 c') (n - 8)" using assms by simp
    then show ?thesis using False by (simp add: bit_drop_bit_eq)
  qed
qed

lemma drop_bit_16: "drop_bit 8 (drop_bit 8 (c :: 16 word)) = 0"
  by (rule bit_word_eqI) (auto simp add: bit_drop_bit_eq dest: bit_imp_le_length)

lemma xor_left_cancel_word: "(a :: 'a::len word) XOR b = a XOR c \<Longrightarrow> b = c"
proof -
  assume h: "a XOR b = a XOR c"
  have "a XOR (a XOR b) = a XOR (a XOR c)" using h by simp
  then show "b = c" by (simp flip: xor.assoc)
qed

lemma unat_byte_less: "unat (b :: 8 word) < 256"
  using unsigned_less [of b] by simp

lemma crc_step_high:
  "drop_bit 8 (crc_step b c) = drop_bit 8 (CRCTable ! unat (b XOR (ucast c :: 8 word)))"
  by (simp add: crc_step_def drop_bit_xor drop_bit_16)

lemma crc_step_index_eq:
  assumes "crc_step b c = crc_step b' c'"
  shows "b XOR (ucast c :: 8 word) = b' XOR ucast c'"
proof -
  have "drop_bit 8 (crc_step b c) = drop_bit 8 (crc_step b' c')" using assms by simp
  then have "unat (b XOR (ucast c :: 8 word)) = unat (b' XOR (ucast c' :: 8 word))"
    unfolding crc_step_high by (rule CRCTable_high_inj [OF unat_byte_less unat_byte_less])
  then show ?thesis by (simp add: word_unat_eq_iff)
qed

lemma crc_step_inj_state:
  assumes "crc_step b c = crc_step b c'"
  shows "c = c'"
proof -
  have ix: "b XOR (ucast c :: 8 word) = b XOR ucast c'" by (rule crc_step_index_eq [OF assms])
  then have lo: "(ucast c :: 8 word) = ucast c'" by (rule xor_left_cancel_word)
  have "drop_bit 8 c XOR CRCTable ! unat (b XOR (ucast c :: 8 word))
      = drop_bit 8 c' XOR CRCTable ! unat (b XOR (ucast c :: 8 word))"
    using assms ix by (simp add: crc_step_def)
  then have "drop_bit 8 c = drop_bit 8 c'"
    by (metis xor.commute xor_left_cancel_word)
  then show ?thesis using lo by (rule word16_split_eq)
qed

lemma crc_step_inj_byte:
  assumes "crc_step b c = crc_step b' c"
  shows "b = b'"
proof -
  have "b XOR (ucast c :: 8 word) = b' XOR ucast c" by (rule crc_step_index_eq [OF assms])
  then show ?thesis by (metis xor.commute xor_left_cancel_word)
qed

lemma fold_crc_step_inj:
  "fold crc_step xs c = fold crc_step xs c' \<Longrightarrow> c = c'"
proof (induction xs arbitrary: c c')
  case Nil
  then show ?case by simp
next
  case (Cons x xs)
  from Cons.prems have "fold crc_step xs (crc_step x c) = fold crc_step xs (crc_step x c')" by simp
  then have "crc_step x c = crc_step x c'" by (rule Cons.IH)
  then show ?case by (rule crc_step_inj_state)
qed

lemma fold_crc_step_byte:
  assumes "fold crc_step (xs @ b # ys) c = fold crc_step (xs @ b' # ys) c"
  shows "b = b'"
proof -
  from assms have "fold crc_step ys (crc_step b (fold crc_step xs c))
                 = fold crc_step ys (crc_step b' (fold crc_step xs c))" by simp
  then have "crc_step b (fold crc_step xs c) = crc_step b' (fold crc_step xs c)"
    by (rule fold_crc_step_inj)
  then show ?thesis by (rule crc_step_inj_byte)
qed

lemma ucast_low_byte: "(ucast ((c :: 16 word) AND 0xFF) :: 8 word) = ucast c"
proof -
  have m: "(0xFF :: 16 word) = mask 8" by (simp add: mask_eq_exp_minus_1)
  show ?thesis unfolding m
    by (rule bit_word_eqI) (simp add: bit_ucast_iff bit_and_iff bit_mask_iff)
qed

lemma crc_trailer_inj:
  fixes c c' :: "16 word"
  assumes "(ucast (c AND 0xFF) :: 8 word) = ucast (c' AND 0xFF)"
      and "(ucast (drop_bit 8 c) :: 8 word) = ucast (drop_bit 8 c')"
  shows "c = c'"
proof -
  have lo: "(ucast c :: 8 word) = ucast c'" using assms(1) by (simp only: ucast_low_byte)
  have "drop_bit 8 c = drop_bit 8 c'"
  proof (rule bit_word_eqI)
    fix n assume n: "n < LENGTH(16)"
    have "bit (ucast (drop_bit 8 c) :: 8 word) n = bit (ucast (drop_bit 8 c') :: 8 word) n"
      using assms(2) by simp
    then show "bit (drop_bit 8 c) n = bit (drop_bit 8 c') n"
      by (cases "n < 8") (auto simp add: bit_ucast_iff bit_drop_bit_eq dest: bit_imp_le_length)
  qed
  then show ?thesis using lo by (rule word16_split_eq)
qed

lemma GetCRC_update_beyond: "n \<le> i \<Longrightarrow> GetCRC (message[i := v]) n = GetCRC message n"
  by (simp add: GetCRC_def take_update_cancel)

lemma GetCRC_update_within:
  assumes "i < n" "n \<le> length message" "GetCRC (message[i := v]) n = GetCRC message n"
  shows "v = message ! i"
proof -
  let ?xs = "take n message"
  have i: "i < length ?xs" using assms by simp
  have a: "?xs = take i ?xs @ (message ! i) # drop (Suc i) ?xs"
    using id_take_nth_drop [OF i] assms(1) by simp
  have b: "take n (message[i := v]) = take i ?xs @ v # drop (Suc i) ?xs"
    using upd_conv_take_nth_drop [OF i, of v] by (simp add: take_update_swap)
  have "fold crc_step (take i ?xs @ v # drop (Suc i) ?xs) 0xFFFF
      = fold crc_step (take i ?xs @ (message ! i) # drop (Suc i) ?xs) 0xFFFF"
    using assms(3) unfolding GetCRC_def b using a by simp
  then show ?thesis by (rule fold_crc_step_byte)
qed

lemma AddCRC_fits:
  "n + 2 \<le> maxLen \<Longrightarrow> AddCRC message n maxLen = (True, crc_appended message n)"
  by (simp add: AddCRC_def crc_appended_def Let_def)

lemma crc_appended_GetCRC: "GetCRC (crc_appended message n) n = GetCRC message n"
  by (simp add: crc_appended_def GetCRC_update_beyond)

lemma crc_appended_nth:
  assumes "n + 2 \<le> length message"
  shows "crc_appended message n ! n = ucast (GetCRC message n AND 0xFF)"
    and "crc_appended message n ! (n + 1) = ucast (drop_bit 8 (GetCRC message n))"
  using assms by (simp_all add: crc_appended_def)

lemma crc_appended_valid:
  assumes "n + 2 \<le> length message"
  shows "ValidateCRC (crc_appended message n) (n + 2)"
  using crc_appended_nth [OF assms] by (simp add: ValidateCRC_def crc_appended_GetCRC)

lemma crc_appended_sensitive:
  assumes len: "n + 2 \<le> length message" and i: "i < n + 2"
      and v: "v \<noteq> crc_appended message n ! i"
  shows "\<not> ValidateCRC ((crc_appended message n)[i := v]) (n + 2)"
proof
  let ?out = "crc_appended message n"
  assume val: "ValidateCRC (?out[i := v]) (n + 2)"
  have lout: "length ?out = length message" by (simp add: crc_appended_def)
  from val have lo: "?out[i := v] ! n = ucast (GetCRC (?out[i := v]) n AND 0xFF)"
    and hi: "?out[i := v] ! (n + 1) = ucast (drop_bit 8 (GetCRC (?out[i := v]) n))"
    by (simp_all add: ValidateCRC_def Let_def)
  consider "i < n" | "i = n" | "i = n + 1" using i by linarith
  then show False
  proof cases
    case 1
    have "?out[i := v] ! n = ?out ! n" "?out[i := v] ! (n + 1) = ?out ! (n + 1)"
      using 1 by simp_all
    with lo hi crc_appended_nth [OF len]
    have "(ucast (GetCRC (?out[i := v]) n AND 0xFF) :: 8 word) = ucast (GetCRC message n AND 0xFF)"
      and "(ucast (drop_bit 8 (GetCRC (?out[i := v]) n)) :: 8 word)
             = ucast (drop_bit 8 (GetCRC message n))"
      by simp_all
    then have "GetCRC (?out[i := v]) n = GetCRC message n" by (rule crc_trailer_inj)
    then have "GetCRC (?out[i := v]) n = GetCRC ?out n" by (simp add: crc_appended_GetCRC)
    then have "v = ?out ! i" using 1 len lout by (intro GetCRC_update_within [of i n]) simp_all
    with v show False by simp
  next
    case 2
    have "GetCRC (?out[i := v]) n = GetCRC message n"
      using 2 by (simp add: GetCRC_update_beyond crc_appended_GetCRC)
    with lo 2 len lout have "v = ucast (GetCRC message n AND 0xFF)" by simp
    with v 2 crc_appended_nth(1) [OF len] show False by simp
  next
    case 3
    have "GetCRC (?out[i := v]) n = GetCRC message n"
      using 3 by (simp add: GetCRC_update_beyond crc_appended_GetCRC)
    with hi 3 len lout have "v = ucast (drop_bit 8 (GetCRC message n))" by simp
    with v 3 crc_appended_nth(2) [OF len] show False by simp
  qed
qed

text \<open>
  C5. For a buffer \<open>message\<close> whose first \<open>n\<close> bytes are the data and whose stated
  capacity \<open>maxLen\<close> (at most its real size) has room for \<open>n + 2\<close> bytes, AddCRC
  returns true, leaves the data alone and writes the CRC of the data behind it, low byte
  first; the CRC is the table-driven one started at \<open>0xFFFF\<close>, and the table is that of
  the polynomial \<open>0xA001\<close>. The \<open>n + 2\<close> bytes then pass validation, and stop passing
  it when any one of them is changed. When the stated capacity has no room for
  \<open>n + 2\<close> bytes AddCRC returns false and the buffer is untouched.
\<close>

theorem AddCRC_roundtrip:
  "(n + 2 \<le> maxLen \<and> maxLen \<le> length message \<longrightarrow>
      (\<exists>out. AddCRC message n maxLen = (True, out) \<and>
         length out = length message \<and> take n out = take n message \<and>
         out ! n = ucast (GetCRC message n AND 0xFF) \<and>
         out ! (n + 1) = ucast (drop_bit 8 (GetCRC message n)) \<and>
         GetCRC message n = fold crc_step (take n message) 0xFFFF \<and>
         ValidateCRC out (n + 2) \<and>
         (\<forall>i v. i < n + 2 \<and> v \<noteq> out ! i \<longrightarrow> \<not> ValidateCRC (out[i := v]) (n + 2)))) \<and>
   (\<not> n + 2 \<le> maxLen \<longrightarrow> AddCRC message n maxLen = (False, message)) \<and>
   CRCTable = map crc16_entry [0..<256]"
proof (intro conjI impI)
  assume h: "n + 2 \<le> maxLen \<and> maxLen \<le> length message"
  then have len: "n + 2 \<le> length message" by simp
  show "\<exists>out. AddCRC message n maxLen = (True, out) \<and>
         length out = length message \<and> take n out = take n message \<and>
         out ! n = ucast (GetCRC message n AND 0xFF) \<and>
         out ! (n + 1) = ucast (drop_bit 8 (GetCRC message n)) \<and>
         GetCRC message n = fold crc_step (take n message) 0xFFFF \<and>
         ValidateCRC out (n + 2) \<and>
         (\<forall>i v. i < n + 2 \<and> v \<noteq> out ! i \<longrightarrow> \<not> ValidateCRC (out[i := v]) (n + 2))"
  proof (intro exI [of _ "crc_appended message n"] conjI allI impI)
    show "AddCRC message n maxLen = (True, crc_appended message n)"
      using h by (simp add: AddCRC_fits)
    show "length (crc_appended message n) = length message" by (simp add: crc_appended_def)
    show "take n (crc_appended message n) = take n message" by (simp add: crc_appended_def)
    show "crc_appended message n ! n = ucast (GetCRC message n AND 0xFF)"
      by (rule crc_appended_nth [OF len])
    show "crc_appended message n ! (n + 1) = ucast (drop_bit 8 (GetCRC message n))"
      by (rule crc_appended_nth [OF len])
    show "GetCRC message n = fold crc_step (take n message) 0xFFFF" by (simp add: GetCRC_def)
    show "ValidateCRC (crc_appended message n) (n + 2)" by (rule crc_appended_valid [OF len])
  next
    fix i v assume "i < n + 2 \<and> v \<noteq> crc_appended message n ! i"
    then show "\<not> ValidateCRC ((crc_appended message n)[i := v]) (n + 2)"
      using crc_appended_sensitive [OF len] by blast
  qed
next
  assume "\<not> n + 2 \<le> maxLen"
  then show "AddCRC message n maxLen = (False, message)" by (simp add: AddCRC_def)
next
  show "CRCTable = map crc16_entry [0..<256]" by (rule CRCTable_polynomial [symmetric])
qed

lemma AddCRC_example:
  "AddCRC [1, 5, 0, 0, 0xFF, 0, 0, 0] 6 8 = (True, [1, 5, 0, 0, 0xFF, 0, 0x8C, 0x3A])"
  by (simp add: AddCRC_def GetCRC_def crc_step_def CRCTable_def)

theorem AddCRC_roundtrip_witness:
  "(6 :: nat) + 2 \<le> 8 \<and> 8 \<le> length [1, 5, 0, 0, 0xFF, 0, 0, 0 :: 8 word] \<and>
   AddCRC [1, 5, 0, 0, 0xFF, 0, 0, 0] 6 8 = (True, [1, 5, 0, 0, 0xFF, 0, 0x8C, 0x3A]) \<and>
   ValidateCRC [1, 5, 0, 0, 0xFF, 0, 0x8C, 0x3A] 8 \<and>
   \<not> ValidateCRC [1, 5, 0, 1, 0xFF, 0, 0x8C, 0x3A] 8 \<and>
   \<not> (7 :: nat) + 2 \<le> 8 \<and> AddCRC [1, 5, 0, 0, 0xFF, 0, 0, 0] 7 8 = (False, [1, 5, 0, 0, 0xFF, 0, 0, 0])"
proof -
  let ?m = "[1, 5, 0, 0, 0xFF, 0, 0, 0 :: 8 word]"
  let ?out = "[1, 5, 0, 0, 0xFF, 0, 0x8C, 0x3A :: 8 word]"
  from AddCRC_roundtrip [of 6 8 ?m] AddCRC_example
  have v: "ValidateCRC ?out 8"
    and s: "\<forall>i v. i < 6 + 2 \<and> v \<noteq> ?out ! i \<longrightarrow> \<not> ValidateCRC (?out[i := v]) (6 + 2)"
    by auto
  from s have "(3::nat) < 6 + 2 \<and> (1 :: 8 word) \<noteq> ?out ! 3 \<longrightarrow> \<not> ValidateCRC (?out[3 := 1]) (6 + 2)"
    by blast
  then have c: "\<not> ValidateCRC [1, 5, 0, 1, 0xFF, 0, 0x8C, 0x3A] 8" by simp
  from AddCRC_roundtrip [of 7 8 ?m]
  have f: "AddCRC ?m 7 8 = (False, ?m)" by simp
  show ?thesis using AddCRC_example v c f by simp
qed

section \<open>The function-code length table\<close>

text \<open>
  C4, as stated: every function code with the high bit set gives the exception length.
  It fails at \<open>0x80\<close> itself and above \<open>0xA0\<close>, for instance at \<open>0xAB\<close>, the
  exception answer to function \<open>0x2B\<close>: the test is
  \<open>fCode > FCODE_ERROR_OFFSET && fCode <= FCODE_ERROR_OFFSET + FCODE_RANGE\<close>.
\<close>

theorem GetFcodeLength_high_bit_counterexample:
  "(0x80 :: 8 word) \<ge> 0x80 \<and> GetFcodeLength 0x80 5 \<noteq> ERROR_CODE_LENGTH \<and>
   (0xAB :: 8 word) \<ge> 0x80 \<and> GetFcodeLength 0xAB 5 \<noteq> ERROR_CODE_LENGTH"
  by (simp add: GetFcodeLength_def fcode_defs length_defs)

text \<open>
  C4, amended: for every function code \<open>f\<close> with \<open>0x80 < f \<le> 0xA0\<close> (the exception
  answers to the function codes 1 to 32) and every length byte, GetFcodeLength gives the
  fixed exception length of three bytes, whatever the length byte; for \<open>f = 0x80\<close> and
  for \<open>f > 0xA0\<close> it gives 0, the value of an unsupported function code.
\<close>

theorem GetFcodeLength_exception_range:
  "(0x80 < f \<and> f \<le> 0xA0 \<longrightarrow> GetFcodeLength f d = ERROR_CODE_LENGTH) \<and>
   (f = 0x80 \<or> 0xA0 < f \<longrightarrow> GetFcodeLength f d = 0)"
  by (auto simp add: GetFcodeLength_def fcode_defs length_defs word_less_nat_alt word_le_nat_alt)

theorem GetFcodeLength_exception_range_witness:
  "(0x80 :: 8 word) < 0x81 \<and> (0x81 :: 8 word) \<le> 0xA0 \<and> GetFcodeLength 0x81 7 = 3 \<and>
   (0xA0 :: 8 word) < 0xAB \<and> GetFcodeLength 0xAB 7 = 0"
  using GetFcodeLength_exception_range [of "0x81" 7] GetFcodeLength_exception_range [of "0xAB" 7]
  by (simp add: length_defs)

section \<open>Bytes that arrive outside a wait, and bytes that do not fit\<close>

text \<open>
  C10. When the handle is not in WaitingForResponse, MessageHandler returns
  \<open>waiting\<close> and only sets the accumulation length to 0; so whatever event the
  delivery flow handles for such a handle, the pdu buffer and its length stay, and the
  state stays or becomes Disconnected (on a hang-up), never DataReceived or
  TransactionFailed unless it was that already.
\<close>

theorem MessageHandler_not_waiting:
  assumes "state hndl \<noteq> WaitingForResponse"
  shows "MessageHandler hndl message inputLength = (waiting, hndl\<lparr>bufferedMessageLength := 0\<rparr>) \<and>
         (state (EpollThread_event hndl d) = state hndl \<or>
          state (EpollThread_event hndl d) = Disconnected) \<and>
         pdu (EpollThread_event hndl d) = pdu hndl \<and>
         pduLength (EpollThread_event hndl d) = pduLength hndl"
  using assms by (cases d) (simp_all add: MessageHandler_def ModBusRead_def)

theorem MessageHandler_not_waiting_witness:
  "state (fresh_handle tcp) \<noteq> WaitingForResponse \<and>
   MessageHandler (fresh_handle tcp) (write_coil_reply 0 0) 12
     = (waiting, (fresh_handle tcp)\<lparr>bufferedMessageLength := 0\<rparr>) \<and>
   pdu (EpollThread_event (fresh_handle tcp) (Epoll True False 12 (write_coil_reply 0 0)))
     = pdu (fresh_handle tcp)"
proof -
  have h: "state (fresh_handle tcp) \<noteq> WaitingForResponse" by (simp add: fresh_handle_def)
  show ?thesis
    using h MessageHandler_not_waiting [OF h, of "write_coil_reply 0 0" 12
          "Epoll True False 12 (write_coil_reply 0 0)"]
    by simp
qed

text \<open>
  C3, as stated: on overflow the outcome makes the request fail. With 200 bytes buffered
  and 100 more arriving, MessageHandler returns \<open>waiting\<close>, not \<open>failure\<close>, and the
  delivery flow leaves the handle in WaitingForResponse.
\<close>

theorem MessageHandler_overflow_counterexample:
  "state ((fresh_handle tcp)\<lparr>state := WaitingForResponse, bufferedMessageLength := 200\<rparr>)
     = WaitingForResponse \<and>
   MAX_PDU_LENGTH < 200 + 100 \<and>
   fst (MessageHandler
          ((fresh_handle tcp)\<lparr>state := WaitingForResponse, bufferedMessageLength := 200\<rparr>)
          (replicate 100 0) 100) \<noteq> failure \<and>
   state (EpollThread_event
            ((fresh_handle tcp)\<lparr>state := WaitingForResponse, bufferedMessageLength := 200\<rparr>)
            (Epoll True False 100 (replicate 100 0))) = WaitingForResponse"
  by (simp add: MessageHandler_def ModBusRead_def fresh_handle_def length_defs)

text \<open>
  C3, amended: for a handle in WaitingForResponse, when the buffered length plus the
  length of the new bytes is not below \<open>MAX_PDU_LENGTH\<close> (254), MessageHandler sets the
  accumulation length to 0, changes nothing else and returns \<open>waiting\<close>; the delivery
  flow then leaves the state WaitingForResponse, so the request stays in flight until a
  later answer or its timeout.
\<close>

theorem MessageHandler_overflow:
  assumes "state hndl = WaitingForResponse"
      and "MAX_PDU_LENGTH \<le> bufferedMessageLength hndl + inputLength"
  shows "MessageHandler hndl message inputLength = (waiting, hndl\<lparr>bufferedMessageLength := 0\<rparr>) \<and>
         (int inputLength = bytesReceived mod 65536 \<longrightarrow>
            EpollThread_event hndl (Epoll True False bytesReceived message)
              = hndl\<lparr>bufferedMessageLength := 0\<rparr>)"
  using assms by (simp add: MessageHandler_def ModBusRead_def)

theorem MessageHandler_overflow_witness:
  "state ((fresh_handle tcp)\<lparr>state := WaitingForResponse, bufferedMessageLength := 200\<rparr>)
     = WaitingForResponse \<and>
   MAX_PDU_LENGTH \<le> 200 + 100 \<and>
   MessageHandler
     ((fresh_handle tcp)\<lparr>state := WaitingForResponse, bufferedMessageLength := 200\<rparr>)
     (replicate 100 0) 100
     = (waiting, (fresh_handle tcp)\<lparr>state := WaitingForResponse, bufferedMessageLength := 0\<rparr>) \<and>
   state (EpollThread_event
            ((fresh_handle tcp)\<lparr>state := WaitingForResponse, bufferedMessageLength := 200\<rparr>)
            (Epoll True False 100 (replicate 100 0))) = WaitingForResponse"
  using MessageHandler_overflow
          [of "(fresh_handle tcp)\<lparr>state := WaitingForResponse, bufferedMessageLength := 200\<rparr>"
              100 "replicate 100 0" 100]
  by (simp add: fresh_handle_def length_defs)

section \<open>Requests on a handle that is not idle\<close>

text \<open>
  C9. Each of the ten request primitives, called on a handle whose state is not Idle,
  returns at once with false and with the first entry of the output array set to
  \<open>DEVICE_DISCONNECTED\<close> when the state is Disconnected and to \<open>HANDLE_IN_USE\<close>
  otherwise; the handle and the world (nothing passed to \<open>send\<close>, no sleep) are as
  before, whatever the delivery flow would do.
\<close>

theorem request_on_busy_handle:
  assumes "state hndl \<noteq> Idle"
  shows
   "NotReadyReason pf hndl
      = (if state hndl = Disconnected then DEVICE_DISCONNECTED pf else HANDLE_IN_USE) \<and>
    ReadCoils pf env hndl w slaveID address bitsToRead readArray timeout
      = Some (False, readArray[0 := NotReadyReason pf hndl], hndl, w) \<and>
    ReadDiscreteInputs pf env hndl w slaveID address bitsToRead readArray timeout
      = Some (False, readArray[0 := NotReadyReason pf hndl], hndl, w) \<and>
    ReadMultipleHoldingRegisters pf env hndl w slaveID address registersToRead readArray16 timeout
      = Some (False, readArray16[0 := ucast (NotReadyReason pf hndl)], hndl, w) \<and>
    ReadInputRegisters pf env hndl w slaveID address registersToRead readArray16 timeout
      = Some (False, readArray16[0 := ucast (NotReadyReason pf hndl)], hndl, w) \<and>
    WriteSingleCoil pf env hndl w slaveID address bit' readArray timeout
      = Some (False, readArray[0 := NotReadyReason pf hndl], hndl, w) \<and>
    WriteSingleHoldingRegister pf env hndl w slaveID address mbRegister readArray timeout
      = Some (False, readArray[0 := NotReadyReason pf hndl], hndl, w) \<and>
    WriteMultipleCoils pf env hndl w slaveID address numToWrite bitArray readArray timeout
      = Some (False, readArray[0 := NotReadyReason pf hndl], hndl, w) \<and>
    WriteMultipleHoldingRegisters pf env hndl w slaveID address numToWrite registerArray
        readArray timeout
      = Some (False, readArray[0 := NotReadyReason pf hndl], hndl, w) \<and>
    ReadFile pf env hndl w slaveID messageArray messageLength readArray timeout
      = Some (False, readArray[0 := NotReadyReason pf hndl], hndl, w) \<and>
    WriteFile pf env hndl w slaveID messageArray messageLength readArray timeout
      = Some (False, readArray[0 := NotReadyReason pf hndl], hndl, w)"
  using assms
  by (simp add: NotReadyReason_def ReadCoils_def ReadDiscreteInputs_def
      ReadMultipleHoldingRegisters_def ReadInputRegisters_def WriteSingleCoil_def
      WriteSingleHoldingRegister_def WriteMultipleCoils_def WriteMultipleHoldingRegisters_def
      ReadFile_def WriteFile_def Let_def)

theorem request_on_busy_handle_witness:
  "state wrapped_handle \<noteq> Idle \<and>
   ReadCoils loopback [] wrapped_handle start_world 1 100 4 [0] 500
     = Some (False, [HANDLE_IN_USE], wrapped_handle, start_world) \<and>
   state (wrapped_handle\<lparr>state := Disconnected\<rparr>) \<noteq> Idle \<and>
   WriteFile loopback [] (wrapped_handle\<lparr>state := Disconnected\<rparr>) start_world 1 [6] 1 [0] 500
     = Some (False, [24], wrapped_handle\<lparr>state := Disconnected\<rparr>, start_world)"
proof -
  have h1: "state wrapped_handle \<noteq> Idle" by (simp add: wrapped_handle_def)
  have h2: "state (wrapped_handle\<lparr>state := Disconnected\<rparr>) \<noteq> Idle" by simp
  show ?thesis
    using h1 request_on_busy_handle [OF h1, where pf = loopback and env = "[]"
            and w = start_world and slaveID = 1 and address = 100 and bitsToRead = 4
            and readArray = "[0]" and timeout = 500]
          request_on_busy_handle [OF h2, where pf = loopback and env = "[]"
            and w = start_world and slaveID = 1 and messageArray = "[6]" and messageLength = 1
            and readArray = "[0]" and timeout = 500]
    by (simp add: NotReadyReason_def wrapped_handle_def loopback_def)
qed

section \<open>The end of a blocking wait\<close>

text \<open>
  C6, at the failing input. A wait that finds the handle Disconnected, or whose handle
  becomes Disconnected through a hang-up event during the first sleep, returns false
  and leaves the state Idle: the assignment \<open>hndl->state = Idle\<close> that ends
  WaitForData is unconditional.
\<close>

theorem WaitForData_resets_Disconnected:
  "WaitForData (hndl\<lparr>state := Disconnected\<rparr>) w timeout env
     = Some (False, hndl\<lparr>state := Idle\<rparr>, w) \<and>
   WaitForData (hndl\<lparr>state := WaitingForResponse\<rparr>) w timeout (Epoll False True b m # env)
     = Some (False, hndl\<lparr>state := Idle\<rparr>, w\<lparr>sleeps := sleeps w + 1\<rparr>)"
  by (cases env) (simp_all add: WaitForData_def)

section \<open>Transaction correlation\<close>

text \<open>
  Where the received identifier differs from the last matched one, and the expected one
  does too, CheckTransactionId is the correlator of the specification.
\<close>

lemma CheckTransactionId_accept_spec:
  assumes "rx \<noteq> L" "E \<noteq> L"
  shows "correlation_of (CheckTransactionId E L rx) = accept_spec rx E L"
proof -
  have b: "unat rx < 65536" "unat E < 65536" "unat L < 65536"
    using unsigned_less [of rx] unsigned_less [of E] unsigned_less [of L] by simp_all
  show ?thesis
    using assms b
    unfolding CheckTransactionId_def accept_spec_def correlation_of_def
    by (auto simp add: word_less_nat_alt word_le_nat_alt word_unat_eq_iff unat_sub_if_size
        word_size)
qed

lemmas MessageHandler_eval = MessageHandler_def AppendToBuffer_def ReadBuffer_def
  ExtractMessage_def transport_layout_def CheckTransactionId_def GetFcodeLength_def memcpy_def
  fcode_defs length_defs Let_def word_le_nat_alt word_less_nat_alt

text \<open>The two examples of the specification: expected 0, last matched 65534.\<close>

lemma MessageHandler_wraparound_examples:
  "MessageHandler wrapped_handle (write_coil_reply 0xFF 0xFF) 12
     = (waiting, wrapped_handle\<lparr>bufferedMessage := write_coil_reply 0xFF 0xFF @ replicate 242 0,
                                  bufferedMessageLength := 0\<rparr>)"
  "MessageHandler wrapped_handle (write_coil_reply 0 1) 12
     = (failure, wrapped_handle\<lparr>bufferedMessage := write_coil_reply 0 1 @ replicate 242 0,
                                  bufferedMessageLength := 0\<rparr>)"
  "MessageHandler wrapped_handle (write_coil_reply 0 0) 12
     = (success, wrapped_handle\<lparr>bufferedMessage := write_coil_reply 0 0 @ replicate 242 0,
                                  bufferedMessageLength := 0, pduLength := 6,
                                  lastTransactionId := 0,
                                  pdu := [1, 5, 0, 0, 0xFF, 0] @ replicate 248 0\<rparr>)"
  by (simp_all add: MessageHandler_eval wrapped_handle_def fresh_handle_def write_coil_reply_def)

text \<open>
  C1, at the failing input: expected identifier 0, last matched 65534, and a complete
  frame that carries 65534 again. That identifier is not strictly between the last
  matched and the expected one, so the rule of the claim makes it FutureAbort; the
  wraparound branch of the source tests \<open>rxTransaction >= lastTransactionId\<close> and
  treats it as stale: the frame is dropped and the outcome is \<open>waiting\<close>.
\<close>

theorem MessageHandler_duplicate_of_last_id:
  "accept_spec 65534 0 65534 = FutureAbort \<and>
   CheckTransactionId 0 65534 65534 = Some True \<and>
   MessageHandler wrapped_handle (write_coil_reply 0xFF 0xFE) 12
     = (waiting, wrapped_handle\<lparr>bufferedMessage := write_coil_reply 0xFF 0xFE @ replicate 242 0,
                                  bufferedMessageLength := 0\<rparr>)"
  by (simp add: accept_spec_def MessageHandler_eval wrapped_handle_def fresh_handle_def
      write_coil_reply_def)


section \<open>Reassembly of a fragmented frame\<close>

lemma memcpy_memcpy:
  assumes "off \<le> length buf"
  shows "memcpy (memcpy buf off a (length a)) (off + length a) b (length b)
           = memcpy buf off (a @ b) (length a + length b)"
  using assms by (simp add: memcpy_def ac_simps)

lemma AppendToBuffer_append:
  assumes "bufferedMessageLength h \<le> length (bufferedMessage h)"
      and "bufferedMessageLength h + length a + length b < 65536"
  shows "AppendToBuffer (AppendToBuffer h a (length a)) b (length b)
           = AppendToBuffer h (a @ b) (length (a @ b))"
  using assms by (simp add: AppendToBuffer_def memcpy_memcpy add.assoc)

lemma AppendToBuffer_nil:
  "bufferedMessageLength h < 65536 \<Longrightarrow> AppendToBuffer h [] 0 = h"
  by (simp add: AppendToBuffer_def memcpy_def)

lemma AppendToBuffer_fields [simp]:
  "state (AppendToBuffer h m n) = state h"
  "type (AppendToBuffer h m n) = type h"
  "isCFG (AppendToBuffer h m n) = isCFG h"
  "bufferedMessageLength (AppendToBuffer h m n) = (bufferedMessageLength h + n) mod 65536"
  by (simp_all add: AppendToBuffer_def)

lemma AppendToBuffer_nth:
  assumes "bufferedMessageLength h = 0" "i < length m"
  shows "bufferedMessage (AppendToBuffer h m (length m)) ! i = m ! i"
  using assms by (simp add: AppendToBuffer_def memcpy_def nth_append)

lemma MessageHandler_append:
  assumes "state h = WaitingForResponse" "bufferedMessageLength h + n < MAX_PDU_LENGTH"
      and "transport_layout (type h) = Some lay"
  shows "MessageHandler h m n = ReadBuffer lay (AppendToBuffer h m n)"
  using assms by (simp add: MessageHandler_def Let_def)

lemma MessageHandler_success_fits:
  assumes "MessageHandler h m n = (success, h1)"
  shows "state h = WaitingForResponse \<and> bufferedMessageLength h + n < MAX_PDU_LENGTH"
  using assms by (auto simp add: MessageHandler_def split: if_splits)

lemma ExtractMessage_length:
  assumes "ExtractMessage lay h n = (r, h1)" "r \<noteq> failure"
  shows "bufferedMessageLength h1
           = (bufferedMessageLength h - (n + transportHeaderLength lay + transportFooterLength lay))
               mod 65536"
  using assms
  by (auto simp add: ExtractMessage_def Let_def split: option.splits if_splits)

lemma ReadBuffer_success_exact:
  assumes "ReadBuffer lay h = (success, h1)" "bufferedMessageLength h1 = 0"
      and "bufferedMessageLength h < 65536"
  shows "(bufferedMessageLength h \<ge> minLength lay \<or> type h = rtu) \<and>
         bufferedMessageLength h
           = expected_pdu lay h + transportHeaderLength lay + transportFooterLength lay"
proof -
  let ?n = "expected_pdu lay h"
  let ?known = "bufferedMessageLength h \<ge> minLength lay \<or> type h = rtu"
  have full: "?known \<and> bufferedMessageLength h \<ge> ?n + transportHeaderLength lay + transportFooterLength lay"
    using assms(1) by (auto simp add: ReadBuffer_def Let_def expected_pdu_def split: if_splits)
  then have "ReadBuffer lay h = ExtractMessage lay h ?n"
    by (auto simp add: ReadBuffer_def Let_def expected_pdu_def)
  then have "ExtractMessage lay h ?n = (success, h1)" using assms(1) by simp
  then have "bufferedMessageLength h1
           = (bufferedMessageLength h - (?n + transportHeaderLength lay + transportFooterLength lay))
               mod 65536"
    by (rule ExtractMessage_length) simp
  then have "bufferedMessageLength h - (?n + transportHeaderLength lay + transportFooterLength lay) = 0"
    using assms(2,3) by simp
  then show ?thesis using full by simp
qed

lemma ReadBuffer_short_waiting:
  assumes "type h \<noteq> rtu"
      and "bufferedMessageLength h < minLength lay \<or>
           bufferedMessageLength h
             < expected_pdu lay h + transportHeaderLength lay + transportFooterLength lay"
  shows "ReadBuffer lay h = (waiting, h)"
  using assms by (auto simp add: ReadBuffer_def Let_def expected_pdu_def)

lemma layout_offsets:
  assumes "transport_layout t = Some lay" "t \<noteq> rtu"
  shows "fCodeOffset lay < minLength lay \<and> pduLengthOffset lay < minLength lay"
  using assms by (cases t) (auto simp add: transport_layout_def length_defs)

lemma transport_layout_total: "\<exists>lay. transport_layout t = Some lay"
  by (cases t) (simp_all add: transport_layout_def)

lemma expected_pdu_prefix:
  assumes "bufferedMessageLength h = 0"
      and "fCodeOffset lay < length p" "pduLengthOffset lay < length p"
  shows "expected_pdu lay (AppendToBuffer h p (length p))
           = expected_pdu lay (AppendToBuffer h (p @ s) (length (p @ s)))"
  using assms AppendToBuffer_nth [OF assms(1), of "fCodeOffset lay" p]
        AppendToBuffer_nth [OF assms(1), of "pduLengthOffset lay" p]
        AppendToBuffer_nth [OF assms(1), of "fCodeOffset lay" "p @ s"]
        AppendToBuffer_nth [OF assms(1), of "pduLengthOffset lay" "p @ s"]
  by (simp add: expected_pdu_def nth_append)

lemma header_plus_byte:
  "(PDU_HEADER_LENGTH + unat (d :: 8 word)) mod 65536 = PDU_HEADER_LENGTH + unat d"
  using unat_byte_less [of d] by (simp add: length_defs)

lemma GetFcodeLength_zero_or_header:
  "GetFcodeLength f d = 0 \<or> PDU_HEADER_LENGTH \<le> GetFcodeLength f d"
  unfolding GetFcodeLength_def header_plus_byte by (simp add: ERROR_CODE_LENGTH_def PDU_HEADER_LENGTH_def)

lemma GetFcodeLength_zero_any:
  "GetFcodeLength f d = 0 \<Longrightarrow> GetFcodeLength f d' = 0"
  unfolding GetFcodeLength_def header_plus_byte
  by (simp add: ERROR_CODE_LENGTH_def PDU_HEADER_LENGTH_def split: if_splits)

lemma ReadBuffer_incomplete_waiting:
  assumes "bufferedMessageLength h
             < expected_pdu lay h + transportHeaderLength lay + transportFooterLength lay"
  shows "ReadBuffer lay h = (waiting, h)"
  using assms by (auto simp add: ReadBuffer_def Let_def expected_pdu_def)

lemma AppendToBuffer_stale:
  assumes "bufferedMessageLength h = 0" "length m \<le> i" "i < length (bufferedMessage h)"
  shows "bufferedMessage (AppendToBuffer h m (length m)) ! i = bufferedMessage h ! i"
  using assms by (simp add: AppendToBuffer_def memcpy_def nth_append)

lemma rtu_layout:
  assumes "transport_layout rtu = Some lay"
  shows "fCodeOffset lay = MESSAGE_HEADER_LENGTH + 1"
        "pduLengthOffset lay = MESSAGE_HEADER_LENGTH + 2"
        "transportHeaderLength lay = MESSAGE_HEADER_LENGTH"
        "transportFooterLength lay = 0"
        "minLength lay = MESSAGE_HEADER_LENGTH + PDU_HEADER_LENGTH"
  using assms by (auto simp add: transport_layout_def)

text \<open>A proper prefix of a frame that is accepted whole leaves the handler waiting.\<close>

lemma prefix_waiting:
  assumes lay: "transport_layout (type h) = Some lay"
      and st: "state h = WaitingForResponse" and empty: "bufferedMessageLength h = 0"
      and buf: "length (bufferedMessage h) = MAX_PDU_LENGTH"
      and whole: "MessageHandler h (p @ s) (length (p @ s)) = (success, h1)"
      and exact: "bufferedMessageLength h1 = 0"
      and s: "s \<noteq> []"
      and safe: "type h \<noteq> rtu \<or> isCFG h \<or>
                 GetFcodeLength (bufferedMessage h ! (MESSAGE_HEADER_LENGTH + 1))
                                (bufferedMessage h ! (MESSAGE_HEADER_LENGTH + 2)) \<noteq> 0 \<or>
                 length p < MESSAGE_HEADER_LENGTH \<or> MESSAGE_HEADER_LENGTH + 1 < length p"
  shows "MessageHandler h p (length p) = (waiting, AppendToBuffer h p (length p))"
proof -
  let ?hF = "AppendToBuffer h (p @ s) (length (p @ s))"
  let ?hP = "AppendToBuffer h p (length p)"
  have fits: "length (p @ s) < MAX_PDU_LENGTH"
    using MessageHandler_success_fits [OF whole] empty by simp
  have rF: "ReadBuffer lay ?hF = (success, h1)"
    using MessageHandler_append [OF st _ lay, of "length (p @ s)" "p @ s"] fits empty whole by simp
  have lF: "bufferedMessageLength ?hF = length (p @ s)"
    using fits empty by (simp add: length_defs)
  have ex: "(length (p @ s) \<ge> minLength lay \<or> type h = rtu) \<and>
            length (p @ s) = expected_pdu lay ?hF + transportHeaderLength lay + transportFooterLength lay"
    using ReadBuffer_success_exact [OF rF exact] lF fits empty by (auto simp add: length_defs)
  have lP: "bufferedMessageLength ?hP = length p"
    using fits empty by (simp add: length_defs)
  have known: "expected_pdu lay ?hP = expected_pdu lay ?hF"
    if "fCodeOffset lay < length p" "pduLengthOffset lay < length p"
    using that by (rule expected_pdu_prefix [OF empty])
  have mh: "MessageHandler h p (length p) = ReadBuffer lay ?hP"
    using MessageHandler_append [OF st _ lay, of "length p" p] fits empty by simp
  show ?thesis
  proof (cases "type h = rtu")
    case False
    have "bufferedMessageLength ?hP < minLength lay \<or>
          bufferedMessageLength ?hP
            < expected_pdu lay ?hP + transportHeaderLength lay + transportFooterLength lay"
    proof (cases "length p < minLength lay")
      case True
      then show ?thesis using lP by simp
    next
      case long: False
      then have "fCodeOffset lay < length p" "pduLengthOffset lay < length p"
        using layout_offsets [OF lay False] by simp_all
      then have "expected_pdu lay ?hP = expected_pdu lay ?hF" by (rule known)
      then show ?thesis using ex lP s by simp
    qed
    then have "ReadBuffer lay ?hP = (waiting, ?hP)"
      using False by (intro ReadBuffer_short_waiting) simp_all
    then show ?thesis using mh by simp
  next
    case True
    then have lay': "transport_layout rtu = Some lay" using lay by simp
    note L = rtu_layout [OF lay']
    have exF: "length p + length s = expected_pdu lay ?hF + MESSAGE_HEADER_LENGTH"
      using ex L by simp
    have spos: "0 < length s" using s by simp
    have "length p < expected_pdu lay ?hP + MESSAGE_HEADER_LENGTH"
    proof (cases "isCFG h")
      case True
      then have "expected_pdu lay ?hP = expected_pdu lay ?hF"
        by (simp add: expected_pdu_def AppendToBuffer_def)
      then show ?thesis using exF spos by linarith
    next
      case cfg: False
      let ?f = "bufferedMessage ?hP ! (MESSAGE_HEADER_LENGTH + 1)"
      let ?d = "bufferedMessage ?hP ! (MESSAGE_HEADER_LENGTH + 2)"
      have eP: "expected_pdu lay ?hP = GetFcodeLength ?f ?d"
        using cfg L by (simp add: expected_pdu_def AppendToBuffer_def)
      consider (a) "length p < MESSAGE_HEADER_LENGTH"
        | (b) "MESSAGE_HEADER_LENGTH \<le> length p" "length p \<le> MESSAGE_HEADER_LENGTH + 1"
        | (c) "length p = MESSAGE_HEADER_LENGTH + 2"
        | (d) "MESSAGE_HEADER_LENGTH + 2 < length p"
        by linarith
      then show ?thesis
      proof cases
        case a
        then show ?thesis by simp
      next
        case b
        then have "?f = bufferedMessage h ! (MESSAGE_HEADER_LENGTH + 1)"
                  "?d = bufferedMessage h ! (MESSAGE_HEADER_LENGTH + 2)"
          using buf by (simp_all add: AppendToBuffer_stale [OF empty] length_defs)
        then have "GetFcodeLength ?f ?d \<noteq> 0" using safe True cfg b by auto
        then have "PDU_HEADER_LENGTH \<le> GetFcodeLength ?f ?d"
          using GetFcodeLength_zero_or_header [of ?f ?d] by simp
        then show ?thesis using b eP by (simp add: length_defs)
      next
        case c
        have f: "?f = bufferedMessage ?hF ! (MESSAGE_HEADER_LENGTH + 1)"
          using c AppendToBuffer_nth [OF empty, of "MESSAGE_HEADER_LENGTH + 1" p]
                AppendToBuffer_nth [OF empty, of "MESSAGE_HEADER_LENGTH + 1" "p @ s"]
          by (simp add: nth_append)
        have "GetFcodeLength ?f ?d \<noteq> 0"
        proof
          assume "GetFcodeLength ?f ?d = 0"
          then have "GetFcodeLength (bufferedMessage ?hF ! (MESSAGE_HEADER_LENGTH + 1))
                       (bufferedMessage ?hF ! (MESSAGE_HEADER_LENGTH + 2)) = 0"
            unfolding f by (rule GetFcodeLength_zero_any)
          then have "expected_pdu lay ?hF = 0"
            using cfg L by (simp add: expected_pdu_def AppendToBuffer_def)
          then show False using exF c spos by linarith
        qed
        then have "PDU_HEADER_LENGTH \<le> GetFcodeLength ?f ?d"
          using GetFcodeLength_zero_or_header [of ?f ?d] by simp
        then show ?thesis using c eP by (simp add: length_defs)
      next
        case d
        then have "expected_pdu lay ?hP = expected_pdu lay ?hF"
          using L by (intro known) simp_all
        then show ?thesis using exF spos by linarith
      qed
    qed
    then have "ReadBuffer lay ?hP = (waiting, ?hP)"
      using lP L by (intro ReadBuffer_incomplete_waiting) simp
    then show ?thesis using mh by simp
  qed
qed

lemma feed_chunks_prefix:
  assumes st: "state h = WaitingForResponse"
      and empty: "bufferedMessageLength h = 0"
      and buf: "length (bufferedMessage h) = MAX_PDU_LENGTH"
      and whole: "MessageHandler h F (length F) = (success, h1)"
      and wait: "\<And>p s. p @ s = F \<Longrightarrow> s \<noteq> [] \<Longrightarrow> P (length p) \<Longrightarrow>
                   MessageHandler h p (length p) = (waiting, AppendToBuffer h p (length p))"
  shows "pre @ concat chunks = F \<Longrightarrow> chunks \<noteq> [] \<Longrightarrow> \<forall>c \<in> set chunks. c \<noteq> [] \<Longrightarrow>
         (\<And>k. 0 < k \<Longrightarrow> k < length chunks \<Longrightarrow> P (length pre + length (concat (take k chunks)))) \<Longrightarrow>
         feed_chunks (AppendToBuffer h pre (length pre)) chunks
           = (replicate (length chunks - 1) waiting @ [success], h1)"
proof (induction chunks arbitrary: pre)
  case Nil
  then show ?case by simp
next
  case (Cons c cs)
  obtain lay where lay: "transport_layout (type h) = Some lay"
    using transport_layout_total by blast
  have fits: "length F < MAX_PDU_LENGTH"
    using MessageHandler_success_fits [OF whole] empty by simp
  have lenF: "length pre + length c + length (concat cs) = length F"
    using Cons.prems(1) by (metis length_append concat.simps(2) add.assoc)
  let ?hp = "AppendToBuffer h pre (length pre)"
  have app: "AppendToBuffer ?hp c (length c) = AppendToBuffer h (pre @ c) (length (pre @ c))"
    using empty buf fits lenF by (intro AppendToBuffer_append) (simp_all add: length_defs)
  have step: "MessageHandler ?hp c (length c) = MessageHandler h (pre @ c) (length (pre @ c))"
  proof -
    have "MessageHandler ?hp c (length c) = ReadBuffer lay (AppendToBuffer ?hp c (length c))"
      using st lay empty fits lenF by (intro MessageHandler_append) (simp_all add: length_defs)
    moreover have "MessageHandler h (pre @ c) (length (pre @ c))
        = ReadBuffer lay (AppendToBuffer h (pre @ c) (length (pre @ c)))"
      using st lay empty fits lenF by (intro MessageHandler_append) (simp_all add: length_defs)
    ultimately show ?thesis using app by simp
  qed
  show ?case
  proof (cases cs)
    case Nil
    then have "pre @ c = F" using Cons.prems(1) by simp
    then show ?thesis using step whole Nil by simp
  next
    case (Cons d ds)
    then have ne: "concat cs \<noteq> []" using Cons.prems(3) by auto
    have F: "(pre @ c) @ concat cs = F" using Cons.prems(1) by simp
    have "P (length pre + length (concat (take 1 (c # cs))))"
      using Cons by (intro Cons.prems(4)) simp_all
    then have P: "P (length (pre @ c))" by simp
    have w: "MessageHandler h (pre @ c) (length (pre @ c))
               = (waiting, AppendToBuffer h (pre @ c) (length (pre @ c)))"
      by (rule wait [OF F ne P])
    have later: "P (length (pre @ c) + length (concat (take k cs)))"
      if "0 < k" "k < length cs" for k
      using Cons.prems(4) [of "Suc k"] that by (simp add: add.assoc)
    have ih: "feed_chunks (AppendToBuffer h (pre @ c) (length (pre @ c))) cs
                = (replicate (length cs - 1) waiting @ [success], h1)"
      using Cons.IH [OF F _ _ later] Cons Cons.prems(3) by simp
    show ?thesis using step w ih Cons by simp
  qed
qed

text \<open>
  C2, as stated, for every transport. On the inter-core transport the test
  \<open>bufferedMessageLength >= minLength || hndl->type == rtu\<close> lets MessageHandler
  read the function code before it has arrived: with the four header bytes of a ten-byte
  answer delivered first, the function-code position still holds a stale zero, the
  expected PDU length is 0, and the call returns \<open>success\<close> with an empty PDU. Fed
  whole, the same answer gives \<open>success\<close> with its six PDU bytes. The same happens
  when the first chunk has five bytes.
\<close>

theorem feed_chunks_intercore_counterexample:
  "concat [[2, 1, 4, 0], [1, 5, 0, 0, 0xFF, 0]] = intercore_reply \<and>
   fst (MessageHandler ((fresh_handle rtu)\<lparr>state := WaitingForResponse\<rparr>) intercore_reply 10)
     = success \<and>
   pduLength (snd (MessageHandler ((fresh_handle rtu)\<lparr>state := WaitingForResponse\<rparr>)
                     intercore_reply 10)) = 6 \<and>
   fst (feed_chunks ((fresh_handle rtu)\<lparr>state := WaitingForResponse\<rparr>)
          [[2, 1, 4, 0], [1, 5, 0, 0, 0xFF, 0]]) = [success, success] \<and>
   pduLength (snd (feed_chunks ((fresh_handle rtu)\<lparr>state := WaitingForResponse\<rparr>)
                     [[2, 1, 4, 0], [1, 5, 0, 0, 0xFF, 0]])) = 0 \<and>
   concat [[2, 1, 4, 0, 1], [5, 0, 0, 0xFF, 0]] = intercore_reply \<and>
   fst (feed_chunks ((fresh_handle rtu)\<lparr>state := WaitingForResponse\<rparr>)
          [[2, 1, 4, 0, 1], [5, 0, 0, 0xFF, 0]]) = [success, success] \<and>
   pduLength (snd (feed_chunks ((fresh_handle rtu)\<lparr>state := WaitingForResponse\<rparr>)
                     [[2, 1, 4, 0, 1], [5, 0, 0, 0xFF, 0]])) = 0"
  by (simp add: MessageHandler_eval fresh_handle_def intercore_reply_def)

text \<open>
  C2, amended. For a handle in WaitingForResponse with an empty accumulation buffer,
  every frame \<open>F\<close> that a single call of MessageHandler accepts without surplus, and
  every partition of \<open>F\<close> into consecutive non-empty chunks: fed one chunk per call,
  every call but the last returns \<open>waiting\<close> (so the handle stays in
  WaitingForResponse), the last returns \<open>success\<close>, and the handle afterwards is the
  one the single call leaves, with the same pdu bytes and the same pduLength. This holds
  on tcp and rtuOverTcp for every partition. On the inter-core transport rtu it holds
  for every partition when the handle awaits a configuration answer, or when the byte
  that earlier traffic left at the function-code position of the accumulation buffer is
  a function code GetFcodeLength knows; otherwise for the partitions of which no chunk
  ends four or five bytes into the frame, that is, between the end of the inter-core
  header and the function code.
\<close>

theorem feed_chunks_fragments:
  assumes "state h = WaitingForResponse"
      and "bufferedMessageLength h = 0" "length (bufferedMessage h) = MAX_PDU_LENGTH"
      and "MessageHandler h F (length F) = (success, h1)" "bufferedMessageLength h1 = 0"
      and "concat chunks = F" "\<forall>c \<in> set chunks. c \<noteq> []"
      and "type h \<noteq> rtu \<or> isCFG h \<or>
           GetFcodeLength (bufferedMessage h ! (MESSAGE_HEADER_LENGTH + 1))
                          (bufferedMessage h ! (MESSAGE_HEADER_LENGTH + 2)) \<noteq> 0 \<or>
           (\<forall>k. 0 < k \<and> k < length chunks \<longrightarrow>
                  length (concat (take k chunks)) < MESSAGE_HEADER_LENGTH \<or>
                  MESSAGE_HEADER_LENGTH + 1 < length (concat (take k chunks)))"
  shows "feed_chunks h chunks = (replicate (length chunks - 1) waiting @ [success], h1) \<and>
         pdu (snd (feed_chunks h chunks)) = pdu h1 \<and>
         pduLength (snd (feed_chunks h chunks)) = pduLength h1"
proof -
  obtain lay where lay: "transport_layout (type h) = Some lay"
    using transport_layout_total by blast
  have ne: "chunks \<noteq> []"
  proof
    assume "chunks = []"
    then have "F = []" using assms(6) by simp
    then have "MessageHandler h [] 0 = (success, h1)" using assms(4) by simp
    then have "ReadBuffer lay h = (success, h1)"
      using MessageHandler_append [OF assms(1) _ lay, of 0 "[]"] assms(2)
      by (simp add: AppendToBuffer_nil length_defs)
    then have "bufferedMessageLength h
                 = expected_pdu lay h + transportHeaderLength lay + transportFooterLength lay"
              "bufferedMessageLength h \<ge> minLength lay \<or> type h = rtu"
      using ReadBuffer_success_exact [of lay h h1] assms(2,5) by simp_all
    then show False
      using assms(2) lay by (cases "type h") (auto simp add: transport_layout_def length_defs)
  qed
  let ?all = "type h \<noteq> rtu \<or> isCFG h \<or>
           GetFcodeLength (bufferedMessage h ! (MESSAGE_HEADER_LENGTH + 1))
                          (bufferedMessage h ! (MESSAGE_HEADER_LENGTH + 2)) \<noteq> 0"
  let ?P = "\<lambda>b. ?all \<or> b < MESSAGE_HEADER_LENGTH \<or> MESSAGE_HEADER_LENGTH + 1 < b"
  have wait: "MessageHandler h p (length p) = (waiting, AppendToBuffer h p (length p))"
    if "p @ s = F" "s \<noteq> []" "?P (length p)" for p s
  proof -
    have w: "MessageHandler h (p @ s) (length (p @ s)) = (success, h1)"
      using that(1) assms(4) by simp
    show ?thesis
      using that(3) by (intro prefix_waiting [OF lay assms(1,2,3) w assms(5) that(2)]) blast
  qed
  have bounds: "?P (length ([] :: 8 word list) + length (concat (take k chunks)))"
    if "0 < k" "k < length chunks" for k
    using assms(8) that by auto
  have "feed_chunks (AppendToBuffer h [] (length ([] :: 8 word list))) chunks
          = (replicate (length chunks - 1) waiting @ [success], h1)"
    using assms(6,7) ne
    by (intro feed_chunks_prefix [where P = ?P and F = F, OF assms(1,2,3,4) wait _ _ _ bounds])
       simp_all
  then have "feed_chunks h chunks = (replicate (length chunks - 1) waiting @ [success], h1)"
    using assms(2) by (simp add: AppendToBuffer_nil)
  then show ?thesis by simp
qed


lemma MessageHandler_stream_example:
  "MessageHandler ((fresh_handle rtuOverTcp)\<lparr>state := WaitingForResponse\<rparr>)
      [1, 5, 0, 0, 0xFF, 0, 0x8C, 0x3A] 8
     = (success,
        (fresh_handle rtuOverTcp)\<lparr>state := WaitingForResponse,
           bufferedMessage := [1, 5, 0, 0, 0xFF, 0, 0x8C, 0x3A] @ replicate 246 0,
           bufferedMessageLength := 0, pduLength := 6, lastTransactionId := 0x0105,
           pdu := [1, 5, 0, 0, 0xFF, 0] @ replicate 248 0\<rparr>)"
  by (simp add: MessageHandler_eval fresh_handle_def ValidateCRC_def GetCRC_def crc_step_def
      CRCTable_def)

lemma MessageHandler_intercore_examples:
  "MessageHandler ((fresh_handle rtu)\<lparr>state := WaitingForResponse\<rparr>) intercore_reply 10
     = (success,
        (fresh_handle rtu)\<lparr>state := WaitingForResponse,
           bufferedMessage := intercore_reply @ replicate 244 0,
           bufferedMessageLength := 0, pduLength := 6, lastTransactionId := 0x0201,
           pdu := [1, 5, 0, 0, 0xFF, 0] @ replicate 248 0\<rparr>)"
  "MessageHandler used_intercore_handle intercore_reply 10
     = (success,
        used_intercore_handle\<lparr>bufferedMessageLength := 0, pduLength := 6,
           lastTransactionId := 0x0201, pdu := [1, 5, 0, 0, 0xFF, 0] @ replicate 248 0\<rparr>)"
  by (simp_all add: MessageHandler_eval fresh_handle_def intercore_reply_def
      used_intercore_handle_def)

lemma MessageHandler_configuration_example:
  "MessageHandler ((fresh_handle rtu)\<lparr>state := WaitingForResponse, isCFG := True\<rparr>)
      [1, 2, 4, 0, 1] 5
     = (success,
        (fresh_handle rtu)\<lparr>state := WaitingForResponse, isCFG := True,
           bufferedMessage := [1, 2, 4, 0, 1] @ replicate 249 0,
           bufferedMessageLength := 0, pduLength := 1, lastTransactionId := 0x0102,
           pdu := [1] @ replicate 253 0\<rparr>)"
  by (simp add: MessageHandler_eval fresh_handle_def)

theorem feed_chunks_fragments_witness:
  "feed_chunks wrapped_handle [[0, 0, 0], [0, 0, 6, 1], [5, 0, 0, 0xFF, 0]]
     = ([waiting, waiting, success],
        snd (MessageHandler wrapped_handle (write_coil_reply 0 0) 12)) \<and>
   pduLength (snd (MessageHandler wrapped_handle (write_coil_reply 0 0) 12)) = 6 \<and>
   feed_chunks ((fresh_handle rtuOverTcp)\<lparr>state := WaitingForResponse\<rparr>)
       [[1], [5, 0, 0, 0xFF, 0, 0x8C], [0x3A]]
     = ([waiting, waiting, success],
        snd (MessageHandler ((fresh_handle rtuOverTcp)\<lparr>state := WaitingForResponse\<rparr>)
               [1, 5, 0, 0, 0xFF, 0, 0x8C, 0x3A] 8)) \<and>
   feed_chunks ((fresh_handle rtu)\<lparr>state := WaitingForResponse\<rparr>)
       [[2, 1, 4], [0, 1, 5], [0, 0, 0xFF, 0]]
     = ([waiting, waiting, success],
        snd (MessageHandler ((fresh_handle rtu)\<lparr>state := WaitingForResponse\<rparr>)
               intercore_reply 10)) \<and>
   GetFcodeLength (bufferedMessage used_intercore_handle ! (MESSAGE_HEADER_LENGTH + 1))
                  (bufferedMessage used_intercore_handle ! (MESSAGE_HEADER_LENGTH + 2)) = 6 \<and>
   feed_chunks used_intercore_handle [[2, 1, 4, 0], [1, 5, 0, 0, 0xFF, 0]]
     = ([waiting, success], snd (MessageHandler used_intercore_handle intercore_reply 10)) \<and>
   pduLength (snd (MessageHandler used_intercore_handle intercore_reply 10)) = 6 \<and>
   take 6 (pdu (snd (MessageHandler used_intercore_handle intercore_reply 10)))
     = [1, 5, 0, 0, 0xFF, 0] \<and>
   feed_chunks ((fresh_handle rtu)\<lparr>state := WaitingForResponse, isCFG := True\<rparr>)
       [[1, 2, 4, 0], [1]]
     = ([waiting, success],
        snd (MessageHandler ((fresh_handle rtu)\<lparr>state := WaitingForResponse, isCFG := True\<rparr>)
               [1, 2, 4, 0, 1] 5)) \<and>
   pduLength (snd (MessageHandler
                     ((fresh_handle rtu)\<lparr>state := WaitingForResponse, isCFG := True\<rparr>)
                     [1, 2, 4, 0, 1] 5)) = 1"
proof -
  let ?g = "(fresh_handle rtu)\<lparr>state := WaitingForResponse, isCFG := True\<rparr>"
  let ?g1 = "(fresh_handle rtu)\<lparr>state := WaitingForResponse, isCFG := True,
           bufferedMessage := [1, 2, 4, 0, 1] @ replicate 249 0,
           bufferedMessageLength := 0, pduLength := 1, lastTransactionId := 0x0102,
           pdu := [1] @ replicate 253 0\<rparr>"
  have ga: "state ?g = WaitingForResponse" "bufferedMessageLength ?g = 0"
    "length (bufferedMessage ?g) = MAX_PDU_LENGTH"
    by (simp_all add: fresh_handle_def)
  have gi: "isCFG ?g" by simp
  have gl: "length [1, 2, 4, 0, 1 :: 8 word] = 5" by simp
  have gw: "MessageHandler ?g [1, 2, 4, 0, 1] (length [1, 2, 4, 0, 1 :: 8 word]) = (success, ?g1)"
    unfolding gl by (rule MessageHandler_configuration_example)
  have ge: "bufferedMessageLength ?g1 = 0" by simp
  have gc: "concat [[1, 2, 4, 0], [1]] = [1, 2, 4, 0, 1 :: 8 word]" by simp
  have gn: "\<forall>c \<in> set [[1, 2, 4, 0], [1 :: 8 word]]. c \<noteq> []" by simp
  let ?h1 = "wrapped_handle\<lparr>bufferedMessage := write_coil_reply 0 0 @ replicate 242 0,
                        bufferedMessageLength := 0, pduLength := 6,
                        lastTransactionId := 0,
                        pdu := [1, 5, 0, 0, 0xFF, 0] @ replicate 248 0\<rparr>"
  have a: "state wrapped_handle = WaitingForResponse"
    "bufferedMessageLength wrapped_handle = 0"
    "length (bufferedMessage wrapped_handle) = MAX_PDU_LENGTH"
    by (simp_all add: wrapped_handle_def fresh_handle_def)
  have at: "type wrapped_handle \<noteq> rtu" by (simp add: wrapped_handle_def fresh_handle_def)
  have l: "length (write_coil_reply 0 0) = 12" by (simp add: write_coil_reply_def)
  have w: "MessageHandler wrapped_handle (write_coil_reply 0 0) (length (write_coil_reply 0 0))
             = (success, ?h1)"
    unfolding l by (rule MessageHandler_wraparound_examples(3))
  have e: "bufferedMessageLength ?h1 = 0" by simp
  have c: "concat [[0, 0, 0], [0, 0, 6, 1], [5, 0, 0, 0xFF, 0]] = write_coil_reply 0 0"
    by (simp add: write_coil_reply_def)
  have n: "\<forall>c \<in> set [[0, 0, 0], [0, 0, 6, 1], [5, 0, 0, 0xFF, 0 :: 8 word]]. c \<noteq> []" by simp
  let ?s = "(fresh_handle rtuOverTcp)\<lparr>state := WaitingForResponse\<rparr>"
  let ?s1 = "(fresh_handle rtuOverTcp)\<lparr>state := WaitingForResponse,
           bufferedMessage := [1, 5, 0, 0, 0xFF, 0, 0x8C, 0x3A] @ replicate 246 0,
           bufferedMessageLength := 0, pduLength := 6, lastTransactionId := 0x0105,
           pdu := [1, 5, 0, 0, 0xFF, 0] @ replicate 248 0\<rparr>"
  have sa: "state ?s = WaitingForResponse" "bufferedMessageLength ?s = 0"
    "length (bufferedMessage ?s) = MAX_PDU_LENGTH"
    by (simp_all add: fresh_handle_def)
  have st: "type ?s \<noteq> rtu" by (simp add: fresh_handle_def)
  have sl: "length [1, 5, 0, 0, 0xFF, 0, 0x8C, 0x3A :: 8 word] = 8" by simp
  have sw: "MessageHandler ?s [1, 5, 0, 0, 0xFF, 0, 0x8C, 0x3A]
              (length [1, 5, 0, 0, 0xFF, 0, 0x8C, 0x3A :: 8 word]) = (success, ?s1)"
    unfolding sl by (rule MessageHandler_stream_example)
  have se: "bufferedMessageLength ?s1 = 0" by simp
  have sc: "concat [[1], [5, 0, 0, 0xFF, 0, 0x8C], [0x3A]] = [1, 5, 0, 0, 0xFF, 0, 0x8C, 0x3A :: 8 word]"
    by simp
  have sn: "\<forall>c \<in> set [[1], [5, 0, 0, 0xFF, 0, 0x8C], [0x3A :: 8 word]]. c \<noteq> []" by simp
  let ?r = "(fresh_handle rtu)\<lparr>state := WaitingForResponse\<rparr>"
  let ?r1 = "(fresh_handle rtu)\<lparr>state := WaitingForResponse,
           bufferedMessage := intercore_reply @ replicate 244 0,
           bufferedMessageLength := 0, pduLength := 6, lastTransactionId := 0x0201,
           pdu := [1, 5, 0, 0, 0xFF, 0] @ replicate 248 0\<rparr>"
  let ?u1 = "used_intercore_handle\<lparr>bufferedMessageLength := 0, pduLength := 6,
           lastTransactionId := 0x0201, pdu := [1, 5, 0, 0, 0xFF, 0] @ replicate 248 0\<rparr>"
  have ra: "state ?r = WaitingForResponse" "bufferedMessageLength ?r = 0"
    "length (bufferedMessage ?r) = MAX_PDU_LENGTH"
    by (simp_all add: fresh_handle_def)
  have ua: "state used_intercore_handle = WaitingForResponse"
    "bufferedMessageLength used_intercore_handle = 0"
    "length (bufferedMessage used_intercore_handle) = MAX_PDU_LENGTH"
    by (simp_all add: used_intercore_handle_def fresh_handle_def intercore_reply_def length_defs)
  have rl: "length intercore_reply = 10" by (simp add: intercore_reply_def)
  have rw: "MessageHandler ?r intercore_reply (length intercore_reply) = (success, ?r1)"
    unfolding rl by (rule MessageHandler_intercore_examples(1))
  have uw: "MessageHandler used_intercore_handle intercore_reply (length intercore_reply)
              = (success, ?u1)"
    unfolding rl by (rule MessageHandler_intercore_examples(2))
  have re: "bufferedMessageLength ?r1 = 0" by simp
  have ue: "bufferedMessageLength ?u1 = 0" by simp
  have rc: "concat [[2, 1, 4], [0, 1, 5], [0, 0, 0xFF, 0]] = intercore_reply"
    by (simp add: intercore_reply_def)
  have uc: "concat [[2, 1, 4, 0], [1, 5, 0, 0, 0xFF, 0]] = intercore_reply"
    by (simp add: intercore_reply_def)
  have rn: "\<forall>c \<in> set [[2, 1, 4], [0, 1, 5], [0, 0, 0xFF, 0 :: 8 word]]. c \<noteq> []" by simp
  have un: "\<forall>c \<in> set [[2, 1, 4, 0], [1, 5, 0, 0, 0xFF, 0 :: 8 word]]. c \<noteq> []" by simp
  have rb: "\<forall>k. 0 < k \<and> k < length [[2, 1, 4], [0, 1, 5], [0, 0, 0xFF, 0 :: 8 word]] \<longrightarrow>
              length (concat (take k [[2, 1, 4], [0, 1, 5], [0, 0, 0xFF, 0 :: 8 word]]))
                < MESSAGE_HEADER_LENGTH \<or>
              MESSAGE_HEADER_LENGTH + 1
                < length (concat (take k [[2, 1, 4], [0, 1, 5], [0, 0, 0xFF, 0 :: 8 word]]))"
  proof (intro allI impI)
    fix k :: nat
    assume "0 < k \<and> k < length [[2, 1, 4], [0, 1, 5], [0, 0, 0xFF, 0 :: 8 word]]"
    then have "k = 1 \<or> k = 2" by auto
    then show "length (concat (take k [[2, 1, 4], [0, 1, 5], [0, 0, 0xFF, 0 :: 8 word]]))
                < MESSAGE_HEADER_LENGTH \<or>
              MESSAGE_HEADER_LENGTH + 1
                < length (concat (take k [[2, 1, 4], [0, 1, 5], [0, 0, 0xFF, 0 :: 8 word]]))"
      by (auto simp add: length_defs numeral_2_eq_2)
  qed
  have uk: "GetFcodeLength (bufferedMessage used_intercore_handle ! (MESSAGE_HEADER_LENGTH + 1))
              (bufferedMessage used_intercore_handle ! (MESSAGE_HEADER_LENGTH + 2)) = 6"
    by (simp add: used_intercore_handle_def intercore_reply_def GetFcodeLength_def length_defs
        fcode_defs)
  show ?thesis
    using feed_chunks_fragments [OF a w e c n, OF disjI1, OF at]
          feed_chunks_fragments [OF sa sw se sc sn, OF disjI1, OF st]
          feed_chunks_fragments [OF ra rw re rc rn, OF disjI2, OF disjI2, OF disjI2, OF rb]
          feed_chunks_fragments [OF ua uw ue uc un, OF disjI2, OF disjI2, OF disjI1]
          feed_chunks_fragments [OF ga gw ge gc gn, OF disjI2, OF disjI1, OF gi]
          uk MessageHandler_wraparound_examples(3) MessageHandler_stream_example
          MessageHandler_intercore_examples MessageHandler_configuration_example
    by simp
qed

section \<open>A request that is never answered\<close>

lemma length_memcpy:
  "off + n \<le> length dst \<Longrightarrow> n \<le> length src \<Longrightarrow> length (memcpy dst off src n) = length dst"
  by (simp add: memcpy_def)

lemma memcpy_window:
  "off \<le> length dst \<Longrightarrow> n \<le> length src \<Longrightarrow> take n (drop off (memcpy dst off src n)) = take n src"
  by (simp add: memcpy_def)

lemma length_AddCRC: "length (snd (AddCRC message n m)) = length message"
  by (simp add: AddCRC_def Let_def)

lemma take_AddCRC: "take n (snd (AddCRC message n m)) = take n message"
  by (simp add: AddCRC_def Let_def)

lemma ModBusWrite_sends:
  assumes len: "packetLength \<le> MAX_PDU_LENGTH" "packetLength \<le> length modBusPacket"
      and snd: "\<And>buf. send pf (fd hndl) buf = int (length buf)"
  shows "\<exists>frame.
           length frame = transport_header (type hndl) + packetLength + transport_footer (type hndl) \<and>
           take packetLength (drop (transport_header (type hndl)) frame) = take packetLength modBusPacket \<and>
           ModBusWrite pf hndl w modBusPacket packetLength =
             (True,
              hndl\<lparr>state := WaitingForResponse, pduLength := 0,
                   transactionId := transactionIdentifier w\<rparr>,
              w\<lparr>sent := sent w @ [(fd hndl, frame)],
                transactionIdentifier := transactionIdentifier w + 1\<rparr>)"
proof (cases "type hndl")
  case tcp
  let ?buf = "(memcpy (replicate (MAX_PDU_LENGTH + TCP_HEADER_LENGTH) 0) TCP_HEADER_LENGTH
                     modBusPacket packetLength)
                  [0 := ucast (drop_bit 8 (transactionIdentifier w) AND 0xFF),
                   1 := ucast (transactionIdentifier w AND 0xFF),
                   2 := 0x00,
                   3 := 0x00,
                   4 := of_nat (packetLength div 256 mod 256),
                   5 := of_nat (packetLength mod 256)]"
  let ?frame = "take (packetLength + TCP_HEADER_LENGTH) ?buf"
  have l: "length ?buf = MAX_PDU_LENGTH + TCP_HEADER_LENGTH"
    using len by (simp add: length_memcpy)
  have lf: "length ?frame = packetLength + TCP_HEADER_LENGTH" using l len by simp
  have pd: "take packetLength (drop TCP_HEADER_LENGTH ?frame) = take packetLength modBusPacket"
    using len by (simp add: memcpy_def length_defs drop_take)
  show ?thesis
    apply (rule exI [of _ ?frame])
    using tcp lf pd snd [of ?frame]
    by (simp add: ModBusWrite_def SendToSlave_def Let_def transport_header_def transport_footer_def)
next
  case rtuOverTcp
  let ?buf = "snd (AddCRC (memcpy (replicate (MAX_PDU_LENGTH + CRC_FOOTER_LENGTH) 0) 0
                                 modBusPacket packetLength)
                         packetLength MAX_PDU_LENGTH)"
  let ?frame = "take (packetLength + CRC_FOOTER_LENGTH) ?buf"
  have l: "length ?buf = MAX_PDU_LENGTH + CRC_FOOTER_LENGTH"
    using len by (simp add: length_memcpy length_AddCRC)
  have lf: "length ?frame = packetLength + CRC_FOOTER_LENGTH" using l len by simp
  have "take packetLength ?frame = take packetLength ?buf" by simp
  also have "\<dots> = take packetLength (memcpy (replicate (MAX_PDU_LENGTH + CRC_FOOTER_LENGTH) 0) 0
                                 modBusPacket packetLength)" by (rule take_AddCRC)
  also have "\<dots> = take packetLength modBusPacket"
    using memcpy_window [of 0 _ packetLength modBusPacket] len by simp
  finally have pd: "take packetLength ?frame = take packetLength modBusPacket" .
  show ?thesis
    apply (rule exI [of _ ?frame])
    using rtuOverTcp lf pd snd [of ?frame]
    by (simp add: ModBusWrite_def SendToSlave_def Let_def transport_header_def transport_footer_def)
next
  case rtu
  let ?buf = "(memcpy (replicate (MAX_PDU_LENGTH + MESSAGE_HEADER_LENGTH) 0)
                     MESSAGE_HEADER_LENGTH modBusPacket packetLength)
                  [0 := (if isCFG hndl then UART else MODBUS),
                   1 := (if isCFG hndl then UART_CFG_MESSAGE else MODBUS_DATA_MESSAGE),
                   2 := of_nat MESSAGE_HEADER_LENGTH]"
  let ?frame = "take (packetLength + MESSAGE_HEADER_LENGTH) ?buf"
  have l: "length ?buf = MAX_PDU_LENGTH + MESSAGE_HEADER_LENGTH"
    using len by (simp add: length_memcpy)
  have lf: "length ?frame = packetLength + MESSAGE_HEADER_LENGTH" using l len by simp
  have pd: "take packetLength (drop MESSAGE_HEADER_LENGTH ?frame) = take packetLength modBusPacket"
    using len by (simp add: memcpy_def length_defs drop_take)
  show ?thesis
    apply (rule exI [of _ ?frame])
    using rtu lf pd snd [of ?frame]
    by (simp add: ModBusWrite_def SendToSlave_def Let_def transport_header_def transport_footer_def)
qed

lemma WaitForData_loop_quiet:
  assumes "state hndl = WaitingForResponse" "0 < timeout" "counter \<le> timeout + 1"
  shows "WaitForData_loop hndl w timeout counter (replicate n Quiet)
           = (if timeout + 2 - counter \<le> n
              then Some (hndl, w\<lparr>sleeps := sleeps w + (timeout + 2 - counter)\<rparr>)
              else None)"
  using assms
proof (induction n arbitrary: counter w)
  case 0
  then show ?case by simp
next
  case (Suc n)
  show ?case
  proof (cases "counter > timeout")
    case True
    then have "counter = timeout + 1" using Suc.prems by simp
    then show ?thesis using Suc.prems by simp
  next
    case False
    then have c: "counter + 1 \<le> timeout + 1" by simp
    have "WaitForData_loop hndl w timeout counter (replicate (Suc n) Quiet)
        = WaitForData_loop hndl (w\<lparr>sleeps := sleeps w + 1\<rparr>) timeout (counter + 1) (replicate n Quiet)"
      using Suc.prems False by simp
    also have "\<dots> = (if timeout + 2 - (counter + 1) \<le> n
              then Some (hndl, w\<lparr>sleeps := sleeps w + 1 + (timeout + 2 - (counter + 1))\<rparr>)
              else None)"
      using Suc.IH [OF Suc.prems(1) Suc.prems(2) c, of "w\<lparr>sleeps := sleeps w + 1\<rparr>"] by simp
    also have "\<dots> = (if timeout + 2 - counter \<le> Suc n
              then Some (hndl, w\<lparr>sleeps := sleeps w + (timeout + 2 - counter)\<rparr>)
              else None)"
      using False by auto
    finally show ?thesis .
  qed
qed

lemma WaitForData_loop_forever:
  assumes "state hndl = WaitingForResponse"
  shows "WaitForData_loop hndl w 0 counter (replicate n Quiet) = None"
  using assms by (induction n arbitrary: w) simp_all

lemma WaitForData_quiet:
  assumes "state hndl = WaitingForResponse" "0 < timeout"
  shows "WaitForData hndl w timeout (replicate n Quiet)
           = (if timeout + 2 \<le> n
              then Some (False, hndl\<lparr>state := Idle\<rparr>, w\<lparr>sleeps := sleeps w + (timeout + 2)\<rparr>)
              else None)"
  using WaitForData_loop_quiet [OF assms, of 0 w n] assms(1)
  by (simp add: WaitForData_def)

lemma WaitForData_forever:
  assumes "state hndl = WaitingForResponse"
  shows "WaitForData hndl w 0 (replicate n Quiet) = None"
  using WaitForData_loop_forever [OF assms] by (simp add: WaitForData_def)

lemma length_SET_MODBUS_HEADER: "length (SET_MODBUS_HEADER a b c d e) = length a"
  by (simp add: SET_MODBUS_HEADER_def)


text \<open>
  C7, at the failing inputs: every timeout above zero. ReadCoils on an idle handle whose
  frame the transport takes, with no event from the delivery flow: the call returns
  false with \<open>MODBUS_TIMEOUT\<close> in the first byte and the handle Idle, and with a
  timeout of 0 it does not return; these parts of the claim hold. But it returns after
  \<open>timeout + 2\<close> sleeps of \<open>NANOSLEEP_NS\<close> = 100000 ns each, which is less than
  \<open>timeout\<close> milliseconds: the counter is compared with a timeout in milliseconds
  while each sleep asks for a tenth of one.
\<close>

theorem ReadCoils_timeout:
  assumes idle: "state hndl = Idle"
      and snd: "\<And>buf. send pf (fd hndl) buf = int (length buf)"
  shows "(0 < timeout \<and> timeout + 2 \<le> n \<longrightarrow>
           (\<exists>hndl' w'.
              ReadCoils pf (replicate n Quiet) hndl w slaveID address bitsToRead readArray timeout
                = Some (False, readArray[0 := MODBUS_TIMEOUT], hndl', w') \<and>
              state hndl' = Idle \<and>
              sleeps w' = sleeps w + (timeout + 2) \<and>
              slept_ns w' = slept_ns w + (timeout + 2) * NANOSLEEP_NS \<and>
              (timeout + 2) * NANOSLEEP_NS < timeout * 1000000)) \<and>
         ReadCoils pf (replicate n Quiet) hndl w slaveID address bitsToRead readArray 0 = None"
proof -
  let ?msg = "SET_MODBUS_HEADER (replicate 6 0) slaveID READ_COILS address bitsToRead"
  let ?h = "hndl\<lparr>isCFG := False\<rparr>"
  have s: "\<And>buf. send pf (fd ?h) buf = int (length buf)" using snd by simp
  obtain frame where wr:
    "ModBusWrite pf ?h w ?msg 6 =
       (True,
        ?h\<lparr>state := WaitingForResponse, pduLength := 0, transactionId := transactionIdentifier w\<rparr>,
        w\<lparr>sent := sent w @ [(fd ?h, frame)],
          transactionIdentifier := transactionIdentifier w + 1\<rparr>)"
    using ModBusWrite_sends [of 6 ?msg pf ?h w, OF _ _ s]
    by (auto simp add: length_SET_MODBUS_HEADER length_defs)
  let ?h2 = "?h\<lparr>state := WaitingForResponse, pduLength := 0,
                transactionId := transactionIdentifier w\<rparr>"
  have wt: "state ?h2 = WaitingForResponse" by simp
  show ?thesis
    using idle wr WaitForData_quiet [OF wt, of timeout _ n] WaitForData_forever [OF wt, of _ n]
    by (simp add: ReadCoils_def Let_def slept_ns_def NANOSLEEP_NS_def algebra_simps)
qed


theorem ReadCoils_timeout_witness:
  "state (fresh_handle tcp) = Idle \<and> (0 :: nat) < 1000 \<and> (1000 :: nat) + 2 \<le> 1002 \<and>
   (\<exists>hndl' w'.
      ReadCoils loopback (replicate 1002 Quiet) (fresh_handle tcp) start_world 1 100 4 [0] 1000
        = Some (False, [MODBUS_TIMEOUT], hndl', w') \<and>
      state hndl' = Idle \<and> sleeps w' = 1002 \<and> slept_ns w' = 100200000) \<and>
   (100200000 :: nat) < 1000 * 1000000 \<and>
   ReadCoils loopback (replicate 1002 Quiet) (fresh_handle tcp) start_world 1 100 4 [0] 0 = None"
proof -
  have i: "state (fresh_handle tcp) = Idle" by (simp add: fresh_handle_def)
  have s: "\<And>buf. send loopback (fd (fresh_handle tcp)) buf = int (length buf)"
    by (simp add: loopback_def)
  show ?thesis
    using i ReadCoils_timeout [OF i s, of 1000 1002 start_world 1 100 4 "[0]"]
    by (simp add: slept_ns_def NANOSLEEP_NS_def start_world_def)
qed

section \<open>File requests\<close>

lemma be16_nonneg: "0 \<le> be16 m off"
  by (simp add: be16_def)

lemma nat_uint_twice: "nat (uint (b :: 8 word) * 2) = 2 * unat b"
  by (simp add: nat_mult_distrib)

lemma fileRead_defined:
  assumes "0 \<le> recordNo" "0 \<le> recordsToRead" "recordNo + recordsToRead < 10000"
      and "fileNo \<noteq> 6" "length fileStore = FILES * FILE_BYTES"
      and "outOff + nat (recordsToRead * 2) \<le> length messageOut"
  shows "\<exists>ret out. fileRead fileStore messageOut outOff fileNo recordNo recordsToRead
                     = Some (ret, out) \<and>
                   length out = length messageOut \<and> take outOff out = take outOff messageOut"
proof (cases "0 < fileNo \<and> fileNo \<le> 6")
  case False
  then show ?thesis by (auto simp add: fileRead_def)
next
  case True
  let ?n = "nat (recordsToRead * 2)"
  let ?src = "drop (nat fileNo * FILE_BYTES + nat (recordNo * 2)) fileStore"
  have f: "nat fileNo < FILES" using True assms(4) by (simp add: FILES_def nat_less_iff)
  have r: "nat (recordNo * 2) + ?n \<le> FILE_BYTES"
    using assms(1,2,3) by (simp add: FILE_BYTES_def)
  have "(nat fileNo + 1) * FILE_BYTES \<le> FILES * FILE_BYTES"
    using f by (intro mult_le_mono1) simp
  then have s: "?n \<le> length ?src"
    using r assms(5) by (simp add: algebra_simps)
  have "fileRead fileStore messageOut outOff fileNo recordNo recordsToRead
          = Some (NO_ERROR, memcpy messageOut outOff ?src ?n)"
    using True f r assms by (simp add: fileRead_def)
  moreover have "length (memcpy messageOut outOff ?src ?n) = length messageOut"
    using assms(6) s by (rule length_memcpy)
  moreover have "take outOff (memcpy messageOut outOff ?src ?n) = take outOff messageOut"
    using assms(6) by (simp add: memcpy_def)
  ultimately show ?thesis by simp
qed

lemma requestRead_loop_rejects:
  assumes "i < k"
      and "inOff + 7 * i + 6 < length messageIn"
      and "\<And>j. j < i \<Longrightarrow> messageIn ! (inOff + 7 * j) = REFERENCE_TYPE \<and>
                        subrequest_in_range messageIn (inOff + 7 * j) \<and>
                        be16 messageIn (inOff + 7 * j + 1) \<noteq> 6"
      and "outOff + (\<Sum>j<i. subrequest_answer_bytes messageIn (inOff + 7 * j)) \<le> length messageOut"
      and "length fileStore = FILES * FILE_BYTES"
      and "messageIn ! (inOff + 7 * i) = REFERENCE_TYPE"
      and "\<not> subrequest_in_range messageIn (inOff + 7 * i)"
  shows "\<exists>out. requestRead_loop k fileStore messageIn inOff outOff totalLength ret messageOut
                 = Some (uint ILLEGAL_DATA_ADDRESS, out) \<and>
               length out = length messageOut \<and> take outOff out = take outOff messageOut"
  using assms
proof (induction i arbitrary: k inOff outOff totalLength ret messageOut)
  case 0
  then obtain k' where "k = Suc k'" by (cases k) simp_all
  then show ?case using 0
    by (simp add: subrequest_in_range_def Let_def ac_simps)
next
  case (Suc i)
  then obtain k' where k: "k = Suc k'" "i < k'" by (cases k) simp_all
  let ?r = "uint (messageIn ! (inOff + 6))"
  let ?n = "nat (?r * 2)"
  let ?out1 = "messageOut[outOff := of_int (?r * 2), outOff + 1 := 6]"
  have first: "messageIn ! inOff = REFERENCE_TYPE" "subrequest_in_range messageIn inOff"
    "be16 messageIn (inOff + 1) \<noteq> 6"
    using Suc.prems(3) [of 0] by simp_all
  have n: "?n = 2 * unat (messageIn ! (inOff + 6))" by (rule nat_uint_twice)
  have "(\<Sum>j<Suc i. subrequest_answer_bytes messageIn (inOff + 7 * j))
      = subrequest_answer_bytes messageIn (inOff + 7 * 0)
        + (\<Sum>j<i. subrequest_answer_bytes messageIn (inOff + 7 * Suc j))"
    by (rule sum.lessThan_Suc_shift)
  also have "subrequest_answer_bytes messageIn (inOff + 7 * 0) = ?n + 2"
    by (simp add: subrequest_answer_bytes_def n)
  also have "(\<lambda>j. subrequest_answer_bytes messageIn (inOff + 7 * Suc j))
               = (\<lambda>j. subrequest_answer_bytes messageIn (inOff + 7 + 7 * j))"
    by (simp add: add.assoc)
  finally have split: "(\<Sum>j<Suc i. subrequest_answer_bytes messageIn (inOff + 7 * j))
      = ?n + 2 + (\<Sum>j<i. subrequest_answer_bytes messageIn (inOff + 7 + 7 * j))" .
  have room: "outOff + ?n + 2 + (\<Sum>j<i. subrequest_answer_bytes messageIn (inOff + 7 + 7 * j))
                \<le> length messageOut"
    using Suc.prems(4) unfolding split by simp
  have inb: "inOff < length messageIn" "inOff + 6 < length messageIn"
    using Suc.prems(2) by simp_all
  have outb: "outOff + 1 < length messageOut" "outOff + ?n + 2 \<le> length messageOut"
    using room by simp_all
  have range: "be16 messageIn (inOff + 3) + ?r < 10000"
    using first(2) by (simp add: subrequest_in_range_def)
  obtain ret1 out2 where fr:
    "fileRead fileStore ?out1 (outOff + 2) (be16 messageIn (inOff + 1))
       (be16 messageIn (inOff + 3)) ?r = Some (ret1, out2)"
    "length out2 = length ?out1" "take (outOff + 2) out2 = take (outOff + 2) ?out1"
    using fileRead_defined [of "be16 messageIn (inOff + 3)" ?r "be16 messageIn (inOff + 1)"
        fileStore "outOff + 2" ?out1] range first(3) Suc.prems(5) outb
    by (auto simp add: be16_nonneg)
  have l2: "length out2 = length messageOut" using fr(2) by simp
  have "take outOff out2 = take outOff (take (outOff + 2) out2)" by simp
  also have "\<dots> = take outOff (take (outOff + 2) ?out1)" using fr(3) by simp
  also have "\<dots> = take outOff messageOut" by simp
  finally have t2: "take outOff out2 = take outOff messageOut" .
  have rest: "\<And>j. j < i \<Longrightarrow> messageIn ! (inOff + 7 + 7 * j) = REFERENCE_TYPE \<and>
                        subrequest_in_range messageIn (inOff + 7 + 7 * j) \<and>
                        be16 messageIn (inOff + 7 + 7 * j + 1) \<noteq> 6"
    using Suc.prems(3) by (metis Suc_less_eq add.assoc mult_Suc_right)
  have bad: "messageIn ! (inOff + 7 + 7 * i) = REFERENCE_TYPE"
            "\<not> subrequest_in_range messageIn (inOff + 7 + 7 * i)"
    using Suc.prems(6,7) by (simp_all add: add.assoc)
  have inb': "inOff + 7 + 7 * i + 6 < length messageIn"
    using Suc.prems(2) by simp
  have room': "outOff + ?n + 2 + (\<Sum>j<i. subrequest_answer_bytes messageIn (inOff + 7 + 7 * j))
                \<le> length out2"
    using room l2 by simp
  obtain out where ih:
    "requestRead_loop k' fileStore messageIn (inOff + 7) (outOff + ?n + 2)
       (totalLength + ?r * 2 + 2) ret1 out2 = Some (uint ILLEGAL_DATA_ADDRESS, out)"
    "length out = length out2" "take (outOff + ?n + 2) out = take (outOff + ?n + 2) out2"
    using Suc.IH [OF k(2) inb' rest room' Suc.prems(5) bad] by blast
  have "take outOff out = take outOff (take (outOff + ?n + 2) out)" by simp
  also have "\<dots> = take outOff (take (outOff + ?n + 2) out2)" using ih(3) by simp
  also have "\<dots> = take outOff messageOut" using t2 by simp
  finally have t: "take outOff out = take outOff messageOut" .
  have "requestRead_loop k fileStore messageIn inOff outOff totalLength ret messageOut
          = Some (uint ILLEGAL_DATA_ADDRESS, out)"
    unfolding k(1) using first(1) inb outb range fr(1) ih(1)
    by (simp add: Let_def SUBREQUEST_LENGTH_def)
  then show ?case using ih(2) l2 t by simp
qed


lemma take_3_nth:
  assumes "3 \<le> length xs"
  shows "take 3 xs = [xs ! 0, xs ! 1, xs ! 2]"
proof -
  obtain a xs1 where 1: "xs = a # xs1" using assms by (cases xs) auto
  obtain b xs2 where 2: "xs1 = b # xs2" using assms 1 by (cases xs1) auto
  obtain c xs3 where 3: "xs2 = c # xs3" using assms 1 2 by (cases xs2) auto
  show ?thesis unfolding 1 2 3 by (simp add: eval_nat_numeral)
qed

lemma take_5_nth:
  assumes "5 \<le> length xs"
  shows "take 5 xs = [xs ! 0, xs ! 1, xs ! 2, xs ! 3, xs ! 4]"
proof -
  obtain a xs1 where 1: "xs = a # xs1" using assms by (cases xs) auto
  obtain b xs2 where 2: "xs1 = b # xs2" using assms 1 by (cases xs1) auto
  obtain c xs3 where 3: "xs2 = c # xs3" using assms 1 2 by (cases xs2) auto
  obtain d xs4 where 4: "xs3 = d # xs4" using assms 1 2 3 by (cases xs3) auto
  obtain e xs5 where 5: "xs4 = e # xs5" using assms 1 2 3 4 by (cases xs4) auto
  show ?thesis unfolding 1 2 3 4 5 by (simp add: eval_nat_numeral)
qed

lemma GetCRC_take: "GetCRC (take n message) n = GetCRC message n"
  by (simp add: GetCRC_def)

lemma simulator_reply_exception:
  assumes p: "processIncomingMessage fileStore messageIn messageOut = Some (uint code, out, fs)"
      and c: "code \<noteq> 0"
      and l: "length messageIn = MESSAGE_BYTES" "length messageOut = MESSAGE_BYTES"
             "length out = MESSAGE_BYTES"
  shows "simulator_reply fileStore messageIn messageOut
           = Some (Sends (exception_frame (out ! 0) (out ! 1) code), fs)"
proof -
  let ?out3 = "out[1 := out ! 1 OR 0x80, 2 := code]"
  let ?crc = "GetCRC ?out3 3"
  let ?out4 = "?out3[3 := ucast (?crc AND 0xFF), 4 := ucast (drop_bit 8 ?crc)]"
  have l3: "length ?out3 = 256" using l(3) by (simp add: MESSAGE_BYTES_def)
  have t3: "take 3 ?out3 = [out ! 0, out ! 1 OR 0x80, code]"
    using l3 by (simp add: take_3_nth)
  have "?crc = GetCRC (take 3 ?out3) 3" by (simp only: GetCRC_take)
  then have crc: "?crc = GetCRC [out ! 0, out ! 1 OR 0x80, code] 3" using t3 by simp
  have a: "AddCRC ?out3 3 MESSAGE_BYTES = (True, ?out4)"
    by (simp add: AddCRC_def MESSAGE_BYTES_def Let_def)
  have "take 5 ?out4 = [?out4 ! 0, ?out4 ! 1, ?out4 ! 2, ?out4 ! 3, ?out4 ! 4]"
    using l3 by (intro take_5_nth) simp
  also have "\<dots> = [out ! 0, out ! 1 OR 0x80, code, ucast (?crc AND 0xFF), ucast (drop_bit 8 ?crc)]"
    using l3 by simp
  also have "\<dots> = exception_frame (out ! 0) (out ! 1) code"
    unfolding crc by (simp add: exception_frame_def Let_def)
  finally have t5: "take 5 ?out4 = exception_frame (out ! 0) (out ! 1) code" .
  have "uint code \<noteq> 0" using c by (simp add: uint_0_iff)
  then show ?thesis
    using p l(1,2) a t5 by (simp add: simulator_reply_def Let_def)
qed

lemma nth_from_take:
  assumes "take n xs = take n ys" "i < n"
  shows "xs ! i = ys ! i"
  using assms by (metis nth_take)

lemma simulator_rejects_read:
  assumes l: "length messageIn = MESSAGE_BYTES" "length messageOut = MESSAGE_BYTES"
             "length fileStore = FILES * FILE_BYTES"
      and f: "messageIn ! 1 = 0x14"
      and b: "0x07 \<le> messageIn ! 2" "messageIn ! 2 \<le> 0xF5"
      and i: "i < unat (messageIn ! 2) div 7"
      and before: "\<forall>j<i. messageIn ! (3 + 7 * j) = REFERENCE_TYPE \<and>
                          subrequest_in_range messageIn (3 + 7 * j) \<and>
                          be16 messageIn (3 + 7 * j + 1) \<noteq> 6"
      and room: "3 + (\<Sum>j<i. subrequest_answer_bytes messageIn (3 + 7 * j)) \<le> MESSAGE_BYTES"
      and bad: "messageIn ! (3 + 7 * i) = REFERENCE_TYPE"
               "\<not> subrequest_in_range messageIn (3 + 7 * i)"
  shows "simulator_reply fileStore messageIn messageOut
           = Some (Sends (exception_frame (messageIn ! 0) (messageIn ! 1) ILLEGAL_DATA_ADDRESS),
                   fileStore)"
proof -
  let ?out1 = "messageOut[0 := messageIn ! 0, 1 := messageIn ! 1]"
  have "unat (messageIn ! 2) \<le> 245" using b(2) by (simp add: word_le_nat_alt)
  then have "i < 35" using i by simp
  then have inb: "3 + 7 * i + 6 < length messageIn" using l(1) by (simp add: MESSAGE_BYTES_def)
  have room': "3 + (\<Sum>j<i. subrequest_answer_bytes messageIn (3 + 7 * j)) \<le> length ?out1"
    using room l(2) by simp
  obtain out where loop:
    "requestRead_loop (unat (messageIn ! 2) div 7) fileStore messageIn 3 3 0 0 ?out1
       = Some (uint ILLEGAL_DATA_ADDRESS, out)"
    "length out = length ?out1" "take 3 out = take 3 ?out1"
    using requestRead_loop_rejects [OF i inb _ room' l(3) bad, of 0 0] before by blast
  have lo: "length out = MESSAGE_BYTES" using loop(2) l(2) by simp
  have o: "out ! 0 = messageIn ! 0" "out ! 1 = messageIn ! 1"
    using nth_from_take [OF loop(3), of 0] nth_from_take [OF loop(3), of 1] l(2)
    by (simp_all add: MESSAGE_BYTES_def)
  have "processIncomingMessage fileStore messageIn messageOut
          = Some (uint ILLEGAL_DATA_ADDRESS, out, fileStore)"
    using l f b loop(1)
    by (simp add: processIncomingMessage_def requestRead_def Let_def MESSAGE_BYTES_def)
  then show ?thesis
    using simulator_reply_exception [OF _ _ l(1,2) lo, of fileStore ILLEGAL_DATA_ADDRESS fileStore] o
    by (simp add: ILLEGAL_DATA_ADDRESS_def)
qed

lemma simulator_rejects_write:
  assumes l: "length messageIn = MESSAGE_BYTES" "length messageOut = MESSAGE_BYTES"
      and f: "messageIn ! 1 = 0x15"
      and b: "0 < messageIn ! 2"
      and bad: "messageIn ! 3 = REFERENCE_TYPE" "\<not> subrequest_in_range messageIn 3"
  shows "simulator_reply fileStore messageIn messageOut
           = Some (Sends (exception_frame (messageIn ! 0) (messageIn ! 1) ILLEGAL_DATA_ADDRESS),
                   fileStore)"
proof -
  let ?out1 = "messageOut[0 := messageIn ! 0, 1 := messageIn ! 1]"
  let ?out = "?out1[3 := REFERENCE_TYPE, 4 := messageIn ! 4, 5 := messageIn ! 5,
                    6 := messageIn ! 6, 7 := messageIn ! 7, 8 := 0, 9 := messageIn ! 9]"
  have r: "\<not> be16 messageIn 6 + uint (messageIn ! 9) < 10000"
    using bad(2) by (simp add: subrequest_in_range_def)
  have n: "0 < unat (messageIn ! 2)" using b by (simp add: word_less_nat_alt)
  have "requestWrite_loop fileStore messageIn 3 3 0 0 ?out1
          = Some (uint ILLEGAL_DATA_ADDRESS, ?out, fileStore)"
    using l n r bad(1)
    by (subst requestWrite_loop.simps) (simp add: Let_def MESSAGE_BYTES_def)
  then have "processIncomingMessage fileStore messageIn messageOut
          = Some (uint ILLEGAL_DATA_ADDRESS, ?out, fileStore)"
    using l f by (simp add: processIncomingMessage_def requestWrite_def Let_def MESSAGE_BYTES_def)
  moreover have "length ?out = MESSAGE_BYTES" using l(2) by simp
  moreover have "?out ! 0 = messageIn ! 0" "?out ! 1 = messageIn ! 1"
    using l(2) by (simp_all add: MESSAGE_BYTES_def)
  ultimately show ?thesis
    using simulator_reply_exception [OF _ _ l(1,2), of fileStore ILLEGAL_DATA_ADDRESS ?out fileStore]
    by (simp add: ILLEGAL_DATA_ADDRESS_def)
qed


lemma file_request_packet:
  assumes "3 + m \<le> n0" "m \<le> length messageArray"
  shows "take (3 + m) (memcpy ((replicate n0 (0 :: 8 word))[0 := a, 1 := b, 2 := c]) 3 messageArray m)
           = [a, b, c] @ take m messageArray"
proof -
  let ?dst = "(replicate n0 (0 :: 8 word))[0 := a, 1 := b, 2 := c]"
  have "take 3 ?dst = [?dst ! 0, ?dst ! 1, ?dst ! 2]"
    using assms(1) by (intro take_3_nth) simp
  also have "\<dots> = [a, b, c]" using assms(1) by simp
  finally have h: "take 3 ?dst = [a, b, c]" .
  have "take (3 + m) (memcpy ?dst 3 messageArray m) = take 3 ?dst @ take m messageArray"
    using assms by (simp add: memcpy_def)
  then show ?thesis using h by simp
qed

lemma file_request_sent:
  assumes snd: "\<And>buf. send pf (fd hndl) buf = int (length buf)"
      and len: "m + 3 \<le> MAX_PDU_LENGTH" "m \<le> length messageArray" "MAX_PDU_LENGTH \<le> n0"
  shows "\<exists>frame.
           take (3 + m) (drop (transport_header (type hndl)) frame)
             = [a, b, c] @ take m messageArray \<and>
           ModBusWrite pf (hndl\<lparr>isCFG := False\<rparr>) w
               (memcpy ((replicate n0 0)[0 := a, 1 := b, 2 := c]) 3 messageArray m) (3 + m)
             = (True,
                hndl\<lparr>isCFG := False, state := WaitingForResponse, pduLength := 0,
                     transactionId := transactionIdentifier w\<rparr>,
                w\<lparr>sent := sent w @ [(fd hndl, frame)],
                  transactionIdentifier := transactionIdentifier w + 1\<rparr>)"
proof -
  let ?msg = "memcpy ((replicate n0 0)[0 := a, 1 := b, 2 := c]) 3 messageArray m"
  let ?h = "hndl\<lparr>isCFG := False\<rparr>"
  have s: "\<And>buf. send pf (fd ?h) buf = int (length buf)" using snd by simp
  have lm: "3 + m \<le> length ?msg" using len by (simp add: length_memcpy)
  have lp: "3 + m \<le> MAX_PDU_LENGTH" using len by simp
  obtain frame where
    fr: "take (3 + m) (drop (transport_header (type ?h)) frame) = take (3 + m) ?msg"
    and wr: "ModBusWrite pf ?h w ?msg (3 + m) =
       (True,
        ?h\<lparr>state := WaitingForResponse, pduLength := 0, transactionId := transactionIdentifier w\<rparr>,
        w\<lparr>sent := sent w @ [(fd ?h, frame)],
          transactionIdentifier := transactionIdentifier w + 1\<rparr>)"
    using ModBusWrite_sends [OF lp lm s, of w] by auto
  have "take (3 + m) ?msg = [a, b, c] @ take m messageArray"
    using len by (intro file_request_packet) simp_all
  then show ?thesis using fr wr by (intro exI [of _ frame]) simp
qed

lemma WaitForData_answered:
  assumes st: "state hndl = WaitingForResponse"
      and acc: "MessageHandler hndl reply (length reply) = (success, h3)"
  shows "WaitForData hndl w timeout (Epoll True False (int (length reply)) reply # env)
           = Some (True, h3\<lparr>state := Idle\<rparr>, w\<lparr>sleeps := sleeps w + 1\<rparr>)"
proof -
  have "length reply < MAX_PDU_LENGTH" using MessageHandler_success_fits [OF acc] by simp
  then have "nat (int (length reply) mod 65536) = length reply"
    by (simp add: length_defs nat_mod_distrib flip: of_nat_mod)
  then have "EpollThread_event hndl (Epoll True False (int (length reply)) reply)
               = h3\<lparr>state := DataReceived\<rparr>"
    using st acc by (simp add: ModBusRead_def)
  then show ?thesis
    using st by (cases env) (simp_all add: WaitForData_def Let_def)
qed

lemma ReadFile_no_answer:
  assumes idle: "state hndl = Idle"
      and snd: "\<And>buf. send pf (fd hndl) buf = int (length buf)"
      and len: "unat messageLength + PDU_HEADER_LENGTH \<le> MAX_PDU_LENGTH"
      and arr: "unat messageLength \<le> length messageArray"
      and t: "0 < timeout" "timeout + 2 \<le> n"
  shows "\<exists>frame hndl' w'.
           ReadFile pf (replicate n Quiet) hndl w slaveID messageArray messageLength readArray timeout
             = Some (False, readArray[0 := MODBUS_TIMEOUT], hndl', w') \<and>
           sent w' = sent w @ [(fd hndl, frame)] \<and>
           take (PDU_HEADER_LENGTH + unat messageLength) (drop (transport_header (type hndl)) frame)
             = [slaveID, READ_FILE, messageLength] @ take (unat messageLength) messageArray"
proof -
  let ?m = "unat messageLength"
  have l: "?m + 3 \<le> MAX_PDU_LENGTH" "MAX_PDU_LENGTH \<le> MAX_PDU_LENGTH + PDU_HEADER_LENGTH"
    using len by (simp_all add: length_defs)
  have pl: "(3 + ?m) mod 65536 = 3 + ?m" "?m < MAX_PDU_LENGTH" using len by (simp_all add: length_defs)
  obtain frame where
    fr: "take (3 + ?m) (drop (transport_header (type hndl)) frame)
           = [slaveID, READ_FILE, messageLength] @ take ?m messageArray"
    and wr: "ModBusWrite pf (hndl\<lparr>isCFG := False\<rparr>) w
               (memcpy ((replicate (MAX_PDU_LENGTH + PDU_HEADER_LENGTH) 0)
                          [0 := slaveID, 1 := READ_FILE, 2 := messageLength]) 3 messageArray ?m)
               (3 + ?m)
             = (True,
                hndl\<lparr>isCFG := False, state := WaitingForResponse, pduLength := 0,
                     transactionId := transactionIdentifier w\<rparr>,
                w\<lparr>sent := sent w @ [(fd hndl, frame)],
                  transactionIdentifier := transactionIdentifier w + 1\<rparr>)"
    using file_request_sent [OF snd l(1) arr l(2), of slaveID READ_FILE messageLength w] by blast
  let ?h2 = "hndl\<lparr>isCFG := False, state := WaitingForResponse, pduLength := 0,
                   transactionId := transactionIdentifier w\<rparr>"
  have wt: "state ?h2 = WaitingForResponse" by simp
  show ?thesis
    apply (rule exI [of _ frame])
    using idle wr pl fr t WaitForData_quiet [OF wt t(1), of _ n]
    by (simp add: ReadFile_def Let_def PDU_HEADER_LENGTH_def)
qed

lemma ReadFile_exception_answer:
  assumes idle: "state hndl = Idle"
      and snd: "\<And>buf. send pf (fd hndl) buf = int (length buf)"
      and len: "unat messageLength + PDU_HEADER_LENGTH \<le> MAX_PDU_LENGTH"
      and arr: "unat messageLength \<le> length messageArray"
      and acc: "MessageHandler
                  (hndl\<lparr>isCFG := False, state := WaitingForResponse, pduLength := 0,
                        transactionId := transactionIdentifier w\<rparr>)
                  reply (length reply) = (success, h3)"
      and exc: "pdu h3 ! 1 AND MODBUS_EXCEPTION_BIT \<noteq> 0"
  shows "\<exists>frame w'.
           ReadFile pf (Epoll True False (int (length reply)) reply # env) hndl w slaveID
               messageArray messageLength readArray timeout
             = Some (False, readArray[0 := pdu h3 ! 2], h3\<lparr>state := Idle\<rparr>, w') \<and>
           sent w' = sent w @ [(fd hndl, frame)] \<and>
           take (PDU_HEADER_LENGTH + unat messageLength) (drop (transport_header (type hndl)) frame)
             = [slaveID, READ_FILE, messageLength] @ take (unat messageLength) messageArray"
proof -
  let ?m = "unat messageLength"
  have l: "?m + 3 \<le> MAX_PDU_LENGTH" "MAX_PDU_LENGTH \<le> MAX_PDU_LENGTH + PDU_HEADER_LENGTH"
    using len by (simp_all add: length_defs)
  have pl: "(3 + ?m) mod 65536 = 3 + ?m" "?m < MAX_PDU_LENGTH" using len by (simp_all add: length_defs)
  obtain frame where
    fr: "take (3 + ?m) (drop (transport_header (type hndl)) frame)
           = [slaveID, READ_FILE, messageLength] @ take ?m messageArray"
    and wr: "ModBusWrite pf (hndl\<lparr>isCFG := False\<rparr>) w
               (memcpy ((replicate (MAX_PDU_LENGTH + PDU_HEADER_LENGTH) 0)
                          [0 := slaveID, 1 := READ_FILE, 2 := messageLength]) 3 messageArray ?m)
               (3 + ?m)
             = (True,
                hndl\<lparr>isCFG := False, state := WaitingForResponse, pduLength := 0,
                     transactionId := transactionIdentifier w\<rparr>,
                w\<lparr>sent := sent w @ [(fd hndl, frame)],
                  transactionIdentifier := transactionIdentifier w + 1\<rparr>)"
    using file_request_sent [OF snd l(1) arr l(2), of slaveID READ_FILE messageLength w] by blast
  let ?h2 = "hndl\<lparr>isCFG := False, state := WaitingForResponse, pduLength := 0,
                   transactionId := transactionIdentifier w\<rparr>"
  have wt: "state ?h2 = WaitingForResponse" by simp
  show ?thesis
    apply (rule exI [of _ frame])
    using idle wr pl fr exc WaitForData_answered [OF wt acc, of _ timeout env]
    by (simp add: ReadFile_def Let_def PDU_HEADER_LENGTH_def)
qed

lemma WriteFile_no_answer:
  assumes idle: "state hndl = Idle"
      and snd: "\<And>buf. send pf (fd hndl) buf = int (length buf)"
      and len: "unat messageLength + PDU_HEADER_LENGTH \<le> MAX_PDU_LENGTH"
      and arr: "unat messageLength \<le> length messageArray"
      and t: "0 < timeout" "timeout + 2 \<le> n"
  shows "\<exists>frame hndl' w'.
           WriteFile pf (replicate n Quiet) hndl w slaveID messageArray messageLength readArray timeout
             = Some (False, readArray[0 := MODBUS_TIMEOUT], hndl', w') \<and>
           sent w' = sent w @ [(fd hndl, frame)] \<and>
           take (PDU_HEADER_LENGTH + unat messageLength) (drop (transport_header (type hndl)) frame)
             = [slaveID, WRITE_FILE, messageLength] @ take (unat messageLength) messageArray"
proof -
  let ?m = "unat messageLength"
  have l: "?m + 3 \<le> MAX_PDU_LENGTH" "MAX_PDU_LENGTH \<le> MAX_PDU_LENGTH"
    using len by (simp_all add: length_defs)
  have pl: "(3 + ?m) mod 65536 = 3 + ?m" using len by (simp_all add: length_defs)
  obtain frame where
    fr: "take (3 + ?m) (drop (transport_header (type hndl)) frame)
           = [slaveID, WRITE_FILE, messageLength] @ take ?m messageArray"
    and wr: "ModBusWrite pf (hndl\<lparr>isCFG := False\<rparr>) w
               (memcpy ((replicate MAX_PDU_LENGTH 0)
                          [0 := slaveID, 1 := WRITE_FILE, 2 := messageLength]) 3 messageArray ?m)
               (3 + ?m)
             = (True,
                hndl\<lparr>isCFG := False, state := WaitingForResponse, pduLength := 0,
                     transactionId := transactionIdentifier w\<rparr>,
                w\<lparr>sent := sent w @ [(fd hndl, frame)],
                  transactionIdentifier := transactionIdentifier w + 1\<rparr>)"
    using file_request_sent [OF snd l(1) arr l(2), of slaveID WRITE_FILE messageLength w] by blast
  let ?h2 = "hndl\<lparr>isCFG := False, state := WaitingForResponse, pduLength := 0,
                   transactionId := transactionIdentifier w\<rparr>"
  have wt: "state ?h2 = WaitingForResponse" by simp
  show ?thesis
    apply (rule exI [of _ frame])
    using idle wr pl fr t WaitForData_quiet [OF wt t(1), of _ n]
    by (simp add: WriteFile_def Let_def PDU_HEADER_LENGTH_def)
qed

lemma WriteFile_exception_answer:
  assumes idle: "state hndl = Idle"
      and snd: "\<And>buf. send pf (fd hndl) buf = int (length buf)"
      and len: "unat messageLength + PDU_HEADER_LENGTH \<le> MAX_PDU_LENGTH"
      and arr: "unat messageLength \<le> length messageArray"
      and acc: "MessageHandler
                  (hndl\<lparr>isCFG := False, state := WaitingForResponse, pduLength := 0,
                        transactionId := transactionIdentifier w\<rparr>)
                  reply (length reply) = (success, h3)"
      and exc: "pdu h3 ! 1 AND MODBUS_EXCEPTION_BIT \<noteq> 0"
  shows "\<exists>frame w'.
           WriteFile pf (Epoll True False (int (length reply)) reply # env) hndl w slaveID
               messageArray messageLength readArray timeout
             = Some (False, readArray[0 := pdu h3 ! 2], h3\<lparr>state := Idle\<rparr>, w') \<and>
           sent w' = sent w @ [(fd hndl, frame)] \<and>
           take (PDU_HEADER_LENGTH + unat messageLength) (drop (transport_header (type hndl)) frame)
             = [slaveID, WRITE_FILE, messageLength] @ take (unat messageLength) messageArray"
proof -
  let ?m = "unat messageLength"
  have l: "?m + 3 \<le> MAX_PDU_LENGTH" "MAX_PDU_LENGTH \<le> MAX_PDU_LENGTH"
    using len by (simp_all add: length_defs)
  have pl: "(3 + ?m) mod 65536 = 3 + ?m" using len by (simp_all add: length_defs)
  obtain frame where
    fr: "take (3 + ?m) (drop (transport_header (type hndl)) frame)
           = [slaveID, WRITE_FILE, messageLength] @ take ?m messageArray"
    and wr: "ModBusWrite pf (hndl\<lparr>isCFG := False\<rparr>) w
               (memcpy ((replicate MAX_PDU_LENGTH 0)
                          [0 := slaveID, 1 := WRITE_FILE, 2 := messageLength]) 3 messageArray ?m)
               (3 + ?m)
             = (True,
                hndl\<lparr>isCFG := False, state := WaitingForResponse, pduLength := 0,
                     transactionId := transactionIdentifier w\<rparr>,
                w\<lparr>sent := sent w @ [(fd hndl, frame)],
                  transactionIdentifier := transactionIdentifier w + 1\<rparr>)"
    using file_request_sent [OF snd l(1) arr l(2), of slaveID WRITE_FILE messageLength w] by blast
  let ?h2 = "hndl\<lparr>isCFG := False, state := WaitingForResponse, pduLength := 0,
                   transactionId := transactionIdentifier w\<rparr>"
  have wt: "state ?h2 = WaitingForResponse" by simp
  show ?thesis
    apply (rule exI [of _ frame])
    using idle wr pl fr exc WaitForData_answered [OF wt acc, of _ timeout env]
    by (simp add: WriteFile_def Let_def PDU_HEADER_LENGTH_def)
qed

lemma replicate_update_0: "0 < n \<Longrightarrow> (replicate n x)[0 := y] = y # replicate (n - 1) x"
  by (cases n) simp_all

lemma far_subrequest_built:
  "ReadFileSubRequestBuilder [0, 0, 0, 0, 0, 0, 0] 0 4 9999 10 = (7, far_subrequest)"
  by (simp add: ReadFileSubRequestBuilder_def far_subrequest_def)

lemmas request_eval = ReadFile_def ModBusWrite_def SendToSlave_def AddCRC_def GetCRC_def
  crc_step_def CRCTable_def memcpy_def fcode_defs error_defs length_defs Let_def
  fresh_handle_def loopback_def start_world_def far_subrequest_def replicate_update_0

lemma ReadFile_far_unanswered:
  "ReadFile loopback (replicate 12 Quiet) (fresh_handle rtuOverTcp) start_world 1
      far_subrequest 7 [0] 10
     = Some (False, [MODBUS_TIMEOUT], fresh_handle rtuOverTcp,
             \<lparr>transactionIdentifier = 1, sent = [(3, far_request)], sleeps = 12\<rparr>)"
  by (simp add: request_eval far_request_def WaitForData_quiet)

text \<open>
  C8, as stated: a sub-request beyond the record range is rejected locally, with the
  illegal-data-address code and nothing sent. ReadFile for ten records from record 9999,
  on an idle RTU-over-stream handle and with no answer coming, passes the request frame
  to \<open>send\<close> and ends with \<open>MODBUS_TIMEOUT\<close>.
\<close>

theorem ReadFile_far_counterexample:
  "10000 \<le> (9999 :: int) + 10 \<and>
   ReadFileSubRequestBuilder [0, 0, 0, 0, 0, 0, 0] 0 4 9999 10 = (7, far_subrequest) \<and>
   state (fresh_handle rtuOverTcp) = Idle \<and>
   ReadFile loopback (replicate 12 Quiet) (fresh_handle rtuOverTcp) start_world 1
      far_subrequest 7 [0] 10
     = Some (False, [MODBUS_TIMEOUT], fresh_handle rtuOverTcp,
             \<lparr>transactionIdentifier = 1, sent = [(3, far_request)], sleeps = 12\<rparr>) \<and>
   MODBUS_TIMEOUT \<noteq> ILLEGAL_DATA_ADDRESS \<and> far_request \<noteq> []"
  using far_subrequest_built ReadFile_far_unanswered
  by (simp add: fresh_handle_def far_request_def error_defs)

text \<open>
  C8, amended. ReadFile and WriteFile do not look into the sub-requests. On an idle
  handle whose transport takes the frame, with a message of at most 251 bytes (it then
  fits \<open>MAX_PDU_LENGTH\<close> behind the three PDU header bytes), both pass to
  \<open>send\<close> one frame that holds, behind the transport header, the slave address, the
  function code, the message length and the caller's sub-request bytes unchanged,
  whatever record numbers and counts these encode. With a timeout above zero and no
  event from the delivery flow they return false with \<open>MODBUS_TIMEOUT\<close>. With an
  answer, delivered during the first sleep, that MessageHandler accepts and that has the
  exception bit in its function code, they return false with the exception code of that
  answer in the output buffer. ReadFile refuses a message length of
  \<open>MAX_PDU_LENGTH\<close> or more with \<open>MESSAGE_SEND_FAIL\<close> and nothing sent.

  The range test is the slave simulator's. One pass of its main loop, on its two arrays
  of 256 bytes, answers a read-file request (byte count 7 to 0xF5) with the exception
  frame for \<open>ILLEGAL_DATA_ADDRESS\<close> when a sub-request of reference type 6 has a
  record number plus record count of 10000 or more, and the sub-requests before it have
  reference type 6, are in range, name a file other than 6 and have answers that fit
  the output array together. It answers a write-file request with a byte count above
  zero so when the first sub-request has reference type 6 and is beyond the range. The
  file store is unchanged in both cases.
\<close>

theorem file_requests_checked_by_slave:
  assumes idle: "state hndl = Idle"
      and snd: "\<And>buf. send pf (fd hndl) buf = int (length buf)"
  shows
   "(unat messageLength + PDU_HEADER_LENGTH \<le> MAX_PDU_LENGTH \<and>
     unat messageLength \<le> length messageArray \<longrightarrow>
       (0 < timeout \<and> timeout + 2 \<le> n \<longrightarrow>
          (\<exists>frame hndl' w'.
             ReadFile pf (replicate n Quiet) hndl w slaveID messageArray messageLength readArray
                 timeout
               = Some (False, readArray[0 := MODBUS_TIMEOUT], hndl', w') \<and>
             sent w' = sent w @ [(fd hndl, frame)] \<and>
             take (PDU_HEADER_LENGTH + unat messageLength)
                  (drop (transport_header (type hndl)) frame)
               = [slaveID, READ_FILE, messageLength] @ take (unat messageLength) messageArray) \<and>
          (\<exists>frame hndl' w'.
             WriteFile pf (replicate n Quiet) hndl w slaveID messageArray messageLength readArray
                 timeout
               = Some (False, readArray[0 := MODBUS_TIMEOUT], hndl', w') \<and>
             sent w' = sent w @ [(fd hndl, frame)] \<and>
             take (PDU_HEADER_LENGTH + unat messageLength)
                  (drop (transport_header (type hndl)) frame)
               = [slaveID, WRITE_FILE, messageLength] @ take (unat messageLength) messageArray)) \<and>
       (MessageHandler
          (hndl\<lparr>isCFG := False, state := WaitingForResponse, pduLength := 0,
                transactionId := transactionIdentifier w\<rparr>)
          reply (length reply) = (success, accepted) \<and>
        pdu accepted ! 1 AND MODBUS_EXCEPTION_BIT \<noteq> 0 \<longrightarrow>
          (\<exists>frame w'.
             ReadFile pf (Epoll True False (int (length reply)) reply # env) hndl w slaveID
                 messageArray messageLength readArray timeout
               = Some (False, readArray[0 := pdu accepted ! 2], accepted\<lparr>state := Idle\<rparr>, w') \<and>
             sent w' = sent w @ [(fd hndl, frame)] \<and>
             take (PDU_HEADER_LENGTH + unat messageLength)
                  (drop (transport_header (type hndl)) frame)
               = [slaveID, READ_FILE, messageLength] @ take (unat messageLength) messageArray) \<and>
          (\<exists>frame w'.
             WriteFile pf (Epoll True False (int (length reply)) reply # env) hndl w slaveID
                 messageArray messageLength readArray timeout
               = Some (False, readArray[0 := pdu accepted ! 2], accepted\<lparr>state := Idle\<rparr>, w') \<and>
             sent w' = sent w @ [(fd hndl, frame)] \<and>
             take (PDU_HEADER_LENGTH + unat messageLength)
                  (drop (transport_header (type hndl)) frame)
               = [slaveID, WRITE_FILE, messageLength] @ take (unat messageLength) messageArray))) \<and>
    (\<not> unat messageLength < MAX_PDU_LENGTH \<longrightarrow>
       ReadFile pf env hndl w slaveID messageArray messageLength readArray timeout
         = Some (False, readArray[0 := MESSAGE_SEND_FAIL], hndl, w)) \<and>
    (length messageIn = MESSAGE_BYTES \<and> length messageOut = MESSAGE_BYTES \<and>
     length fileStore = FILES * FILE_BYTES \<and>
     messageIn ! 1 = 0x14 \<and> 0x07 \<le> messageIn ! 2 \<and> messageIn ! 2 \<le> 0xF5 \<and>
     i < unat (messageIn ! 2) div 7 \<and>
     (\<forall>j<i. messageIn ! (3 + 7 * j) = REFERENCE_TYPE \<and>
            subrequest_in_range messageIn (3 + 7 * j) \<and>
            be16 messageIn (3 + 7 * j + 1) \<noteq> 6) \<and>
     3 + (\<Sum>j<i. subrequest_answer_bytes messageIn (3 + 7 * j)) \<le> MESSAGE_BYTES \<and>
     messageIn ! (3 + 7 * i) = REFERENCE_TYPE \<and> \<not> subrequest_in_range messageIn (3 + 7 * i) \<longrightarrow>
       simulator_reply fileStore messageIn messageOut
         = Some (Sends (exception_frame (messageIn ! 0) (messageIn ! 1) ILLEGAL_DATA_ADDRESS),
                 fileStore)) \<and>
    (length messageIn = MESSAGE_BYTES \<and> length messageOut = MESSAGE_BYTES \<and>
     messageIn ! 1 = 0x15 \<and> 0 < messageIn ! 2 \<and>
     messageIn ! 3 = REFERENCE_TYPE \<and> \<not> subrequest_in_range messageIn 3 \<longrightarrow>
       simulator_reply fileStore messageIn messageOut
         = Some (Sends (exception_frame (messageIn ! 0) (messageIn ! 1) ILLEGAL_DATA_ADDRESS),
                 fileStore))"
proof (intro conjI impI)
  assume h: "unat messageLength + PDU_HEADER_LENGTH \<le> MAX_PDU_LENGTH \<and>
     unat messageLength \<le> length messageArray"
  then have len: "unat messageLength + PDU_HEADER_LENGTH \<le> MAX_PDU_LENGTH"
    and arr: "unat messageLength \<le> length messageArray" by simp_all
  assume t: "0 < timeout \<and> timeout + 2 \<le> n"
  then have t1: "0 < timeout" and t2: "timeout + 2 \<le> n" by simp_all
  show "\<exists>frame hndl' w'.
           ReadFile pf (replicate n Quiet) hndl w slaveID messageArray messageLength readArray
               timeout
             = Some (False, readArray[0 := MODBUS_TIMEOUT], hndl', w') \<and>
           sent w' = sent w @ [(fd hndl, frame)] \<and>
           take (PDU_HEADER_LENGTH + unat messageLength)
                (drop (transport_header (type hndl)) frame)
             = [slaveID, READ_FILE, messageLength] @ take (unat messageLength) messageArray"
    by (rule ReadFile_no_answer [OF idle snd len arr t1 t2])
  show "\<exists>frame hndl' w'.
           WriteFile pf (replicate n Quiet) hndl w slaveID messageArray messageLength readArray
               timeout
             = Some (False, readArray[0 := MODBUS_TIMEOUT], hndl', w') \<and>
           sent w' = sent w @ [(fd hndl, frame)] \<and>
           take (PDU_HEADER_LENGTH + unat messageLength)
                (drop (transport_header (type hndl)) frame)
             = [slaveID, WRITE_FILE, messageLength] @ take (unat messageLength) messageArray"
    by (rule WriteFile_no_answer [OF idle snd len arr t1 t2])
next
  assume h: "unat messageLength + PDU_HEADER_LENGTH \<le> MAX_PDU_LENGTH \<and>
   unat messageLength \<le> length messageArray"
  then have len: "unat messageLength + PDU_HEADER_LENGTH \<le> MAX_PDU_LENGTH"
  and arr: "unat messageLength \<le> length messageArray" by simp_all
  assume a: "MessageHandler
        (hndl\<lparr>isCFG := False, state := WaitingForResponse, pduLength := 0,
              transactionId := transactionIdentifier w\<rparr>)
        reply (length reply) = (success, accepted) \<and>
      pdu accepted ! 1 AND MODBUS_EXCEPTION_BIT \<noteq> 0"
  then have acc: "MessageHandler
        (hndl\<lparr>isCFG := False, state := WaitingForResponse, pduLength := 0,
              transactionId := transactionIdentifier w\<rparr>)
        reply (length reply) = (success, accepted)"
    and exc: "pdu accepted ! 1 AND MODBUS_EXCEPTION_BIT \<noteq> 0" by simp_all
  show "\<exists>frame w'.
           ReadFile pf (Epoll True False (int (length reply)) reply # env) hndl w slaveID
               messageArray messageLength readArray timeout
             = Some (False, readArray[0 := pdu accepted ! 2], accepted\<lparr>state := Idle\<rparr>, w') \<and>
           sent w' = sent w @ [(fd hndl, frame)] \<and>
           take (PDU_HEADER_LENGTH + unat messageLength)
                (drop (transport_header (type hndl)) frame)
             = [slaveID, READ_FILE, messageLength] @ take (unat messageLength) messageArray"
    by (rule ReadFile_exception_answer [OF idle snd len arr acc exc])
  show "\<exists>frame w'.
           WriteFile pf (Epoll True False (int (length reply)) reply # env) hndl w slaveID
               messageArray messageLength readArray timeout
             = Some (False, readArray[0 := pdu accepted ! 2], accepted\<lparr>state := Idle\<rparr>, w') \<and>
           sent w' = sent w @ [(fd hndl, frame)] \<and>
           take (PDU_HEADER_LENGTH + unat messageLength)
                (drop (transport_header (type hndl)) frame)
             = [slaveID, WRITE_FILE, messageLength] @ take (unat messageLength) messageArray"
    by (rule WriteFile_exception_answer [OF idle snd len arr acc exc])
next
  assume "\<not> unat messageLength < MAX_PDU_LENGTH"
  then show "ReadFile pf env hndl w slaveID messageArray messageLength readArray timeout
         = Some (False, readArray[0 := MESSAGE_SEND_FAIL], hndl, w)"
    using idle by (simp add: ReadFile_def)
next
  assume h: "length messageIn = MESSAGE_BYTES \<and> length messageOut = MESSAGE_BYTES \<and>
     length fileStore = FILES * FILE_BYTES \<and>
     messageIn ! 1 = 0x14 \<and> 0x07 \<le> messageIn ! 2 \<and> messageIn ! 2 \<le> 0xF5 \<and>
     i < unat (messageIn ! 2) div 7 \<and>
     (\<forall>j<i. messageIn ! (3 + 7 * j) = REFERENCE_TYPE \<and>
            subrequest_in_range messageIn (3 + 7 * j) \<and>
            be16 messageIn (3 + 7 * j + 1) \<noteq> 6) \<and>
     3 + (\<Sum>j<i. subrequest_answer_bytes messageIn (3 + 7 * j)) \<le> MESSAGE_BYTES \<and>
     messageIn ! (3 + 7 * i) = REFERENCE_TYPE \<and> \<not> subrequest_in_range messageIn (3 + 7 * i)"
  show "simulator_reply fileStore messageIn messageOut
         = Some (Sends (exception_frame (messageIn ! 0) (messageIn ! 1) ILLEGAL_DATA_ADDRESS),
                 fileStore)"
    using h by (intro simulator_rejects_read [of _ _ _ i]) simp_all
next
  assume h: "length messageIn = MESSAGE_BYTES \<and> length messageOut = MESSAGE_BYTES \<and>
     messageIn ! 1 = 0x15 \<and> 0 < messageIn ! 2 \<and>
     messageIn ! 3 = REFERENCE_TYPE \<and> \<not> subrequest_in_range messageIn 3"
  show "simulator_reply fileStore messageIn messageOut
         = Some (Sends (exception_frame (messageIn ! 0) (messageIn ! 1) ILLEGAL_DATA_ADDRESS),
                 fileStore)"
    using h by (intro simulator_rejects_write) simp_all
qed


text \<open>
  The theorem at the request of the counterexample and at a write request with the same
  sub-request, on an idle RTU-over-stream handle: the frames that go out when no answer
  comes; what the simulator answers to them, also when the sub-request beyond the range
  follows one in range; and the end of the calls when that answer is delivered during
  the first sleep, with \<open>ILLEGAL_DATA_ADDRESS\<close> in the output buffer.
\<close>

theorem file_requests_checked_by_slave_witness:
  "(\<exists>frame hndl' w'.
      ReadFile loopback (replicate 12 Quiet) (fresh_handle rtuOverTcp) start_world 1
          far_subrequest 7 [0] 10
        = Some (False, [MODBUS_TIMEOUT], hndl', w') \<and>
      sent w' = [(3, frame)] \<and> take 10 frame = take 10 far_request) \<and>
   (\<exists>frame hndl' w'.
      WriteFile loopback (replicate 12 Quiet) (fresh_handle rtuOverTcp) start_world 1
          far_subrequest 7 [0] 10
        = Some (False, [MODBUS_TIMEOUT], hndl', w') \<and>
      sent w' = [(3, frame)] \<and> take 10 frame = [1, WRITE_FILE, 7] @ far_subrequest) \<and>
   simulator_reply (replicate 120000 0) (far_request @ replicate 244 0) (replicate 256 0)
     = Some (Sends [1, 0x94, 2, 0xCF, 0x01], replicate 120000 0) \<and>
   simulator_reply (replicate 120000 0)
       ([1, 0x14, 14, 6, 0, 4, 0, 0, 0, 2, 6, 0, 4, 0x27, 0x0F, 0, 10] @ replicate 239 0)
       (replicate 256 0)
     = Some (Sends [1, 0x94, 2, 0xCF, 0x01], replicate 120000 0) \<and>
   simulator_reply (replicate 120000 0)
       ([1, 0x15, 7, 6, 0, 4, 0x27, 0x0F, 0, 10] @ replicate 246 0) (replicate 256 0)
     = Some (Sends [1, 0x95, 2, 0xCE, 0x91], replicate 120000 0) \<and>
   (\<exists>frame hndl' w'.
      ReadFile loopback [Epoll True False 5 [1, 0x94, 2, 0xCF, 0x01]] (fresh_handle rtuOverTcp)
          start_world 1 far_subrequest 7 [0] 10
        = Some (False, [ILLEGAL_DATA_ADDRESS], hndl', w') \<and>
      sent w' = [(3, frame)] \<and> take 10 frame = take 10 far_request) \<and>
   (\<exists>frame hndl' w'.
      WriteFile loopback [Epoll True False 5 [1, 0x95, 2, 0xCE, 0x91]] (fresh_handle rtuOverTcp)
          start_world 1 far_subrequest 7 [0] 10
        = Some (False, [ILLEGAL_DATA_ADDRESS], hndl', w') \<and>
      sent w' = [(3, frame)] \<and> take 10 frame = [1, WRITE_FILE, 7] @ far_subrequest) \<and>
   ReadFile loopback [] (fresh_handle rtuOverTcp) start_world 1 far_subrequest 254 [0] 10
     = Some (False, [MESSAGE_SEND_FAIL], fresh_handle rtuOverTcp, start_world)"
proof -
  let ?h = "fresh_handle rtuOverTcp"
  let ?fs = "replicate 120000 (0 :: 8 word)"
  let ?out = "replicate 256 (0 :: 8 word)"
  let ?in1 = "far_request @ replicate 244 0"
  let ?in2 = "[1, 0x14, 14, 6, 0, 4, 0, 0, 0, 2, 6, 0, 4, 0x27, 0x0F, 0, 10] @ replicate 239 (0 :: 8 word)"
  let ?in3 = "[1, 0x15, 7, 6, 0, 4, 0x27, 0x0F, 0, 10] @ replicate 246 (0 :: 8 word)"
  let ?r1 = "[1, 0x94, 2, 0xCF, 0x01 :: 8 word]"
  let ?r2 = "[1, 0x95, 2, 0xCE, 0x91 :: 8 word]"
  let ?w = "(fresh_handle rtuOverTcp)\<lparr>isCFG := False, state := WaitingForResponse, pduLength := 0,
               transactionId := transactionIdentifier start_world\<rparr>"
  let ?h1 = "?w\<lparr>bufferedMessage := ?r1 @ replicate 249 0, bufferedMessageLength := 0,
                pduLength := 3, lastTransactionId := 0x0194,
                pdu := [1, 0x94, 2] @ replicate 251 0\<rparr>"
  let ?h2 = "?w\<lparr>bufferedMessage := ?r2 @ replicate 249 0, bufferedMessageLength := 0,
                pduLength := 3, lastTransactionId := 0x0195,
                pdu := [1, 0x95, 2] @ replicate 251 0\<rparr>"
  have i: "state ?h = Idle" by (simp add: fresh_handle_def)
  have s: "\<And>buf. send loopback (fd ?h) buf = int (length buf)" by (simp add: loopback_def)
  have l: "length ?r1 = 5" "length ?r2 = 5" by simp_all
  have a1: "MessageHandler ?w ?r1 (length ?r1) = (success, ?h1)"
    unfolding l
    by (simp add: MessageHandler_eval fresh_handle_def start_world_def ValidateCRC_def GetCRC_def
        crc_step_def CRCTable_def)
  have a2: "MessageHandler ?w ?r2 (length ?r2) = (success, ?h2)"
    unfolding l
    by (simp add: MessageHandler_eval fresh_handle_def start_world_def ValidateCRC_def GetCRC_def
        crc_step_def CRCTable_def)
  have e: "exception_frame 1 0x14 ILLEGAL_DATA_ADDRESS = ?r1"
          "exception_frame 1 0x15 ILLEGAL_DATA_ADDRESS = ?r2"
    by (simp_all add: exception_frame_def GetCRC_def crc_step_def CRCTable_def error_defs)
  have b2: "\<forall>j<1. ?in2 ! (3 + 7 * j) = REFERENCE_TYPE \<and> subrequest_in_range ?in2 (3 + 7 * j) \<and>
                   be16 ?in2 (3 + 7 * j + 1) \<noteq> 6"
    by (simp add: REFERENCE_TYPE_def subrequest_in_range_def be16_def)
  note t1 = file_requests_checked_by_slave [OF i s, where messageLength = 7
      and messageArray = far_subrequest and timeout = 10 and n = 12 and w = start_world
      and slaveID = 1 and readArray = "[0]" and reply = ?r1 and accepted = ?h1 and env = "[]"
      and messageIn = ?in1 and i = 0 and fileStore = ?fs and messageOut = ?out]
  note t2 = file_requests_checked_by_slave [OF i s, where messageLength = 7
      and messageArray = far_subrequest and timeout = 10 and n = 12 and w = start_world
      and slaveID = 1 and readArray = "[0]" and reply = ?r2 and accepted = ?h2 and env = "[]"
      and messageIn = ?in3 and i = 1 and fileStore = ?fs and messageOut = ?out]
  note t3 = file_requests_checked_by_slave [OF i s, where messageLength = 254
      and messageArray = far_subrequest and timeout = 10 and w = start_world
      and slaveID = 1 and readArray = "[0]" and env = "[]"
      and messageIn = ?in2 and i = 1 and fileStore = ?fs and messageOut = ?out]
  have c1: "\<exists>frame hndl' w'.
      ReadFile loopback (replicate 12 Quiet) ?h start_world 1 far_subrequest 7 [0] 10
        = Some (False, [MODBUS_TIMEOUT], hndl', w') \<and>
      sent w' = [(3, frame)] \<and> take 10 frame = take 10 far_request"
    using t1
    by (simp add: length_defs far_subrequest_def far_request_def transport_header_def
        fresh_handle_def start_world_def fcode_defs)
  have c2: "\<exists>frame hndl' w'.
      WriteFile loopback (replicate 12 Quiet) ?h start_world 1 far_subrequest 7 [0] 10
        = Some (False, [MODBUS_TIMEOUT], hndl', w') \<and>
      sent w' = [(3, frame)] \<and> take 10 frame = [1, WRITE_FILE, 7] @ far_subrequest"
    using t1
    by (simp add: length_defs far_subrequest_def transport_header_def
        fresh_handle_def start_world_def)
  have c3: "simulator_reply ?fs ?in1 ?out = Some (Sends ?r1, ?fs)"
    using t1 e(1)
    by (simp add: far_request_def REFERENCE_TYPE_def subrequest_in_range_def be16_def
        MESSAGE_BYTES_def FILES_def FILE_BYTES_def)
  have c4: "simulator_reply ?fs ?in2 ?out = Some (Sends ?r1, ?fs)"
    using t3 e(1) b2
    by (simp add: REFERENCE_TYPE_def subrequest_in_range_def be16_def subrequest_answer_bytes_def
        MESSAGE_BYTES_def FILES_def FILE_BYTES_def)
  have c5: "simulator_reply ?fs ?in3 ?out = Some (Sends ?r2, ?fs)"
    using t2 e(2)
    by (simp add: REFERENCE_TYPE_def subrequest_in_range_def be16_def
        MESSAGE_BYTES_def FILES_def FILE_BYTES_def)
  have x: "pdu ?h1 ! 1 AND MODBUS_EXCEPTION_BIT \<noteq> 0" "pdu ?h2 ! 1 AND MODBUS_EXCEPTION_BIT \<noteq> 0"
    by (simp_all add: MODBUS_EXCEPTION_BIT_def)
  have p: "unat (7 :: 8 word) + PDU_HEADER_LENGTH \<le> MAX_PDU_LENGTH \<and>
           unat (7 :: 8 word) \<le> length far_subrequest"
    by (simp add: length_defs far_subrequest_def)
  note e1 = t1 [THEN conjunct1, THEN mp, OF p, THEN conjunct2, THEN mp, OF conjI, OF a1 x(1)]
  note e2 = t2 [THEN conjunct1, THEN mp, OF p, THEN conjunct2, THEN mp, OF conjI, OF a2 x(2)]
  have c6: "\<exists>frame hndl' w'.
      ReadFile loopback [Epoll True False 5 ?r1] ?h start_world 1 far_subrequest 7 [0] 10
        = Some (False, [ILLEGAL_DATA_ADDRESS], hndl', w') \<and>
      sent w' = [(3, frame)] \<and> take 10 frame = take 10 far_request"
    using e1 [THEN conjunct1]
    by (simp add: length_defs far_subrequest_def far_request_def transport_header_def
        fresh_handle_def start_world_def fcode_defs error_defs) blast
  have c7: "\<exists>frame hndl' w'.
      WriteFile loopback [Epoll True False 5 ?r2] ?h start_world 1 far_subrequest 7 [0] 10
        = Some (False, [ILLEGAL_DATA_ADDRESS], hndl', w') \<and>
      sent w' = [(3, frame)] \<and> take 10 frame = [1, WRITE_FILE, 7] @ far_subrequest"
    using e2 [THEN conjunct2]
    by (simp add: length_defs far_subrequest_def transport_header_def
        fresh_handle_def start_world_def error_defs) blast
  have c8: "ReadFile loopback [] ?h start_world 1 far_subrequest 254 [0] 10
     = Some (False, [MESSAGE_SEND_FAIL], ?h, start_world)"
    using t3 by (simp add: length_defs)
  show ?thesis using c1 c2 c3 c4 c5 c6 c7 c8 by simp
qed

end
